theory Spec2Isabelle
  imports Complex_Main
begin

section \<open>WebGL fluid simulation (fluid-simulation.js)\<close>

text \<open>
  A shallow embedding of the fluid solver of \<^verbatim>\<open>src/fluid-simulation.js\<close>.

  Conventions of the embedding.
  \<^item> A GLSL or JavaScript floating-point number is a \<^typ>\<open>real\<close>: rounding, overflow and
    NaN are not modelled.
  \<^item> A render target (the object returned by \<^verbatim>\<open>createFBO\<close>) is a record that carries, next to
    the JavaScript fields, the state of the GL texture it owns: storage format, sampling
    filter and texel contents.  Every texture of the program is owned by exactly one such
    object, so no aliasing is lost.  The handle \<open>texture\<close> is the number handed out by
    \<^verbatim>\<open>gl.createTexture\<close>.
  \<^item> A full-screen pass (\<^verbatim>\<open>blit\<close>) runs the fragment shader once per pixel of the viewport;
    the pixel with integer coordinates \<open>(x, y)\<close> of a viewport of \<open>w \<times> h\<close> pixels receives the
    interpolated varying \<open>vUv = ((x + 1/2) / w, (y + 1/2) / h)\<close>.
  \<^item> Every draw call is appended to the log \<open>draws\<close> of the state, with the program that was
    bound and the destination it was drawn into.
\<close>

subsection \<open>Vectors\<close>

type_synonym vec2 = "real \<times> real"

datatype vec4 = Vec4 (vx: real) (vy: real) (vz: real) (vw: real)

definition vscale :: "real \<Rightarrow> vec4 \<Rightarrow> vec4" where
  "vscale k v = Vec4 (k * vx v) (k * vy v) (k * vz v) (k * vw v)"

definition vadd :: "vec4 \<Rightarrow> vec4 \<Rightarrow> vec4" where
  "vadd a b = Vec4 (vx a + vx b) (vy a + vy b) (vz a + vz b) (vw a + vw b)"

definition vdiv :: "vec4 \<Rightarrow> real \<Rightarrow> vec4" where
  "vdiv v k = Vec4 (vx v / k) (vy v / k) (vz v / k) (vw v / k)"

text \<open>GLSL \<^verbatim>\<open>mix(a, b, t) = a * (1 - t) + b * t\<close>.\<close>

definition mix :: "vec4 \<Rightarrow> vec4 \<Rightarrow> real \<Rightarrow> vec4" where
  "mix a b t = vadd (vscale (1 - t) a) (vscale t b)"

text \<open>GLSL \<^verbatim>\<open>length\<close> of a \<^verbatim>\<open>vec2\<close> and of the \<^verbatim>\<open>rgb\<close> part of a texel.\<close>

definition length2 :: "vec2 \<Rightarrow> real" where
  "length2 v = sqrt (fst v * fst v + snd v * snd v)"

definition length3 :: "vec4 \<Rightarrow> real" where
  "length3 v = sqrt (vx v * vx v + vy v * vy v + vz v * vz v)"

subsection \<open>Textures and render targets\<close>

datatype texFilter = NEAREST | LINEAR

text \<open>
  The storage formats that \<^verbatim>\<open>getSupportedFormat\<close> can select: one, two or four half-float
  channels, or the four-channel \<^verbatim>\<open>RGBA\<close> fallback of \<^verbatim>\<open>getFallbackFormat\<close>.
\<close>

datatype texFormat = R16F | RG16F | RGBA16F | RGBA

text \<open>
  What a texture of the given format keeps of a colour written to it, as a later
  \<^verbatim>\<open>texture2D\<close> returns it: channels that are not stored read as \<open>0\<close>, a missing alpha as \<open>1\<close>.
\<close>

fun storeTexel :: "texFormat \<Rightarrow> vec4 \<Rightarrow> vec4" where
  "storeTexel R16F c = Vec4 (vx c) 0 0 1"
| "storeTexel RG16F c = Vec4 (vx c) (vy c) 0 1"
| "storeTexel RGBA16F c = c"
| "storeTexel RGBA c = c"

record FBO =
  texture :: nat
  width :: nat
  height :: nat
  texelSizeX :: real
  texelSizeY :: real
  internalFormat :: texFormat
  param :: texFilter
  pixels :: "nat \<Rightarrow> nat \<Rightarrow> vec4"

text \<open>
  The closure returned by \<^verbatim>\<open>createDoubleFBO\<close>: \<open>fbo1\<close> and \<open>fbo2\<close> are its two captured
  variables, \<^verbatim>\<open>read\<close> is the getter of \<open>fbo1\<close> and \<^verbatim>\<open>write\<close> the getter of \<open>fbo2\<close> (here \<open>dread\<close>
  and \<open>dwrite\<close>).  The fields are prefixed with \<open>d\<close> to keep them apart from those of
  \<^typ>\<open>FBO\<close>.
\<close>

record DoubleFBO =
  dwidth :: nat
  dheight :: nat
  dtexelSizeX :: real
  dtexelSizeY :: real
  fbo1 :: FBO
  fbo2 :: FBO

abbreviation dread :: "DoubleFBO \<Rightarrow> FBO" where
  "dread d \<equiv> fbo1 d"

abbreviation dwrite :: "DoubleFBO \<Rightarrow> FBO" where
  "dwrite d \<equiv> fbo2 d"

definition swap :: "DoubleFBO \<Rightarrow> DoubleFBO" where
  "swap d = d\<lparr>fbo1 := fbo2 d, fbo2 := fbo1 d\<rparr>"

text \<open>
  \<^verbatim>\<open>context.clearColor(0.0, 0.0, 0.0, 1.0)\<close> is set once in \<^verbatim>\<open>getWebGLContext\<close> and never
  changed; \<^verbatim>\<open>gl.clear(gl.COLOR_BUFFER_BIT)\<close> writes this colour to every texel of the bound
  target.
\<close>

definition clearColor :: vec4 where
  "clearColor = Vec4 0 0 0 1"

text \<open>
  \<^verbatim>\<open>createFBO(w, h, internalFormat, format, type, param, existingFbo)\<close>.  The last argument of
  the model is the number of textures created so far; the function returns the target and
  the new count.  \<^verbatim>\<open>existingFbo\<close> is \<open>None\<close> where the source passes \<^verbatim>\<open>undefined\<close>.
\<close>

definition createFBO ::
  "nat \<Rightarrow> nat \<Rightarrow> texFormat \<Rightarrow> texFilter \<Rightarrow> FBO option \<Rightarrow> nat \<Rightarrow> FBO \<times> nat" where
  "createFBO w h fmt prm existingFbo created =
     (case existingFbo of
        Some e \<Rightarrow>
          if width e = w \<and> height e = h then (e, created)
          else (\<lparr>texture = created, width = w, height = h,
                 texelSizeX = 1 / real w, texelSizeY = 1 / real h,
                 internalFormat = fmt, param = prm,
                 pixels = (\<lambda>x y. storeTexel fmt clearColor)\<rparr>, Suc created)
      | None \<Rightarrow>
          (\<lparr>texture = created, width = w, height = h,
            texelSizeX = 1 / real w, texelSizeY = 1 / real h,
            internalFormat = fmt, param = prm,
            pixels = (\<lambda>x y. storeTexel fmt clearColor)\<rparr>, Suc created))"

definition createDoubleFBO ::
  "nat \<Rightarrow> nat \<Rightarrow> texFormat \<Rightarrow> texFilter \<Rightarrow> DoubleFBO option \<Rightarrow> nat \<Rightarrow> DoubleFBO \<times> nat" where
  "createDoubleFBO w h fmt prm existingDouble created =
     (let fresh =
        (let (f1, c1) = createFBO w h fmt prm None created;
             (f2, c2) = createFBO w h fmt prm None c1
         in (\<lparr>dwidth = w, dheight = h,
               dtexelSizeX = texelSizeX f1, dtexelSizeY = texelSizeY f1,
               fbo1 = f1, fbo2 = f2\<rparr>, c2))
      in case existingDouble of
           Some e \<Rightarrow> if dwidth e = w \<and> dheight e = h then (e, created) else fresh
         | None \<Rightarrow> fresh)"

subsection \<open>Sampling\<close>

text \<open>
  All textures are created with \<^verbatim>\<open>CLAMP_TO_EDGE\<close>: a texel index outside the texture is
  moved to the nearest edge.  With \<^verbatim>\<open>NEAREST\<close> the texel under the coordinate is returned,
  with \<^verbatim>\<open>LINEAR\<close> the bilinear blend of the four texels around it.
\<close>

definition texelFetch :: "FBO \<Rightarrow> int \<Rightarrow> int \<Rightarrow> vec4" where
  "texelFetch t i j =
     pixels t (nat (max 0 (min (int (width t) - 1) i)))
              (nat (max 0 (min (int (height t) - 1) j)))"

definition texture2D :: "FBO \<Rightarrow> vec2 \<Rightarrow> vec4" where
  "texture2D t uv =
     (case param t of
        NEAREST \<Rightarrow>
          texelFetch t \<lfloor>fst uv * real (width t)\<rfloor> \<lfloor>snd uv * real (height t)\<rfloor>
      | LINEAR \<Rightarrow>
          (let sx = fst uv * real (width t) - 1 / 2;
               sy = snd uv * real (height t) - 1 / 2;
               i = \<lfloor>sx\<rfloor>; j = \<lfloor>sy\<rfloor>;
               fx = sx - of_int i; fy = sy - of_int j
           in mix (mix (texelFetch t i j) (texelFetch t (i + 1) j) fx)
                  (mix (texelFetch t i (j + 1)) (texelFetch t (i + 1) (j + 1)) fx) fy))"

subsection \<open>The vertex shader and the rasteriser\<close>

record varyings =
  vUv :: vec2
  vL :: vec2
  vR :: vec2
  vT :: vec2
  vB :: vec2

text \<open>\<^verbatim>\<open>baseVertexShader\<close>, given the uniform \<^verbatim>\<open>texelSize\<close> and the interpolated \<^verbatim>\<open>vUv\<close>.\<close>

definition baseVertexShader :: "vec2 \<Rightarrow> vec2 \<Rightarrow> varyings" where
  "baseVertexShader texelSize uv =
     \<lparr>vUv = uv,
      vL = (fst uv - fst texelSize, snd uv),
      vR = (fst uv + fst texelSize, snd uv),
      vT = (fst uv, snd uv + snd texelSize),
      vB = (fst uv, snd uv - snd texelSize)\<rparr>"

definition pixelUv :: "nat \<times> nat \<Rightarrow> nat \<Rightarrow> nat \<Rightarrow> vec2" where
  "pixelUv viewport x y =
     ((real x + 1 / 2) / real (fst viewport), (real y + 1 / 2) / real (snd viewport))"

text \<open>
  \<^verbatim>\<open>blit(destination.fbo)\<close>, given the viewport, the uniform \<^verbatim>\<open>texelSize\<close> of the bound program
  and its fragment shader with the other uniforms applied.  Blending is never enabled, so
  every pixel of the viewport that lies in the destination is overwritten by the colour the
  fragment shader emits there.
\<close>

definition blit :: "nat \<times> nat \<Rightarrow> vec2 \<Rightarrow> (varyings \<Rightarrow> vec4) \<Rightarrow> FBO \<Rightarrow> FBO" where
  "blit viewport texelSize frag destination =
     destination\<lparr>pixels :=
       (\<lambda>x y. if x < fst viewport \<and> y < snd viewport
                  \<and> x < width destination \<and> y < height destination
               then storeTexel (internalFormat destination)
                      (frag (baseVertexShader texelSize (pixelUv viewport x y)))
               else pixels destination x y)\<rparr>"

text \<open>
  \<^verbatim>\<open>blit(null)\<close>: the same pass drawn into the canvas, whose contents are the function from
  pixel coordinates to the colour last drawn there.
\<close>

definition blitScreen ::
  "nat \<times> nat \<Rightarrow> vec2 \<Rightarrow> (varyings \<Rightarrow> vec4) \<Rightarrow> (nat \<Rightarrow> nat \<Rightarrow> vec4) \<Rightarrow> (nat \<Rightarrow> nat \<Rightarrow> vec4)" where
  "blitScreen viewport texelSize frag scr =
     (\<lambda>x y. if x < fst viewport \<and> y < snd viewport
             then frag (baseVertexShader texelSize (pixelUv viewport x y))
             else scr x y)"

subsection \<open>The fragment shaders\<close>

text \<open>
  Each shader is a function of its uniforms (first) and of the varyings of the pixel
  (last).  A sampler uniform is given as the render target whose texture is attached to it.
\<close>

definition copyShader :: "FBO \<Rightarrow> varyings \<Rightarrow> vec4" where
  "copyShader uTexture v = texture2D uTexture (vUv v)"

definition clearShader :: "FBO \<Rightarrow> real \<Rightarrow> varyings \<Rightarrow> vec4" where
  "clearShader uTexture val v = vscale val (texture2D uTexture (vUv v))"

definition colorShader :: "vec4 \<Rightarrow> varyings \<Rightarrow> vec4" where
  "colorShader color v = color"

definition displayShader :: "FBO \<Rightarrow> vec2 \<Rightarrow> real \<Rightarrow> varyings \<Rightarrow> vec4" where
  "displayShader uTexture texelSize lightingStrength v =
     (let color = texture2D uTexture (vUv v);
          L = texture2D uTexture (vL v);
          R = texture2D uTexture (vR v);
          T = texture2D uTexture (vT v);
          B = texture2D uTexture (vB v);
          dx = length3 R - length3 L;
          dy = length3 T - length3 B;
          nz = length2 texelSize;
          normalz = nz / sqrt (dx * dx + dy * dy + nz * nz);
          diffuse = min (max (normalz + lightingStrength) (3 / 10)) (125 / 100)
      in Vec4 (vx color * diffuse) (vy color * diffuse) (vz color * diffuse) 1)"

text \<open>
  The factor \<^verbatim>\<open>exp(-dot(p, p) / radius)\<close> of \<^verbatim>\<open>splatShader\<close>, where \<^verbatim>\<open>p\<close> is the offset of
  the pixel from the splat point with its first component scaled by the aspect ratio.
\<close>

definition splatWeight :: "real \<Rightarrow> vec2 \<Rightarrow> real \<Rightarrow> vec2 \<Rightarrow> real" where
  "splatWeight aspectRatio point radius uv =
     (let px = (fst uv - fst point) * aspectRatio;
          py = snd uv - snd point
      in exp (- (px * px + py * py) / radius))"

definition splatShader ::
  "FBO \<Rightarrow> real \<Rightarrow> real \<times> real \<times> real \<Rightarrow> vec2 \<Rightarrow> real \<Rightarrow> varyings \<Rightarrow> vec4" where
  "splatShader uTarget aspectRatio color point radius v =
     (let g = splatWeight aspectRatio point radius (vUv v);
          base = texture2D uTarget (vUv v)
      in Vec4 (vx base + g * fst color)
              (vy base + g * fst (snd color))
              (vz base + g * snd (snd color)) 1)"

definition bilerp :: "FBO \<Rightarrow> vec2 \<Rightarrow> vec2 \<Rightarrow> vec4" where
  "bilerp sam uv tsize =
     (let stx = fst uv / fst tsize - 1 / 2;
          sty = snd uv / snd tsize - 1 / 2;
          iuvx = real_of_int \<lfloor>stx\<rfloor>; iuvy = real_of_int \<lfloor>sty\<rfloor>;
          fuvx = stx - iuvx; fuvy = sty - iuvy;
          a = texture2D sam ((iuvx + 1 / 2) * fst tsize, (iuvy + 1 / 2) * snd tsize);
          b = texture2D sam ((iuvx + 3 / 2) * fst tsize, (iuvy + 1 / 2) * snd tsize);
          c = texture2D sam ((iuvx + 1 / 2) * fst tsize, (iuvy + 3 / 2) * snd tsize);
          d = texture2D sam ((iuvx + 3 / 2) * fst tsize, (iuvy + 3 / 2) * snd tsize)
      in mix (mix a b fuvx) (mix c d fuvx) fuvy)"

text \<open>
  \<^verbatim>\<open>advectionShader\<close>; the first argument says whether the shader was compiled with the
  keyword \<^verbatim>\<open>MANUAL_FILTERING\<close>, that is, whether \<^verbatim>\<open>ext.supportLinearFiltering\<close> is false.
\<close>

definition advectionShader ::
  "bool \<Rightarrow> FBO \<Rightarrow> FBO \<Rightarrow> vec2 \<Rightarrow> vec2 \<Rightarrow> real \<Rightarrow> real \<Rightarrow> varyings \<Rightarrow> vec4" where
  "advectionShader manualFiltering uVelocity uSource texelSize dyeTexelSize dt dissipation v =
     (let result =
        (if manualFiltering then
           (let vel = bilerp uVelocity (vUv v) texelSize;
                coord = (fst (vUv v) - dt * vx vel * fst texelSize,
                         snd (vUv v) - dt * vy vel * snd texelSize)
            in bilerp uSource coord dyeTexelSize)
         else
           (let vel = texture2D uVelocity (vUv v);
                coord = (fst (vUv v) - dt * vx vel * fst texelSize,
                         snd (vUv v) - dt * vy vel * snd texelSize)
            in texture2D uSource coord));
          decay = 1 + dissipation * dt
      in vdiv result decay)"

definition divergenceShader :: "FBO \<Rightarrow> varyings \<Rightarrow> vec4" where
  "divergenceShader uVelocity v =
     (let L0 = vx (texture2D uVelocity (vL v));
          R0 = vx (texture2D uVelocity (vR v));
          T0 = vy (texture2D uVelocity (vT v));
          B0 = vy (texture2D uVelocity (vB v));
          C = texture2D uVelocity (vUv v);
          L = (if fst (vL v) < 0 then - vx C else L0);
          R = (if fst (vR v) > 1 then - vx C else R0);
          T = (if snd (vT v) > 1 then - vy C else T0);
          B = (if snd (vB v) < 0 then - vy C else B0);
          dv = (1 / 2) * (R - L + T - B)
      in Vec4 dv 0 0 1)"

definition curlShader :: "FBO \<Rightarrow> varyings \<Rightarrow> vec4" where
  "curlShader uVelocity v =
     (let L = vy (texture2D uVelocity (vL v));
          R = vy (texture2D uVelocity (vR v));
          T = vx (texture2D uVelocity (vT v));
          B = vx (texture2D uVelocity (vB v));
          vorticity = R - L - T + B
      in Vec4 ((1 / 2) * vorticity) 0 0 1)"

definition vorticityShader :: "FBO \<Rightarrow> FBO \<Rightarrow> real \<Rightarrow> real \<Rightarrow> varyings \<Rightarrow> vec4" where
  "vorticityShader uVelocity uCurl curl dt v =
     (let L = vx (texture2D uCurl (vL v));
          R = vx (texture2D uCurl (vR v));
          T = vx (texture2D uCurl (vT v));
          B = vx (texture2D uCurl (vB v));
          C = vx (texture2D uCurl (vUv v));
          force0 = ((1 / 2) * (\<bar>T\<bar> - \<bar>B\<bar>), (1 / 2) * (\<bar>R\<bar> - \<bar>L\<bar>));
          len = length2 force0 + 1 / 10000;
          forcex = fst force0 / len * (curl * C);
          forcey = snd force0 / len * (curl * C) * (- 1);
          vel = texture2D uVelocity (vUv v)
      in Vec4 (vx vel + forcex * dt) (vy vel + forcey * dt) 0 1)"

definition pressureShader :: "FBO \<Rightarrow> FBO \<Rightarrow> varyings \<Rightarrow> vec4" where
  "pressureShader uPressure uDivergence v =
     (let L = vx (texture2D uPressure (vL v));
          R = vx (texture2D uPressure (vR v));
          T = vx (texture2D uPressure (vT v));
          B = vx (texture2D uPressure (vB v));
          divergence = vx (texture2D uDivergence (vUv v));
          pressure = (L + R + B + T - divergence) * (1 / 4)
      in Vec4 pressure 0 0 1)"

definition gradientSubtractShader :: "FBO \<Rightarrow> FBO \<Rightarrow> varyings \<Rightarrow> vec4" where
  "gradientSubtractShader uPressure uVelocity v =
     (let L = vx (texture2D uPressure (vL v));
          R = vx (texture2D uPressure (vR v));
          T = vx (texture2D uPressure (vT v));
          B = vx (texture2D uPressure (vB v));
          velocity = texture2D uVelocity (vUv v)
      in Vec4 (vx velocity - (R - L)) (vy velocity - (T - B)) 0 1)"

text \<open>The programs, each a \<^verbatim>\<open>const\<close> built by \<^verbatim>\<open>new Program(...)\<close>.\<close>

datatype program =
  CopyProgram | ClearProgram | ColorProgram | DisplayProgram | SplatProgram
  | AdvectionProgram | DivergenceProgram | CurlProgram | VorticityProgram
  | PressureProgram | GradienSubtractProgram

subsection \<open>Configuration, pointers and the state of the script\<close>

text \<open>A colour object \<^verbatim>\<open>{ r, g, b }\<close> and a palette entry \<^verbatim>\<open>{ h, s, v }\<close>.\<close>

datatype rgb = RGB (red: real) (green: real) (blue: real)

datatype hsv = HSV (hue: real) (saturation: real) (brightness: real)

record config =
  SIM_RESOLUTION :: real
  DYE_RESOLUTION :: real
  DENSITY_DISSIPATION :: real
  VELOCITY_DISSIPATION :: real
  PRESSURE :: real
  PRESSURE_ITERATIONS :: nat
  CURL :: real
  SPLAT_RADIUS :: real
  SPLAT_FORCE :: real
  SHADING :: bool
  COLORFUL :: bool
  COLOR_UPDATE_SPEED :: real
  BACK_COLOR :: rgb
  TRANSPARENT :: bool
  PAUSED :: bool

definition CONFIG_default :: config where
  "CONFIG_default =
     \<lparr>SIM_RESOLUTION = 128, DYE_RESOLUTION = 1024,
      DENSITY_DISSIPATION = 125 / 100, VELOCITY_DISSIPATION = 3 / 10,
      PRESSURE = 8 / 10, PRESSURE_ITERATIONS = 20, CURL = 35,
      SPLAT_RADIUS = 35 / 100, SPLAT_FORCE = 6000,
      SHADING = True, COLORFUL = True, COLOR_UPDATE_SPEED = 9,
      BACK_COLOR = RGB 4 8 18, TRANSPARENT = False, PAUSED = False\<rparr>"

text \<open>
  \<^verbatim>\<open>pointerPrototype\<close>.  The field \<^verbatim>\<open>id\<close> is \<open>pid\<close> here.  The initial colour is the array
  \<^verbatim>\<open>[30, 0, 300]\<close> in the source; it is overwritten by \<^verbatim>\<open>updatePointerDownData\<close> before any
  splat reads it.
\<close>

record pointer =
  pid :: int
  texcoordX :: real
  texcoordY :: real
  prevTexcoordX :: real
  prevTexcoordY :: real
  deltaX :: real
  deltaY :: real
  down :: bool
  moved :: bool
  color :: rgb

definition pointerPrototype :: pointer where
  "pointerPrototype =
     \<lparr>pid = - 1, texcoordX = 0, texcoordY = 0, prevTexcoordX = 0, prevTexcoordY = 0,
      deltaX = 0, deltaY = 0, down = False, moved = False, color = RGB 30 0 300\<rparr>"

text \<open>The part of \<^verbatim>\<open>ext\<close> that the framebuffers depend on.\<close>

record extensions =
  formatRGBA :: texFormat
  formatRG :: texFormat
  formatR :: texFormat
  supportLinearFiltering :: bool

datatype target = Screen | Target nat

text \<open>
  The mutable variables of the script, from the first call of \<^verbatim>\<open>initFramebuffers\<close> on, and
  what the model keeps of the browser: the size of the canvas (the drawing buffer has the
  same size), the number of textures created, the contents of the canvas, the log of draw
  calls, the values that \<^verbatim>\<open>Math.random\<close> returns (\<open>randoms s k\<close> is the value of call
  number \<open>k\<close>, \<open>randomCalls\<close> counts the calls made), and whether \<^verbatim>\<open>Program.prototype.bind\<close>
  has been assigned.
\<close>

record state =
  CONFIG :: config
  ext :: extensions
  pointers :: "pointer list"
  splatStack :: "int list"
  dye :: DoubleFBO
  velocity :: DoubleFBO
  divergence :: FBO
  curl :: FBO
  pressure :: DoubleFBO
  paletteIndex :: nat
  lastUpdateTime :: int
  colorUpdateTimer :: real
  canvasWidth :: nat
  canvasHeight :: nat
  texturesCreated :: nat
  screen :: "nat \<Rightarrow> nat \<Rightarrow> vec4"
  draws :: "(program \<times> target) list"
  randoms :: "nat \<Rightarrow> real"
  randomCalls :: nat
  bindAssigned :: bool

text \<open>
  The guards of \<^verbatim>\<open>step\<close>, \<^verbatim>\<open>render\<close> and \<^verbatim>\<open>splat\<close> test \<^verbatim>\<open>!program || !program.bind\<close>.  The
  program objects are constants built before the first tick (a shader that fails to compile
  or link throws there and no tick ever runs), so the first test never succeeds.  The method
  \<^verbatim>\<open>bind\<close> is the property assigned by the statement \<^verbatim>\<open>Program.prototype.bind = ...\<close>, which
  runs after the first call of \<^verbatim>\<open>update\<close>, made while the script loads: during that call
  \<^verbatim>\<open>program.bind\<close> is undefined for every program, and from the end of the load on it is
  defined.  The field \<open>bindAssigned\<close> says whether the assignment has run.
\<close>

definition programBuilt :: "program \<Rightarrow> state \<Rightarrow> bool" where
  "programBuilt p s = bindAssigned s"

text \<open>
  The rest of the script after the first call of \<^verbatim>\<open>update\<close>: of the variables of the model
  it changes the method \<^verbatim>\<open>bind\<close> only (the listeners and \<^verbatim>\<open>FluidField\<close> it installs act
  later).
\<close>

definition finishLoad :: "state \<Rightarrow> state" where
  "finishLoad s = s\<lparr>bindAssigned := True\<rparr>"

text \<open>What a tick reads from the browser: \<^verbatim>\<open>Date.now()\<close> and the layout of the canvas.\<close>

record browser =
  now :: int
  clientWidth :: nat
  clientHeight :: nat
  devicePixelRatio :: real

subsection \<open>Numbers\<close>

text \<open>
  The JavaScript remainder \<^verbatim>\<open>a % b\<close> has the sign of the dividend: the quotient is
  truncated towards zero.  (\<^verbatim>\<open>b = 0\<close> gives \<^verbatim>\<open>NaN\<close> in JavaScript; the script never divides
  by zero there.)
\<close>

definition jsMod :: "real \<Rightarrow> real \<Rightarrow> real" where
  "jsMod a b =
     a - b * (if 0 \<le> a / b then real_of_int \<lfloor>a / b\<rfloor> else real_of_int \<lceil>a / b\<rceil>)"

definition wrap :: "real \<Rightarrow> real \<Rightarrow> real \<Rightarrow> real" where
  "wrap val mn mx =
     (let range = mx - mn
      in if range = 0 then mn else jsMod (jsMod (val - mn) range + range) range + mn)"

definition Math_random :: "state \<Rightarrow> real \<times> state" where
  "Math_random s = (randoms s (randomCalls s), s\<lparr>randomCalls := Suc (randomCalls s)\<rparr>)"

subsection \<open>Colours\<close>

definition PALETTE :: "hsv list" where
  "PALETTE =
     [HSV (195 / 360) (95 / 100) 1,
      HSV (308 / 360) (82 / 100) 1,
      HSV (140 / 360) (72 / 100) (95 / 100),
      HSV (265 / 360) (78 / 100) (96 / 100)]"

definition HSVtoRGB :: "real \<Rightarrow> real \<Rightarrow> real \<Rightarrow> rgb" where
  "HSVtoRGB h s v =
     (let i = real_of_int \<lfloor>h * 6\<rfloor>;
          f = h * 6 - i;
          p = v * (1 - s);
          q = v * (1 - f * s);
          t = v * (1 - (1 - f) * s);
          k = jsMod i 6
      in if k = 0 then RGB v t p
         else if k = 1 then RGB q v p
         else if k = 2 then RGB p v t
         else if k = 3 then RGB p q v
         else if k = 4 then RGB t p v
         else if k = 5 then RGB v p q
         else RGB v t p)"

text \<open>The hue jitter of \<^verbatim>\<open>generateColor\<close>, from the value of \<^verbatim>\<open>Math.random()\<close>.\<close>

definition jitterOf :: "real \<Rightarrow> real" where
  "jitterOf rnd = (rnd - 1 / 2) * (6 / 100)"

text \<open>The colour that \<^verbatim>\<open>generateColor\<close> builds from the palette entry and the jitter.\<close>

definition jitteredColor :: "hsv \<Rightarrow> real \<Rightarrow> rgb" where
  "jitteredColor pick jitter =
     (let c = HSVtoRGB (jsMod (hue pick + jitter + 1) 1) (saturation pick) (brightness pick)
      in RGB (red c * (8 / 10)) (green c * (8 / 10)) (blue c * (8 / 10)))"

definition generateColor :: "state \<Rightarrow> rgb \<times> state" where
  "generateColor s =
     (let pick = PALETTE ! (paletteIndex s mod length PALETTE);
          s1 = s\<lparr>paletteIndex := Suc (paletteIndex s)\<rparr>;
          (rnd, s2) = Math_random s1;
          jitter = jitterOf rnd
      in (jitteredColor pick jitter, s2))"

subsection \<open>Time, canvas size and framebuffers\<close>

text \<open>\<^verbatim>\<open>calcDeltaTime\<close>: the timestep and the state with \<^verbatim>\<open>lastUpdateTime\<close> advanced.\<close>

definition calcDeltaTime :: "browser \<Rightarrow> state \<Rightarrow> real \<times> state" where
  "calcDeltaTime b s =
     (let dt0 = real_of_int (now b - lastUpdateTime s) / 1000;
          dt = min dt0 (16666 / 1000000)
      in (dt, s\<lparr>lastUpdateTime := now b\<rparr>))"

definition scaleByPixelRatio :: "browser \<Rightarrow> nat \<Rightarrow> nat" where
  "scaleByPixelRatio b input =
     (let pixelRatio = (if devicePixelRatio b = 0 then 1 else devicePixelRatio b)
      in nat \<lfloor>real input * pixelRatio\<rfloor>)"

definition resizeCanvas :: "browser \<Rightarrow> state \<Rightarrow> bool \<times> state" where
  "resizeCanvas b s =
     (let w = scaleByPixelRatio b (clientWidth b);
          h = scaleByPixelRatio b (clientHeight b)
      in if canvasWidth s \<noteq> w \<or> canvasHeight s \<noteq> h
         then (True, s\<lparr>canvasWidth := w, canvasHeight := h\<rparr>)
         else (False, s))"

text \<open>
  \<^verbatim>\<open>getResolution\<close>, with \<^verbatim>\<open>Math.round(x) = floor(x + 1/2)\<close>.  (On a canvas with a zero side
  JavaScript computes with \<^verbatim>\<open>Infinity\<close> or \<^verbatim>\<open>NaN\<close>, which is not modelled.)  The arithmetic
  is exact here.  The source computes in doubles, where \<^verbatim>\<open>1.0 / (w / h)\<close> is rounded twice,
  so that \<^verbatim>\<open>Math.round\<close> can fall on the other side of an exact half: on a canvas of
  \<open>256 \<times> 391\<close> pixels and resolution \<open>128\<close> the longer side is \<open>196\<close> here and \<open>195\<close> in
  doubles.  The properties below use of the result only that it is positive.
\<close>

definition getResolution :: "state \<Rightarrow> real \<Rightarrow> nat \<times> nat" where
  "getResolution s resolution =
     (let aspect0 = real (canvasWidth s) / real (canvasHeight s);
          aspectRatio = (if aspect0 < 1 then 1 / aspect0 else aspect0);
          mn = nat \<lfloor>resolution + 1 / 2\<rfloor>;
          mx = nat \<lfloor>resolution * aspectRatio + 1 / 2\<rfloor>
      in if canvasWidth s > canvasHeight s then (mx, mn) else (mn, mx))"

definition initFramebuffers :: "state \<Rightarrow> state" where
  "initFramebuffers s =
     (let simRes = getResolution s (SIM_RESOLUTION (CONFIG s));
          dyeRes = getResolution s (DYE_RESOLUTION (CONFIG s));
          rgba = formatRGBA (ext s);
          rg = formatRG (ext s);
          r = formatR (ext s);
          filtering = (if supportLinearFiltering (ext s) then LINEAR else NEAREST);
          (dye', c1) = createDoubleFBO (fst dyeRes) (snd dyeRes) rgba filtering
                         (Some (dye s)) (texturesCreated s);
          (velocity', c2) = createDoubleFBO (fst simRes) (snd simRes) rg filtering
                         (Some (velocity s)) c1;
          (divergence', c3) = createFBO (fst simRes) (snd simRes) r NEAREST
                         (Some (divergence s)) c2;
          (curl', c4) = createFBO (fst simRes) (snd simRes) r NEAREST
                         (Some (curl s)) c3;
          (pressure', c5) = createDoubleFBO (fst simRes) (snd simRes) r NEAREST
                         (Some (pressure s)) c4
      in s\<lparr>dye := dye', velocity := velocity', divergence := divergence',
            curl := curl', pressure := pressure', texturesCreated := c5\<rparr>)"

subsection \<open>Colour cycling\<close>

text \<open>The loop \<^verbatim>\<open>pointers.forEach(pointer => { pointer.color = generateColor(); })\<close>.\<close>

fun recolorPointers :: "pointer list \<Rightarrow> state \<Rightarrow> pointer list \<times> state" where
  "recolorPointers [] s = ([], s)"
| "recolorPointers (p # ps) s =
     (let (c, s1) = generateColor s;
          (ps', s2) = recolorPointers ps s1
      in (p\<lparr>color := c\<rparr> # ps', s2))"

definition updateColors :: "real \<Rightarrow> state \<Rightarrow> state" where
  "updateColors dt s =
     (if \<not> COLORFUL (CONFIG s) then s
      else
        (let t = colorUpdateTimer s + dt * COLOR_UPDATE_SPEED (CONFIG s);
             s1 = s\<lparr>colorUpdateTimer := t\<rparr>
         in if t \<ge> 1 then
              (let s2 = s1\<lparr>colorUpdateTimer := wrap t 0 1\<rparr>;
                   (ps, s3) = recolorPointers (pointers s2) s2
               in s3\<lparr>pointers := ps\<rparr>)
            else s1))"

subsection \<open>Splats\<close>

definition correctRadius :: "state \<Rightarrow> real \<Rightarrow> real" where
  "correctRadius s radius =
     (let aspectRatio = real (canvasWidth s) / real (canvasHeight s)
      in if aspectRatio > 1 then radius * aspectRatio else radius)"

text \<open>
  \<^verbatim>\<open>splat\<close>.  The program \<^verbatim>\<open>splatProgram\<close> never sets its uniform \<^verbatim>\<open>texelSize\<close>, which keeps
  the GL default \<open>(0, 0)\<close>; the splat shader reads \<^verbatim>\<open>vUv\<close> only.
\<close>

definition splat :: "real \<Rightarrow> real \<Rightarrow> real \<Rightarrow> real \<Rightarrow> rgb \<Rightarrow> state \<Rightarrow> state" where
  "splat x y dx dy col s =
     (if \<not> programBuilt SplatProgram s then s
      else
        (let vel = velocity s;
             aspectRatio = real (canvasWidth s) / real (canvasHeight s);
             radius = correctRadius s (SPLAT_RADIUS (CONFIG s) / 100);
             velOut = blit (dwidth vel, dheight vel) (0, 0)
                        (splatShader (dread vel) aspectRatio (dx, dy, 0) (x, y) radius)
                        (dwrite vel);
             d = dye s;
             dyeOut = blit (dwidth d, dheight d) (0, 0)
                        (splatShader (dread d) aspectRatio (red col, green col, blue col)
                           (x, y) radius)
                        (dwrite d)
         in s\<lparr>velocity := swap (vel\<lparr>fbo2 := velOut\<rparr>),
               dye := swap (d\<lparr>fbo2 := dyeOut\<rparr>),
               draws := draws s @ [(SplatProgram, Target (texture (dwrite vel))),
                                   (SplatProgram, Target (texture (dwrite d)))]\<rparr>))"

text \<open>
  One round of the loop of \<^verbatim>\<open>multipleSplats\<close>: five calls of \<^verbatim>\<open>Math.random\<close>, the first of
  them inside \<^verbatim>\<open>generateColor\<close>.
\<close>

definition randomSplat :: "state \<Rightarrow> state" where
  "randomSplat s =
     (let (c, s1) = generateColor s;
          col = RGB (red c * 12) (green c * 12) (blue c * 12);
          (x, s2) = Math_random s1;
          (y, s3) = Math_random s2;
          (rx, s4) = Math_random s3;
          (ry, s5) = Math_random s4;
          dx = 1000 * (rx - 1 / 2);
          dy = 1000 * (ry - 1 / 2)
      in splat x y dx dy col s5)"

function multipleSplatsFrom :: "int \<Rightarrow> int \<Rightarrow> state \<Rightarrow> state" where
  "multipleSplatsFrom i amount s =
     (if i < amount then multipleSplatsFrom (i + 1) amount (randomSplat s) else s)"
  by pat_completeness auto
termination
  by (relation "measure (\<lambda>(i, amount, s). nat (amount - i))") auto

declare multipleSplatsFrom.simps [simp del]

definition multipleSplats :: "int \<Rightarrow> state \<Rightarrow> state" where
  "multipleSplats amount s = multipleSplatsFrom 0 amount s"

definition splatPointer :: "pointer \<Rightarrow> state \<Rightarrow> state" where
  "splatPointer p s =
     (let dx = deltaX p * SPLAT_FORCE (CONFIG s);
          dy = deltaY p * SPLAT_FORCE (CONFIG s)
      in splat (texcoordX p) (texcoordY p) dx dy (color p) s)"

text \<open>
  The loop over the pointers in \<^verbatim>\<open>applyInputs\<close>: the pointers as they are left, and the state
  after the splats.
\<close>

fun splatMovedPointers :: "pointer list \<Rightarrow> state \<Rightarrow> pointer list \<times> state" where
  "splatMovedPointers [] s = ([], s)"
| "splatMovedPointers (p # ps) s =
     (if moved p then
        (let p' = p\<lparr>moved := False\<rparr>;
             s1 = splatPointer p' s;
             (ps', s2) = splatMovedPointers ps s1
         in (p' # ps', s2))
      else
        (let (ps', s2) = splatMovedPointers ps s
         in (p # ps', s2)))"

definition applyInputs :: "state \<Rightarrow> state" where
  "applyInputs s =
     (let s1 = (if length (splatStack s) > 0
                then multipleSplats (last (splatStack s))
                       (s\<lparr>splatStack := butlast (splatStack s)\<rparr>)
                else s);
          (ps, s2) = splatMovedPointers (pointers s1) s1
      in s2\<lparr>pointers := ps\<rparr>)"

subsection \<open>The solver step\<close>

text \<open>
  The passes of \<^verbatim>\<open>step\<close>, in the order of the source.  The viewport is that of the velocity
  field until the last pass, and each program sets its \<^verbatim>\<open>texelSize\<close> to the texel size of the
  velocity field.
\<close>

definition simViewport :: "state \<Rightarrow> nat \<times> nat" where
  "simViewport s = (dwidth (velocity s), dheight (velocity s))"

definition simTexelSize :: "state \<Rightarrow> vec2" where
  "simTexelSize s = (dtexelSizeX (velocity s), dtexelSizeY (velocity s))"

definition curlPass :: "state \<Rightarrow> state" where
  "curlPass s =
     s\<lparr>curl := blit (simViewport s) (simTexelSize s)
                  (curlShader (dread (velocity s))) (curl s),
       draws := draws s @ [(CurlProgram, Target (texture (curl s)))]\<rparr>"

definition vorticityPass :: "real \<Rightarrow> state \<Rightarrow> state" where
  "vorticityPass dt s =
     (let vel = velocity s;
          out = blit (simViewport s) (simTexelSize s)
                  (vorticityShader (dread vel) (curl s) (CURL (CONFIG s)) dt) (dwrite vel)
      in s\<lparr>velocity := swap (vel\<lparr>fbo2 := out\<rparr>),
            draws := draws s @ [(VorticityProgram, Target (texture (dwrite vel)))]\<rparr>)"

definition divergencePass :: "state \<Rightarrow> state" where
  "divergencePass s =
     s\<lparr>divergence := blit (simViewport s) (simTexelSize s)
                        (divergenceShader (dread (velocity s))) (divergence s),
       draws := draws s @ [(DivergenceProgram, Target (texture (divergence s)))]\<rparr>"

text \<open>
  The pressure warm start: \<^verbatim>\<open>clearProgram\<close> never sets its \<^verbatim>\<open>texelSize\<close>, and the clear
  shader reads \<^verbatim>\<open>vUv\<close> only.
\<close>

definition clearPass :: "state \<Rightarrow> state" where
  "clearPass s =
     (let pr = pressure s;
          out = blit (simViewport s) (0, 0)
                  (clearShader (dread pr) (PRESSURE (CONFIG s))) (dwrite pr)
      in s\<lparr>pressure := swap (pr\<lparr>fbo2 := out\<rparr>),
            draws := draws s @ [(ClearProgram, Target (texture (dwrite pr)))]\<rparr>)"

text \<open>The body of the loop of the pressure solver, and the loop.\<close>

definition pressurePass :: "state \<Rightarrow> state" where
  "pressurePass s =
     (let pr = pressure s;
          out = blit (simViewport s) (simTexelSize s)
                  (pressureShader (dread pr) (divergence s)) (dwrite pr)
      in s\<lparr>pressure := swap (pr\<lparr>fbo2 := out\<rparr>),
            draws := draws s @ [(PressureProgram, Target (texture (dwrite pr)))]\<rparr>)"

function pressureLoop :: "nat \<Rightarrow> state \<Rightarrow> state" where
  "pressureLoop i s =
     (if i < PRESSURE_ITERATIONS (CONFIG s) then pressureLoop (i + 1) (pressurePass s) else s)"
  by pat_completeness auto
termination
  by (relation "measure (\<lambda>(i, s). PRESSURE_ITERATIONS (CONFIG s) - i)")
     (auto simp: pressurePass_def Let_def)

declare pressureLoop.simps [simp del]

definition gradientSubtractPass :: "state \<Rightarrow> state" where
  "gradientSubtractPass s =
     (let vel = velocity s;
          out = blit (simViewport s) (simTexelSize s)
                  (gradientSubtractShader (dread (pressure s)) (dread vel)) (dwrite vel)
      in s\<lparr>velocity := swap (vel\<lparr>fbo2 := out\<rparr>),
            draws := draws s @ [(GradienSubtractProgram, Target (texture (dwrite vel)))]\<rparr>)"

text \<open>
  Self-advection of the velocity.  The uniform \<^verbatim>\<open>dyeTexelSize\<close> is set (to the texel size of
  the velocity) only without linear filtering, and only then does the shader read it.
\<close>

definition advectVelocityPass :: "real \<Rightarrow> state \<Rightarrow> state" where
  "advectVelocityPass dt s =
     (let vel = velocity s;
          out = blit (simViewport s) (simTexelSize s)
                  (advectionShader (\<not> supportLinearFiltering (ext s)) (dread vel) (dread vel)
                     (simTexelSize s) (simTexelSize s) dt
                     (VELOCITY_DISSIPATION (CONFIG s)))
                  (dwrite vel)
      in s\<lparr>velocity := swap (vel\<lparr>fbo2 := out\<rparr>),
            draws := draws s @ [(AdvectionProgram, Target (texture (dwrite vel)))]\<rparr>)"

text \<open>
  Advection of the dye, in the viewport of the dye field.  The uniforms \<^verbatim>\<open>texelSize\<close> and
  \<^verbatim>\<open>dt\<close> of the advection program keep the values of the previous pass.
\<close>

definition advectDyePass :: "real \<Rightarrow> state \<Rightarrow> state" where
  "advectDyePass dt s =
     (let d = dye s;
          out = blit (dwidth d, dheight d) (simTexelSize s)
                  (advectionShader (\<not> supportLinearFiltering (ext s)) (dread (velocity s))
                     (dread d) (simTexelSize s) (dtexelSizeX d, dtexelSizeY d) dt
                     (DENSITY_DISSIPATION (CONFIG s)))
                  (dwrite d)
      in s\<lparr>dye := swap (d\<lparr>fbo2 := out\<rparr>),
            draws := draws s @ [(AdvectionProgram, Target (texture (dwrite d)))]\<rparr>)"

definition step :: "real \<Rightarrow> state \<Rightarrow> state" where
  "step dt s =
     (if \<not> programBuilt CurlProgram s \<or> \<not> programBuilt VorticityProgram s
         \<or> \<not> programBuilt DivergenceProgram s \<or> \<not> programBuilt PressureProgram s
         \<or> \<not> programBuilt GradienSubtractProgram s \<or> \<not> programBuilt AdvectionProgram s
      then s
      else
        advectDyePass dt
          (advectVelocityPass dt
            (gradientSubtractPass
              (pressureLoop 0
                (clearPass
                  (divergencePass
                    (vorticityPass dt
                      (curlPass s))))))))"

subsection \<open>Rendering\<close>

definition normalizeColor :: "rgb \<Rightarrow> rgb" where
  "normalizeColor input = RGB (red input / 255) (green input / 255) (blue input / 255)"

definition drawColor :: "rgb \<Rightarrow> state \<Rightarrow> state" where
  "drawColor col s =
     s\<lparr>screen := blitScreen (canvasWidth s, canvasHeight s) (0, 0)
                    (colorShader (Vec4 (red col) (green col) (blue col) 1)) (screen s),
       draws := draws s @ [(ColorProgram, Screen)]\<rparr>"

definition drawDisplay :: "nat \<Rightarrow> nat \<Rightarrow> state \<Rightarrow> state" where
  "drawDisplay w h s =
     s\<lparr>screen := blitScreen (canvasWidth s, canvasHeight s) (1 / real w, 1 / real h)
                    (displayShader (dread (dye s)) (1 / real w, 1 / real h)
                       (if SHADING (CONFIG s) then 65 / 100 else 0))
                    (screen s),
       draws := draws s @ [(DisplayProgram, Screen)]\<rparr>"

text \<open>\<^verbatim>\<open>render(null)\<close>, the only call of \<^verbatim>\<open>render\<close>: the target is the canvas.\<close>

definition render :: "state \<Rightarrow> state" where
  "render s =
     (if \<not> programBuilt ColorProgram s \<or> \<not> programBuilt DisplayProgram s then s
      else
        (let w = canvasWidth s;
             h = canvasHeight s;
             s1 = (if \<not> TRANSPARENT (CONFIG s)
                   then drawColor (normalizeColor (BACK_COLOR (CONFIG s))) s
                   else s)
         in drawDisplay w h s1))"

subsection \<open>The tick and the interface to the host\<close>

text \<open>
  One call of \<^verbatim>\<open>update\<close>, up to the request for the next animation frame.
\<close>

definition update :: "browser \<Rightarrow> state \<Rightarrow> state" where
  "update b s =
     (let (dt, s1) = calcDeltaTime b s;
          (resized, s2) = resizeCanvas b s1;
          s3 = (if resized then initFramebuffers s2 else s2);
          s4 = updateColors dt s3;
          s5 = applyInputs s4;
          s6 = (if \<not> PAUSED (CONFIG s5) then step dt s5 else s5)
      in render s6)"

text \<open>
  The object \<^verbatim>\<open>FluidField\<close>.  An omitted \<^verbatim>\<open>color\<close> is \<open>None\<close>; the defaults of \<^verbatim>\<open>dx\<close>, \<^verbatim>\<open>dy\<close> and
  \<^verbatim>\<open>amount\<close> are supplied by the caller of the model.
\<close>

definition splatNormalized ::
  "real \<Rightarrow> real \<Rightarrow> real \<Rightarrow> real \<Rightarrow> rgb option \<Rightarrow> state \<Rightarrow> state" where
  "splatNormalized x y dx dy col s =
     (let velocityScale = 1500;
          (c, s1) = (case col of Some c \<Rightarrow> (c, s) | None \<Rightarrow> generateColor s)
      in splat x y (dx * velocityScale) (dy * velocityScale) c s1)"

definition addRandomSplats :: "int \<Rightarrow> state \<Rightarrow> state" where
  "addRandomSplats amount s = multipleSplats amount s"

definition pause :: "state \<Rightarrow> state" where
  "pause s = s\<lparr>CONFIG := (CONFIG s)\<lparr>PAUSED := True\<rparr>\<rparr>"

definition resume :: "state \<Rightarrow> state" where
  "resume s = s\<lparr>CONFIG := (CONFIG s)\<lparr>PAUSED := False\<rparr>\<rparr>"

definition isPaused :: "state \<Rightarrow> bool" where
  "isPaused s = PAUSED (CONFIG s)"

subsection \<open>Notions used in the properties, and a small concrete state\<close>

text \<open>
  The coordinate of the centre of texel \<open>i\<close> on an axis of \<open>n\<close> texels.
\<close>

definition texelCentre :: "nat \<Rightarrow> int \<Rightarrow> real" where
  "texelCentre n i = (real_of_int i + 1 / 2) / real n"

definition fboSized :: "nat \<Rightarrow> nat \<Rightarrow> FBO \<Rightarrow> bool" where
  "fboSized w h f \<longleftrightarrow> width f = w \<and> height f = h"

text \<open>
  What \<^verbatim>\<open>initFramebuffers\<close> establishes for the fields of the simulation grid: velocity,
  pressure, divergence and curl have the same, non-empty size, and the texel size of the
  velocity is its reciprocal.
\<close>

definition simAligned :: "state \<Rightarrow> bool" where
  "simAligned s \<longleftrightarrow>
     0 < dwidth (velocity s) \<and> 0 < dheight (velocity s)
     \<and> dtexelSizeX (velocity s) = 1 / real (dwidth (velocity s))
     \<and> dtexelSizeY (velocity s) = 1 / real (dheight (velocity s))
     \<and> fboSized (dwidth (velocity s)) (dheight (velocity s)) (fbo1 (velocity s))
     \<and> fboSized (dwidth (velocity s)) (dheight (velocity s)) (fbo2 (velocity s))
     \<and> dwidth (pressure s) = dwidth (velocity s)
     \<and> dheight (pressure s) = dheight (velocity s)
     \<and> fboSized (dwidth (velocity s)) (dheight (velocity s)) (fbo1 (pressure s))
     \<and> fboSized (dwidth (velocity s)) (dheight (velocity s)) (fbo2 (pressure s))
     \<and> fboSized (dwidth (velocity s)) (dheight (velocity s)) (divergence s)
     \<and> fboSized (dwidth (velocity s)) (dheight (velocity s)) (curl s)"

text \<open>
  A state on a canvas of \<open>2 \<times> 2\<close> pixels with fields of \<open>2 \<times> 2\<close> texels, used to run the
  definitions on concrete input.  The velocity at texel \<open>(x, y)\<close> is \<open>(x, y)\<close>, the pressure is
  \<open>x + 2y + 1\<close>, the dye is black but for the red texel \<open>(0, 0)\<close>.
\<close>

definition demoFBO :: "nat \<Rightarrow> texFormat \<Rightarrow> texFilter \<Rightarrow> (nat \<Rightarrow> nat \<Rightarrow> vec4) \<Rightarrow> FBO" where
  "demoFBO n fmt prm px =
     \<lparr>texture = n, width = 2, height = 2, texelSizeX = 1 / 2, texelSizeY = 1 / 2,
      internalFormat = fmt, param = prm, pixels = px\<rparr>"

definition demoDouble :: "FBO \<Rightarrow> FBO \<Rightarrow> DoubleFBO" where
  "demoDouble f1 f2 =
     \<lparr>dwidth = 2, dheight = 2, dtexelSizeX = 1 / 2, dtexelSizeY = 1 / 2,
      fbo1 = f1, fbo2 = f2\<rparr>"

definition demoState :: state where
  "demoState =
     \<lparr>CONFIG = CONFIG_default,
      ext = \<lparr>formatRGBA = RGBA16F, formatRG = RG16F, formatR = R16F,
             supportLinearFiltering = True\<rparr>,
      pointers = [pointerPrototype],
      splatStack = [],
      dye = demoDouble
              (demoFBO 0 RGBA16F LINEAR
                 (\<lambda>x y. if x = 0 \<and> y = 0 then Vec4 1 0 0 1 else Vec4 0 0 0 1))
              (demoFBO 1 RGBA16F LINEAR (\<lambda>x y. Vec4 0 0 0 1)),
      velocity = demoDouble
              (demoFBO 2 RG16F LINEAR (\<lambda>x y. Vec4 (real x) (real y) 0 1))
              (demoFBO 3 RG16F LINEAR (\<lambda>x y. Vec4 0 0 0 1)),
      divergence = demoFBO 4 R16F NEAREST (\<lambda>x y. Vec4 0 0 0 1),
      curl = demoFBO 5 R16F NEAREST (\<lambda>x y. Vec4 0 0 0 1),
      pressure = demoDouble
              (demoFBO 6 R16F NEAREST (\<lambda>x y. Vec4 (real x + 2 * real y + 1) 0 0 1))
              (demoFBO 7 R16F NEAREST (\<lambda>x y. Vec4 0 0 0 1)),
      paletteIndex = 0,
      lastUpdateTime = 1000,
      colorUpdateTimer = 0,
      canvasWidth = 2,
      canvasHeight = 2,
      texturesCreated = 8,
      screen = (\<lambda>x y. Vec4 0 0 0 0),
      draws = [],
      randoms = (\<lambda>k. 1 / 2),
      randomCalls = 0,
      bindAssigned = True\<rparr>"

text \<open>A browser that reports the canvas of \<open>demoState\<close> unchanged, 16 ms later.\<close>

definition demoBrowser :: browser where
  "demoBrowser = \<lparr>now = 1016, clientWidth = 2, clientHeight = 2, devicePixelRatio = 1\<rparr>"

text \<open>The number of draw calls logged so far with the given program bound.\<close>

definition passes :: "program \<Rightarrow> state \<Rightarrow> nat" where
  "passes p s = length (filter (\<lambda>d. fst d = p) (draws s))"

text \<open>
  The draw calls logged with a program other than the splat program, and the relation
  between two states that differ at most in what a splat can change: velocity, dye, the
  splat draws, the palette index and the count of random numbers consumed.
\<close>

definition otherDraws :: "state \<Rightarrow> (program \<times> target) list" where
  "otherDraws s = filter (\<lambda>d. fst d \<noteq> SplatProgram) (draws s)"

definition splatsOnly :: "state \<Rightarrow> state \<Rightarrow> bool" where
  "splatsOnly s s' \<longleftrightarrow>
     CONFIG s' = CONFIG s \<and> ext s' = ext s \<and> pointers s' = pointers s
     \<and> splatStack s' = splatStack s \<and> pressure s' = pressure s
     \<and> divergence s' = divergence s \<and> curl s' = curl s
     \<and> canvasWidth s' = canvasWidth s \<and> canvasHeight s' = canvasHeight s
     \<and> lastUpdateTime s' = lastUpdateTime s \<and> colorUpdateTimer s' = colorUpdateTimer s
     \<and> texturesCreated s' = texturesCreated s \<and> screen s' = screen s
     \<and> randoms s' = randoms s \<and> bindAssigned s' = bindAssigned s
     \<and> otherDraws s' = otherDraws s"

text \<open>Whether \<^verbatim>\<open>resizeCanvas\<close> finds the canvas resized at this tick.\<close>

definition canvasResized :: "browser \<Rightarrow> state \<Rightarrow> bool" where
  "canvasResized b s \<longleftrightarrow>
     canvasWidth s \<noteq> scaleByPixelRatio b (clientWidth b)
     \<or> canvasHeight s \<noteq> scaleByPixelRatio b (clientHeight b)"

text \<open>The timestep \<^verbatim>\<open>dt\<close> of a tick.\<close>

definition tickTime :: "browser \<Rightarrow> state \<Rightarrow> real" where
  "tickTime b s = fst (calcDeltaTime b s)"

text \<open>
  The state of a tick after \<^verbatim>\<open>updateColors\<close> and after \<^verbatim>\<open>applyInputs\<close>: the prefixes of
  \<open>update\<close>.
\<close>

definition beforeInputs :: "browser \<Rightarrow> state \<Rightarrow> state" where
  "beforeInputs b s =
     (let (dt, s1) = calcDeltaTime b s;
          (resized, s2) = resizeCanvas b s1;
          s3 = (if resized then initFramebuffers s2 else s2)
      in updateColors dt s3)"

definition afterInputs :: "browser \<Rightarrow> state \<Rightarrow> state" where
  "afterInputs b s = applyInputs (beforeInputs b s)"

text \<open>Whether \<^verbatim>\<open>applyInputs\<close> has a splat to make: a burst on the stack or a moved pointer.\<close>

definition pendingSplats :: "state \<Rightarrow> bool" where
  "pendingSplats s \<longleftrightarrow> splatStack s \<noteq> [] \<or> filter moved (pointers s) \<noteq> []"

text \<open>
  What one pass of the pressure solver does, from the state \<open>a\<close> before it to the state \<open>b\<close>
  after it: the divergence is read and kept; the pass is drawn with the pressure program
  into the write buffer; the buffers change roles once (the buffer read becomes the write
  buffer, untouched, and the buffer written is read from now on); and every texel of the
  grid holds \<open>(L + R + T + B - divergence) / 4\<close>, where \<open>L\<close>, \<open>R\<close>, \<open>T\<close>, \<open>B\<close> are the previous
  pressures of the four neighbours, the edge texel standing in for a neighbour outside the
  grid (\<^verbatim>\<open>CLAMP_TO_EDGE\<close>).
\<close>

definition jacobiPass :: "state \<Rightarrow> state \<Rightarrow> bool" where
  "jacobiPass a b \<longleftrightarrow>
     divergence b = divergence a
     \<and> dwrite (pressure b) = dread (pressure a)
     \<and> texture (dread (pressure b)) = texture (dwrite (pressure a))
     \<and> draws b = draws a @ [(PressureProgram, Target (texture (dwrite (pressure a))))]
     \<and> (\<forall>x y. x < dwidth (velocity a) \<and> y < dheight (velocity a) \<longrightarrow>
          vx (pixels (dread (pressure b)) x y) =
            (vx (pixels (dread (pressure a)) (x - 1) y)
             + vx (pixels (dread (pressure a)) (min (x + 1) (dwidth (velocity a) - 1)) y)
             + vx (pixels (dread (pressure a)) x (min (y + 1) (dheight (velocity a) - 1)))
             + vx (pixels (dread (pressure a)) x (y - 1))
             - vx (pixels (divergence a) x y)) / 4)"

text \<open>\<open>n\<close> consecutive calls of \<^verbatim>\<open>generateColor\<close>: the colours returned, in order.\<close>

fun generateColors :: "nat \<Rightarrow> state \<Rightarrow> rgb list \<times> state" where
  "generateColors 0 s = ([], s)"
| "generateColors (Suc n) s =
     (let (c, s1) = generateColor s;
          (cs, s2) = generateColors n s1
      in (c # cs, s2))"

text \<open>
  A render target as \<^verbatim>\<open>createFBO\<close> allocates it: a new texture with handle \<open>n\<close>, of the
  requested size, format and filter, every texel holding the clear colour \<open>(0, 0, 0, 1)\<close>.
\<close>

definition freshlyCleared :: "nat \<Rightarrow> nat \<Rightarrow> texFormat \<Rightarrow> texFilter \<Rightarrow> nat \<Rightarrow> FBO \<Rightarrow> bool" where
  "freshlyCleared w h fmt prm n f \<longleftrightarrow>
     texture f = n \<and> width f = w \<and> height f = h
     \<and> texelSizeX f = 1 / real w \<and> texelSizeY f = 1 / real h
     \<and> internalFormat f = fmt \<and> param f = prm
     \<and> (\<forall>x y. vx (pixels f x y) = 0 \<and> vy (pixels f x y) = 0 \<and> vz (pixels f x y) = 0
               \<and> vw (pixels f x y) = 1)"

text \<open>The state \<open>demoState\<close> with the colour timer close to its threshold.\<close>

definition demoTimerState :: state where
  "demoTimerState = demoState\<lparr>colorUpdateTimer := 95 / 100\<rparr>"

text \<open>A double field whose two buffers have its own, non-empty size.\<close>

definition doubleAligned :: "DoubleFBO \<Rightarrow> bool" where
  "doubleAligned d \<longleftrightarrow>
     0 < dwidth d \<and> 0 < dheight d
     \<and> fboSized (dwidth d) (dheight d) (fbo1 d) \<and> fboSized (dwidth d) (dheight d) (fbo2 d)"

text \<open>
  What one splat pass does to a double field, from \<open>d\<close> before it to \<open>d'\<close> after it: the
  buffers change roles (the buffer read becomes the write buffer, untouched, and the buffer
  written is read from now on), and every texel of the field holds what was there plus the
  impulse times the weight \<open>exp(-|p|\<^sup>2 / radius)\<close> of the texel, with alpha \<open>1\<close>.
\<close>

definition splatAdded ::
  "real \<Rightarrow> vec2 \<Rightarrow> real \<times> real \<times> real \<Rightarrow> real \<Rightarrow> DoubleFBO \<Rightarrow> DoubleFBO \<Rightarrow> bool" where
  "splatAdded aspectRatio point impulse radius d d' \<longleftrightarrow>
     dwrite d' = dread d
     \<and> texture (dread d') = texture (dwrite d)
     \<and> (\<forall>x y. x < dwidth d \<and> y < dheight d \<longrightarrow>
          pixels (dread d') x y =
            (let g = splatWeight aspectRatio point radius
                       (texelCentre (dwidth d) (int x), texelCentre (dheight d) (int y));
                 base = pixels (dread d) x y
             in storeTexel (internalFormat (dwrite d))
                  (Vec4 (vx base + g * fst impulse)
                        (vy base + g * fst (snd impulse))
                        (vz base + g * snd (snd impulse)) 1)))"

text \<open>The draw calls logged with one of the programs of the solver step.\<close>

definition solverDraws :: "state \<Rightarrow> (program \<times> target) list" where
  "solverDraws s =
     filter (\<lambda>d. fst d \<in> {CurlProgram, VorticityProgram, DivergenceProgram, ClearProgram,
                             PressureProgram, GradienSubtractProgram, AdvectionProgram})
       (draws s)"

text \<open>
  The state \<open>demoState\<close> paused, once idle and once with a pointer that is down and has
  moved over the centre of texel \<open>(0, 0)\<close>.
\<close>

definition demoIdlePausedState :: state where
  "demoIdlePausedState = demoState\<lparr>CONFIG := CONFIG_default\<lparr>PAUSED := True\<rparr>\<rparr>"

definition demoPausedState :: state where
  "demoPausedState =
     demoState\<lparr>CONFIG := CONFIG_default\<lparr>PAUSED := True\<rparr>,
               pointers := [pointerPrototype\<lparr>texcoordX := 1 / 4, texcoordY := 1 / 4,
                              deltaX := 1 / 6000, down := True, moved := True,
                              color := RGB 1 0 0\<rparr>]\<rparr>"

text \<open>The sizes of all the fields are consistent.\<close>

definition fieldsAligned :: "state \<Rightarrow> bool" where
  "fieldsAligned s \<longleftrightarrow> simAligned s \<and> doubleAligned (dye s)"

text \<open>
  A state of the script at its first call of \<^verbatim>\<open>update\<close>, made while it loads: the fields as
  \<^verbatim>\<open>initFramebuffers\<close> has just allocated them (every texel holds the clear colour), the one
  pointer of the prototype, no splat pending, the pause flag not set, and
  \<^verbatim>\<open>Program.prototype.bind\<close> not yet assigned.
\<close>

definition demoLoadState :: state where
  "demoLoadState =
     demoState\<lparr>dye := demoDouble (demoFBO 0 RGBA16F LINEAR (\<lambda>x y. clearColor))
                              (demoFBO 1 RGBA16F LINEAR (\<lambda>x y. clearColor)),
               velocity := demoDouble (demoFBO 2 RG16F LINEAR (\<lambda>x y. clearColor))
                              (demoFBO 3 RG16F LINEAR (\<lambda>x y. clearColor)),
               pressure := demoDouble (demoFBO 6 R16F NEAREST (\<lambda>x y. clearColor))
                              (demoFBO 7 R16F NEAREST (\<lambda>x y. clearColor)),
               bindAssigned := False\<rparr>"

text \<open>
  What one call of \<^verbatim>\<open>splat\<close> with the given arguments does, from the state \<open>a\<close> before it to
  the state \<open>b\<close> after it: the splat is added to the velocity (impulse \<open>(dx, dy, 0)\<close>) and to
  the dye (impulse the colour), each time with the buffers of the field changing roles, and
  two draw calls are logged with the splat program, into the write buffer of the velocity
  and into that of the dye.
\<close>

definition splatApplied ::
  "real \<Rightarrow> real \<Rightarrow> real \<Rightarrow> real \<Rightarrow> rgb \<Rightarrow> state \<Rightarrow> state \<Rightarrow> bool" where
  "splatApplied x y dx dy col a b \<longleftrightarrow>
     (let aspectRatio = real (canvasWidth a) / real (canvasHeight a);
          radius = correctRadius a (SPLAT_RADIUS (CONFIG a) / 100)
      in splatAdded aspectRatio (x, y) (dx, dy, 0) radius (velocity a) (velocity b)
         \<and> splatAdded aspectRatio (x, y) (red col, green col, blue col) radius (dye a) (dye b)
         \<and> draws b = draws a @ [(SplatProgram, Target (texture (dwrite (velocity a)))),
                                 (SplatProgram, Target (texture (dwrite (dye a))))])"

text \<open>
  One round of the loop of \<^verbatim>\<open>multipleSplats\<close>, from the state \<open>a\<close> before it to the state \<open>b\<close>
  after it: a splat is applied whose colour is twelve times the next colour of the
  generator and whose position and impulse are the next four values of \<^verbatim>\<open>Math.random\<close>.
\<close>

definition randomSplatApplied :: "state \<Rightarrow> state \<Rightarrow> bool" where
  "randomSplatApplied a b \<longleftrightarrow>
     (let c = fst (generateColor a);
          k = randomCalls a
      in splatApplied (randoms a (k + 1)) (randoms a (k + 2))
           (1000 * (randoms a (k + 3) - 1 / 2)) (1000 * (randoms a (k + 4) - 1 / 2))
           (RGB (red c * 12) (green c * 12) (blue c * 12)) a b
         \<and> paletteIndex b = paletteIndex a + 1 \<and> randomCalls b = k + 5)"

text \<open>The splat of a pointer, as \<^verbatim>\<open>splatPointer\<close> makes it.\<close>

definition pointerSplatApplied :: "pointer \<Rightarrow> state \<Rightarrow> state \<Rightarrow> bool" where
  "pointerSplatApplied p a b \<longleftrightarrow>
     splatApplied (texcoordX p) (texcoordY p)
       (deltaX p * SPLAT_FORCE (CONFIG a)) (deltaY p * SPLAT_FORCE (CONFIG a)) (color p) a b"

text \<open>
  The parts of \<^verbatim>\<open>applyInputs\<close>: the state once the burst has been popped from the splat
  stack, the size of the burst, and the splats of a list of pointers, in order.
\<close>

definition burstStart :: "state \<Rightarrow> state" where
  "burstStart s = s\<lparr>splatStack := butlast (splatStack s)\<rparr>"

definition burstSize :: "state \<Rightarrow> nat" where
  "burstSize s = (if splatStack s = [] then 0 else nat (last (splatStack s)))"

definition pointerSplats :: "pointer list \<Rightarrow> state \<Rightarrow> state" where
  "pointerSplats ps s = fold (\<lambda>p. splatPointer (p\<lparr>moved := False\<rparr>)) ps s"

text \<open>
  What reaches the script once it has loaded.  The callbacks are installed by the last
  statements of the script, after the assignment of \<^verbatim>\<open>Program.prototype.bind\<close>, and the
  animation frame requested by the first \<^verbatim>\<open>update\<close> cannot run before the script has
  returned.  An input event (mouse, touch, the space key) changes the pointers and the
  splat stack, and through \<^verbatim>\<open>generateColor\<close> and \<^verbatim>\<open>Math.random\<close> the palette index and the
  count of random numbers; the model lets it set them to any values.  The timer that calls
  \<^verbatim>\<open>multipleSplats(20)\<close> acts as \<^verbatim>\<open>addRandomSplats(20)\<close>.
\<close>

datatype event =
    Frame browser
  | Input "pointer list" "int list" nat nat
  | KeyP
  | SplatNormalized real real real real "rgb option"
  | AddRandomSplats int
  | Pause
  | Resume

fun handle :: "event \<Rightarrow> state \<Rightarrow> state" where
  "handle (Frame b) s = update b s"
| "handle (Input ps st k c) s =
     s\<lparr>pointers := ps, splatStack := st, paletteIndex := k, randomCalls := c\<rparr>"
| "handle KeyP s = s\<lparr>CONFIG := (CONFIG s)\<lparr>PAUSED := \<not> PAUSED (CONFIG s)\<rparr>\<rparr>"
| "handle (SplatNormalized x y dx dy col) s = splatNormalized x y dx dy col s"
| "handle (AddRandomSplats n) s = addRandomSplats n s"
| "handle Pause s = pause s"
| "handle Resume s = resume s"

text \<open>
  A run of the script from the state \<open>s\<close> in which it makes its first call of \<^verbatim>\<open>update\<close>: that
  tick, the rest of the load, and then the events in the order in which they arrive.
\<close>

definition script :: "browser \<Rightarrow> event list \<Rightarrow> state \<Rightarrow> state" where
  "script b es s = fold handle es (finishLoad (update b s))"

section \<open>Properties\<close>

subsection \<open>Sampling at texel centres\<close>

lemma mix_zero: "mix a b 0 = a"
  by (cases a) (simp add: mix_def vadd_def vscale_def)

lemma floor_half: "\<lfloor>real_of_int k + 1 / 2\<rfloor> = k"
  by linarith

lemma texture2D_texelCentre:
  assumes "0 < width t" "0 < height t"
  shows "texture2D t (texelCentre (width t) i, texelCentre (height t) j) = texelFetch t i j"
proof -
  have a: "(real_of_int i + 1 / 2) / real (width t) * real (width t) = real_of_int i + 1 / 2"
    using assms by simp
  have b: "(real_of_int j + 1 / 2) / real (height t) * real (height t) = real_of_int j + 1 / 2"
    using assms by simp
  show ?thesis using assms
    by (cases "param t") (simp_all add: texture2D_def texelCentre_def a b floor_half Let_def mix_zero)
qed

lemma varyings_at_pixel:
  assumes "0 < w" "0 < h"
  shows "baseVertexShader (1 / real w, 1 / real h) (pixelUv (w, h) x y) =
     \<lparr>vUv = (texelCentre w (int x), texelCentre h (int y)),
      vL = (texelCentre w (int x - 1), texelCentre h (int y)),
      vR = (texelCentre w (int x + 1), texelCentre h (int y)),
      vT = (texelCentre w (int x), texelCentre h (int y + 1)),
      vB = (texelCentre w (int x), texelCentre h (int y - 1))\<rparr>"
  using assms
  by (simp add: baseVertexShader_def pixelUv_def texelCentre_def field_simps)

lemma vUv_at_pixel:
  "vUv (baseVertexShader ts (pixelUv (w, h) x y)) = (texelCentre w (int x), texelCentre h (int y))"
  by (simp add: baseVertexShader_def pixelUv_def texelCentre_def)

lemma texelCentre_neg: "0 < w \<Longrightarrow> texelCentre w i < 0 \<longleftrightarrow> i < 0"
  unfolding texelCentre_def by (simp add: divide_less_0_iff) linarith

lemma texelCentre_gt1: "0 < w \<Longrightarrow> texelCentre w i > 1 \<longleftrightarrow> int w \<le> i"
  unfolding texelCentre_def by (simp add: field_simps) linarith

lemma blit_pixel:
  assumes "x < fst vp" "y < snd vp" "x < width dest" "y < height dest"
  shows "pixels (blit vp ts frag dest) x y =
           storeTexel (internalFormat dest) (frag (baseVertexShader ts (pixelUv vp x y)))"
  using assms by (simp add: blit_def)

lemma blit_fields [simp]:
  "width (blit vp ts frag dest) = width dest"
  "height (blit vp ts frag dest) = height dest"
  "texture (blit vp ts frag dest) = texture dest"
  "internalFormat (blit vp ts frag dest) = internalFormat dest"
  "param (blit vp ts frag dest) = param dest"
  "texelSizeX (blit vp ts frag dest) = texelSizeX dest"
  "texelSizeY (blit vp ts frag dest) = texelSizeY dest"
  by (simp_all add: blit_def)

lemma vx_storeTexel [simp]: "vx (storeTexel fmt c) = vx c"
  by (cases fmt) simp_all

lemma clampL: "x < w \<Longrightarrow> nat (max 0 (min (int w - 1) (int x - 1))) = x - 1"
  by linarith

lemma clampR: "x < w \<Longrightarrow> nat (max 0 (min (int w - 1) (int x + 1))) = min (x + 1) (w - 1)"
  by linarith

lemma clampC: "x < w \<Longrightarrow> nat (max 0 (min (int w - 1) (int x))) = x"
  by linarith

lemma sample_neighbours:
  assumes "x < width t" "y < height t"
  shows "texture2D t (texelCentre (width t) (int x), texelCentre (height t) (int y))
           = pixels t x y"
    and "texture2D t (texelCentre (width t) (int x - 1), texelCentre (height t) (int y))
           = pixels t (x - 1) y"
    and "texture2D t (texelCentre (width t) (int x + 1), texelCentre (height t) (int y))
           = pixels t (min (x + 1) (width t - 1)) y"
    and "texture2D t (texelCentre (width t) (int x), texelCentre (height t) (int y + 1))
           = pixels t x (min (y + 1) (height t - 1))"
    and "texture2D t (texelCentre (width t) (int x), texelCentre (height t) (int y - 1))
           = pixels t x (y - 1)"
proof -
  have pos: "0 < width t" "0 < height t"
    using assms by simp_all
  show "texture2D t (texelCentre (width t) (int x), texelCentre (height t) (int y))
           = pixels t x y"
    unfolding texture2D_texelCentre[OF pos] texelFetch_def
    using assms by (simp only: clampC)
  show "texture2D t (texelCentre (width t) (int x - 1), texelCentre (height t) (int y))
           = pixels t (x - 1) y"
    unfolding texture2D_texelCentre[OF pos] texelFetch_def
    using assms by (simp only: clampC clampL)
  show "texture2D t (texelCentre (width t) (int x + 1), texelCentre (height t) (int y))
           = pixels t (min (x + 1) (width t - 1)) y"
    unfolding texture2D_texelCentre[OF pos] texelFetch_def
    using assms by (simp only: clampC clampR)
  show "texture2D t (texelCentre (width t) (int x), texelCentre (height t) (int y + 1))
           = pixels t x (min (y + 1) (height t - 1))"
    unfolding texture2D_texelCentre[OF pos] texelFetch_def
    using assms by (simp only: clampC clampR)
  show "texture2D t (texelCentre (width t) (int x), texelCentre (height t) (int y - 1))
           = pixels t x (y - 1)"
    unfolding texture2D_texelCentre[OF pos] texelFetch_def
    using assms by (simp only: clampC clampL)
qed

lemma edge_conditions:
  assumes "0 < w" "x < w"
  shows "texelCentre w (int x - 1) < 0 \<longleftrightarrow> x = 0"
    and "texelCentre w (int x + 1) > 1 \<longleftrightarrow> x = w - 1"
proof -
  show "texelCentre w (int x - 1) < 0 \<longleftrightarrow> x = 0"
    unfolding texelCentre_neg[OF assms(1)] by linarith
  show "texelCentre w (int x + 1) > 1 \<longleftrightarrow> x = w - 1"
    unfolding texelCentre_gt1[OF assms(1)] using assms(2) by linarith
qed

lemma simAligned_demoState: "simAligned demoState"
  by (simp add: simAligned_def demoState_def demoDouble_def demoFBO_def fboSized_def)

subsection \<open>The passes of the solver, one by one\<close>

lemma swap_fields [simp]:
  "fbo1 (swap d) = fbo2 d" "fbo2 (swap d) = fbo1 d"
  "dwidth (swap d) = dwidth d" "dheight (swap d) = dheight d"
  "dtexelSizeX (swap d) = dtexelSizeX d" "dtexelSizeY (swap d) = dtexelSizeY d"
  by (simp_all add: swap_def)

lemma fboSized_blit [simp]: "fboSized w h (blit vp ts frag dest) = fboSized w h dest"
  by (simp add: fboSized_def)

lemma curlPass_fields [simp]:
  "velocity (curlPass s) = velocity s" "pressure (curlPass s) = pressure s"
  "divergence (curlPass s) = divergence s" "dye (curlPass s) = dye s"
  "CONFIG (curlPass s) = CONFIG s"
  by (simp_all add: curlPass_def)

lemma vorticityPass_fields [simp]:
  "pressure (vorticityPass dt s) = pressure s"
  "divergence (vorticityPass dt s) = divergence s" "dye (vorticityPass dt s) = dye s"
  "curl (vorticityPass dt s) = curl s"
  "CONFIG (vorticityPass dt s) = CONFIG s"
  by (simp_all add: vorticityPass_def Let_def)

lemma divergencePass_fields [simp]:
  "velocity (divergencePass s) = velocity s" "pressure (divergencePass s) = pressure s"
  "curl (divergencePass s) = curl s" "dye (divergencePass s) = dye s"
  "CONFIG (divergencePass s) = CONFIG s"
  by (simp_all add: divergencePass_def)

lemma clearPass_fields [simp]:
  "velocity (clearPass s) = velocity s" "divergence (clearPass s) = divergence s"
  "curl (clearPass s) = curl s" "dye (clearPass s) = dye s"
  "CONFIG (clearPass s) = CONFIG s"
  by (simp_all add: clearPass_def Let_def)

lemma pressurePass_fields [simp]:
  "velocity (pressurePass s) = velocity s" "divergence (pressurePass s) = divergence s"
  "curl (pressurePass s) = curl s" "dye (pressurePass s) = dye s"
  "CONFIG (pressurePass s) = CONFIG s"
  by (simp_all add: pressurePass_def Let_def)

lemma bindAssigned_pass [simp]:
  "bindAssigned (curlPass s) = bindAssigned s"
  "bindAssigned (vorticityPass dt s) = bindAssigned s"
  "bindAssigned (divergencePass s) = bindAssigned s"
  "bindAssigned (clearPass s) = bindAssigned s"
  "bindAssigned (pressurePass s) = bindAssigned s"
  "bindAssigned (gradientSubtractPass s) = bindAssigned s"
  "bindAssigned (advectVelocityPass dt s) = bindAssigned s"
  "bindAssigned (advectDyePass dt s) = bindAssigned s"
  by (simp_all add: curlPass_def vorticityPass_def divergencePass_def clearPass_def
        pressurePass_def gradientSubtractPass_def advectVelocityPass_def advectDyePass_def
        Let_def)

lemma simAligned_curlPass: "simAligned s \<Longrightarrow> simAligned (curlPass s)"
  by (simp add: simAligned_def curlPass_def)

lemma simAligned_vorticityPass: "simAligned s \<Longrightarrow> simAligned (vorticityPass dt s)"
  by (simp add: simAligned_def vorticityPass_def Let_def)

lemma simAligned_divergencePass: "simAligned s \<Longrightarrow> simAligned (divergencePass s)"
  by (simp add: simAligned_def divergencePass_def)

lemma simAligned_clearPass: "simAligned s \<Longrightarrow> simAligned (clearPass s)"
  by (simp add: simAligned_def clearPass_def Let_def)

lemma simAligned_pressurePass: "simAligned s \<Longrightarrow> simAligned (pressurePass s)"
  by (simp add: simAligned_def pressurePass_def Let_def)

lemma clearPass_pixel:
  assumes "simAligned s" "x < dwidth (velocity s)" "y < dheight (velocity s)"
  shows "vx (pixels (dread (pressure (clearPass s))) x y) =
           PRESSURE (CONFIG s) * vx (pixels (dread (pressure s)) x y)"
proof -
  define W where "W = dwidth (velocity s)"
  define H where "H = dheight (velocity s)"
  define t where "t = dread (pressure s)"
  have pos: "0 < W" "0 < H" and xy: "x < W" "y < H"
    and vp: "simViewport s = (W, H)"
    and wt: "width t = W" "height t = H"
    and wd: "width (dwrite (pressure s)) = W" "height (dwrite (pressure s)) = H"
    using assms
    by (simp_all add: simAligned_def fboSized_def W_def H_def t_def simViewport_def)
  have px: "pixels (dread (pressure (clearPass s))) x y =
     storeTexel (internalFormat (dwrite (pressure s)))
       (clearShader t (PRESSURE (CONFIG s)) (baseVertexShader (0, 0) (pixelUv (W, H) x y)))"
    using xy wd by (simp add: clearPass_def Let_def vp blit_pixel t_def)
  have smp: "texture2D t (texelCentre W (int x), texelCentre H (int y)) = pixels t x y"
    using sample_neighbours(1)[of x t y] xy unfolding wt by simp
  show ?thesis
    unfolding px t_def[symmetric]
    by (simp add: clearShader_def vUv_at_pixel smp vscale_def)
qed

lemma pressurePass_pixel:
  assumes "simAligned s" "x < dwidth (velocity s)" "y < dheight (velocity s)"
  shows "vx (pixels (dread (pressure (pressurePass s))) x y) =
     (vx (pixels (dread (pressure s)) (x - 1) y)
      + vx (pixels (dread (pressure s)) (min (x + 1) (dwidth (velocity s) - 1)) y)
      + vx (pixels (dread (pressure s)) x (min (y + 1) (dheight (velocity s) - 1)))
      + vx (pixels (dread (pressure s)) x (y - 1))
      - vx (pixels (divergence s) x y)) / 4"
proof -
  define W where "W = dwidth (velocity s)"
  define H where "H = dheight (velocity s)"
  define t where "t = dread (pressure s)"
  define d where "d = divergence s"
  have pos: "0 < W" "0 < H" and xy: "x < W" "y < H"
    and ts: "simTexelSize s = (1 / real W, 1 / real H)"
    and vp: "simViewport s = (W, H)"
    and wt: "width t = W" "height t = H"
    and wdv: "width d = W" "height d = H"
    and wd: "width (dwrite (pressure s)) = W" "height (dwrite (pressure s)) = H"
    using assms
    by (simp_all add: simAligned_def fboSized_def W_def H_def t_def d_def simViewport_def
          simTexelSize_def)
  have px: "pixels (dread (pressure (pressurePass s))) x y =
     storeTexel (internalFormat (dwrite (pressure s)))
       (pressureShader t d (baseVertexShader (1 / real W, 1 / real H) (pixelUv (W, H) x y)))"
    using xy wd by (simp add: pressurePass_def Let_def vp ts blit_pixel t_def d_def)
  have smp: "texture2D t (texelCentre W (int x - 1), texelCentre H (int y)) = pixels t (x - 1) y"
    "texture2D t (texelCentre W (int x + 1), texelCentre H (int y))
           = pixels t (min (x + 1) (W - 1)) y"
    "texture2D t (texelCentre W (int x), texelCentre H (int y + 1))
           = pixels t x (min (y + 1) (H - 1))"
    "texture2D t (texelCentre W (int x), texelCentre H (int y - 1)) = pixels t x (y - 1)"
    using sample_neighbours[of x t y] xy unfolding wt by simp_all
  have smpd: "texture2D d (texelCentre W (int x), texelCentre H (int y)) = pixels d x y"
    using sample_neighbours(1)[of x d y] xy unfolding wdv by simp
  have sh: "vx (pressureShader t d
              (baseVertexShader (1 / real W, 1 / real H) (pixelUv (W, H) x y))) =
     (vx (pixels t (x - 1) y) + vx (pixels t (min (x + 1) (W - 1)) y)
      + vx (pixels t x (y - 1)) + vx (pixels t x (min (y + 1) (H - 1)))
      - vx (pixels d x y)) * (1 / 4)"
    unfolding varyings_at_pixel[OF pos] pressureShader_def Let_def
    by (simp only: varyings.simps fst_conv snd_conv smp smpd vec4.sel)
  have "vx (pixels (dread (pressure (pressurePass s))) x y) =
        vx (pressureShader t d
              (baseVertexShader (1 / real W, 1 / real H) (pixelUv (W, H) x y)))"
    unfolding px by simp
  also note sh
  finally show ?thesis
    unfolding W_def[symmetric] H_def[symmetric] t_def[symmetric] d_def[symmetric]
    by simp
qed

lemma pressurePass_toggle:
  "dwrite (pressure (pressurePass s)) = dread (pressure s)"
  "texture (dread (pressure (pressurePass s))) = texture (dwrite (pressure s))"
  by (simp_all add: pressurePass_def Let_def)

lemma pressureLoop_funpow:
  "pressureLoop i s = (pressurePass ^^ (PRESSURE_ITERATIONS (CONFIG s) - i)) s"
proof (induction i s rule: pressureLoop.induct)
  case (1 i s)
  show ?case
  proof (cases "i < PRESSURE_ITERATIONS (CONFIG s)")
    case True
    then obtain k where k: "PRESSURE_ITERATIONS (CONFIG s) - i = Suc k"
      and k': "PRESSURE_ITERATIONS (CONFIG s) - (i + 1) = k"
      by (cases "PRESSURE_ITERATIONS (CONFIG s) - i") auto
    have "pressureLoop i s = pressureLoop (i + 1) (pressurePass s)"
      using True by (subst pressureLoop.simps) simp
    also have "\<dots> = (pressurePass ^^ k) (pressurePass s)"
      using "1.IH"[OF True] k' by simp
    also have "\<dots> = (pressurePass ^^ Suc k) s"
      by (simp add: funpow_swap1)
    finally show ?thesis
      by (simp only: k)
  next
    case False
    then have "pressureLoop i s = s"
      by (subst pressureLoop.simps) simp
    then show ?thesis
      using False by simp
  qed
qed

subsection \<open>Colours and splats: what they leave unchanged\<close>

lemma generateColor_fst:
  "fst (generateColor s) =
     jitteredColor (PALETTE ! (paletteIndex s mod length PALETTE))
       (jitterOf (randoms s (randomCalls s)))"
  by (simp add: generateColor_def Math_random_def Let_def)

lemma generateColor_snd:
  "snd (generateColor s) =
     s\<lparr>paletteIndex := Suc (paletteIndex s), randomCalls := Suc (randomCalls s)\<rparr>"
  by (simp add: generateColor_def Math_random_def Let_def)

lemma recolorPointers_snd:
  "snd (recolorPointers ps s) =
     s\<lparr>paletteIndex := paletteIndex s + length ps, randomCalls := randomCalls s + length ps\<rparr>"
proof (induction ps arbitrary: s)
  case Nil
  show ?case by simp
next
  case (Cons p ps)
  show ?case
    by (simp add: split_beta Let_def Cons.IH generateColor_snd)
qed

lemma recolorPointers_length: "length (fst (recolorPointers ps s)) = length ps"
  by (induction ps arbitrary: s) (simp_all add: split_beta Let_def)

lemma recolorPointers_nth:
  "i < length ps \<Longrightarrow>
   fst (recolorPointers ps s) ! i =
     (ps ! i)\<lparr>color := jitteredColor (PALETTE ! ((paletteIndex s + i) mod length PALETTE))
                           (jitterOf (randoms s (randomCalls s + i)))\<rparr>"
proof (induction ps arbitrary: s i)
  case Nil
  then show ?case by simp
next
  case (Cons p ps)
  show ?case
  proof (cases i)
    case 0
    then show ?thesis
      by (simp add: split_beta Let_def generateColor_fst)
  next
    case (Suc j)
    then have "j < length ps" using Cons.prems by simp
    from Cons.IH[OF this, of "snd (generateColor s)"] Suc show ?thesis
      by (simp add: split_beta Let_def generateColor_snd)
  qed
qed

lemma splatsOnly_refl: "splatsOnly s s"
  by (simp add: splatsOnly_def)

lemma splatsOnly_trans: "splatsOnly a b \<Longrightarrow> splatsOnly b c \<Longrightarrow> splatsOnly a c"
  by (simp add: splatsOnly_def)

lemma splatsOnly_splat: "splatsOnly s (splat x y dx dy col s)"
  by (simp add: splatsOnly_def splat_def Let_def otherDraws_def)

lemma splatsOnly_randoms: "splatsOnly s (s\<lparr>paletteIndex := a, randomCalls := b\<rparr>)"
  by (simp add: splatsOnly_def otherDraws_def)

lemma randomSplat_eq:
  "randomSplat s =
     splat (randoms s (Suc (randomCalls s)))
           (randoms s (Suc (Suc (randomCalls s))))
           (1000 * (randoms s (Suc (Suc (Suc (randomCalls s)))) - 1 / 2))
           (1000 * (randoms s (Suc (Suc (Suc (Suc (randomCalls s))))) - 1 / 2))
           (RGB (red (fst (generateColor s)) * 12) (green (fst (generateColor s)) * 12)
                (blue (fst (generateColor s)) * 12))
           (s\<lparr>paletteIndex := Suc (paletteIndex s),
              randomCalls := Suc (Suc (Suc (Suc (Suc (randomCalls s)))))\<rparr>)"
  by (simp add: randomSplat_def split_beta Let_def generateColor_snd Math_random_def)

lemma splatsOnly_randomSplat: "splatsOnly s (randomSplat s)"
  unfolding randomSplat_eq
  by (rule splatsOnly_trans[OF splatsOnly_randoms splatsOnly_splat])

lemma splatsOnly_multipleSplatsFrom: "splatsOnly s (multipleSplatsFrom i amount s)"
proof (induction i amount s rule: multipleSplatsFrom.induct)
  case (1 i amount s)
  show ?case
  proof (cases "i < amount")
    case True
    have "multipleSplatsFrom i amount s = multipleSplatsFrom (i + 1) amount (randomSplat s)"
      using True by (subst multipleSplatsFrom.simps) simp
    then show ?thesis
      using "1.IH"[OF True] splatsOnly_randomSplat[of s] splatsOnly_trans by metis
  next
    case False
    then have "multipleSplatsFrom i amount s = s"
      by (subst multipleSplatsFrom.simps) simp
    then show ?thesis by (simp add: splatsOnly_refl)
  qed
qed

lemma splatsOnly_splatPointer: "splatsOnly s (splatPointer p s)"
  by (simp add: splatPointer_def Let_def splatsOnly_splat)

lemma splatsOnly_splatMovedPointers: "splatsOnly s (snd (splatMovedPointers ps s))"
proof (induction ps arbitrary: s)
  case Nil
  show ?case by (simp add: splatsOnly_refl)
next
  case (Cons p ps)
  show ?case
  proof (cases "moved p")
    case True
    then show ?thesis
      using Cons.IH[of "splatPointer (p\<lparr>moved := False\<rparr>) s"]
        splatsOnly_splatPointer[of s "p\<lparr>moved := False\<rparr>"] splatsOnly_trans
      by (auto simp: split_beta Let_def)
  next
    case False
    then show ?thesis
      using Cons.IH[of s] by (simp add: split_beta)
  qed
qed

lemma splatMovedPointers_fst:
  "fst (splatMovedPointers ps s) = map (\<lambda>p. p\<lparr>moved := False\<rparr>) ps"
proof (induction ps arbitrary: s)
  case Nil
  show ?case by simp
next
  case (Cons p ps)
  show ?case
    by (cases "moved p") (simp_all add: split_beta Let_def Cons.IH)
qed

lemma applyInputs_splatsOnly:
  "splatsOnly (s\<lparr>splatStack := butlast (splatStack s),
                   pointers := map (\<lambda>p. p\<lparr>moved := False\<rparr>) (pointers s)\<rparr>) (applyInputs s)"
proof -
  define s1 where "s1 = (if length (splatStack s) > 0
                then multipleSplats (last (splatStack s))
                       (s\<lparr>splatStack := butlast (splatStack s)\<rparr>)
                else s)"
  have a: "splatsOnly (s\<lparr>splatStack := butlast (splatStack s)\<rparr>) s1"
  proof (cases "splatStack s")
    case Nil
    then show ?thesis
      by (simp add: s1_def splatsOnly_def otherDraws_def)
  next
    case (Cons a as)
    then show ?thesis
      unfolding s1_def multipleSplats_def
      by (simp add: splatsOnly_multipleSplatsFrom)
  qed
  have b: "splatsOnly s1 (snd (splatMovedPointers (pointers s1) s1))"
    by (rule splatsOnly_splatMovedPointers)
  have c: "applyInputs s =
     (snd (splatMovedPointers (pointers s1) s1))\<lparr>pointers := map (\<lambda>p. p\<lparr>moved := False\<rparr>) (pointers s1)\<rparr>"
    unfolding applyInputs_def s1_def[symmetric]
    by (simp add: split_beta splatMovedPointers_fst)
  have p1: "pointers s1 = pointers s"
    using a by (simp add: splatsOnly_def)
  show ?thesis
    using splatsOnly_trans[OF a b] unfolding c p1
    by (simp add: splatsOnly_def otherDraws_def)
qed

subsection \<open>The structure of a tick\<close>

lemma update_unfold:
  "update b s =
     render (if \<not> PAUSED (CONFIG (afterInputs b s))
             then step (tickTime b s) (afterInputs b s) else afterInputs b s)"
  by (simp add: update_def afterInputs_def beforeInputs_def tickTime_def split_beta Let_def)

lemma initFramebuffers_fields [simp]:
  "CONFIG (initFramebuffers s) = CONFIG s" "draws (initFramebuffers s) = draws s"
  "pointers (initFramebuffers s) = pointers s" "splatStack (initFramebuffers s) = splatStack s"
  "bindAssigned (initFramebuffers s) = bindAssigned s"
  by (simp_all add: initFramebuffers_def split_beta Let_def)

lemma recolorPointers_moved: "map moved (fst (recolorPointers ps s)) = map moved ps"
  by (induction ps arbitrary: s) (simp_all add: split_beta Let_def)

lemma updateColors_fields [simp]:
  "CONFIG (updateColors dt s) = CONFIG s" "draws (updateColors dt s) = draws s"
  "splatStack (updateColors dt s) = splatStack s"
  "velocity (updateColors dt s) = velocity s" "dye (updateColors dt s) = dye s"
  "pressure (updateColors dt s) = pressure s" "divergence (updateColors dt s) = divergence s"
  "curl (updateColors dt s) = curl s" "bindAssigned (updateColors dt s) = bindAssigned s"
  by (simp_all add: updateColors_def split_beta Let_def recolorPointers_snd)

lemma updateColors_moved:
  "map moved (pointers (updateColors dt s)) = map moved (pointers s)"
  by (simp add: updateColors_def split_beta Let_def recolorPointers_moved)

lemma beforeInputs_fields [simp]:
  "CONFIG (beforeInputs b s) = CONFIG s" "draws (beforeInputs b s) = draws s"
  "splatStack (beforeInputs b s) = splatStack s"
  "map moved (pointers (beforeInputs b s)) = map moved (pointers s)"
  by (simp_all add: beforeInputs_def calcDeltaTime_def resizeCanvas_def split_beta Let_def
        updateColors_moved)

lemma beforeInputs_fields_noresize:
  assumes "\<not> canvasResized b s"
  shows "velocity (beforeInputs b s) = velocity s" "dye (beforeInputs b s) = dye s"
    "pressure (beforeInputs b s) = pressure s" "divergence (beforeInputs b s) = divergence s"
    "curl (beforeInputs b s) = curl s"
  using assms
  by (simp_all add: beforeInputs_def calcDeltaTime_def resizeCanvas_def canvasResized_def
        split_beta Let_def)

lemma bindAssigned_beforeInputs [simp]: "bindAssigned (beforeInputs b s) = bindAssigned s"
  by (simp add: beforeInputs_def calcDeltaTime_def resizeCanvas_def split_beta Let_def)

lemma bindAssigned_applyInputs [simp]: "bindAssigned (applyInputs s) = bindAssigned s"
  using applyInputs_splatsOnly[of s] by (simp add: splatsOnly_def)

lemma bindAssigned_afterInputs [simp]: "bindAssigned (afterInputs b s) = bindAssigned s"
  by (simp add: afterInputs_def)

lemma filter_moved_map: "filter moved ps = [] \<longleftrightarrow> map moved ps = replicate (length ps) False"
  by (induction ps) auto

lemma afterInputs_CONFIG [simp]: "CONFIG (afterInputs b s) = CONFIG s"
  using applyInputs_splatsOnly[of "beforeInputs b s"]
  by (simp add: afterInputs_def splatsOnly_def)

lemma afterInputs_otherDraws [simp]: "otherDraws (afterInputs b s) = otherDraws s"
  using applyInputs_splatsOnly[of "beforeInputs b s"]
  by (simp add: afterInputs_def splatsOnly_def otherDraws_def)

lemma afterInputs_pressure:
  "\<not> canvasResized b s \<Longrightarrow> pressure (afterInputs b s) = pressure s"
  "\<not> canvasResized b s \<Longrightarrow> divergence (afterInputs b s) = divergence s"
  "\<not> canvasResized b s \<Longrightarrow> curl (afterInputs b s) = curl s"
  using applyInputs_splatsOnly[of "beforeInputs b s"]
  by (simp_all add: afterInputs_def splatsOnly_def beforeInputs_fields_noresize)

lemma afterInputs_consumed:
  "filter moved (pointers (afterInputs b s)) = []"
  "splatStack (afterInputs b s) = butlast (splatStack s)"
  using applyInputs_splatsOnly[of "beforeInputs b s"]
  by (simp_all add: afterInputs_def splatsOnly_def filter_empty_conv)

lemma splatMovedPointers_none:
  "filter moved ps = [] \<Longrightarrow> splatMovedPointers ps s = (ps, s)"
  by (induction ps) (auto split: if_splits)

lemma applyInputs_none:
  assumes "\<not> pendingSplats s"
  shows "applyInputs s = s"
  using assms by (simp add: applyInputs_def pendingSplats_def splatMovedPointers_none)

lemma pendingSplats_beforeInputs [simp]:
  "pendingSplats (beforeInputs b s) = pendingSplats s"
proof -
  have "filter moved (pointers (beforeInputs b s)) = [] \<longleftrightarrow> filter moved (pointers s) = []"
    unfolding filter_moved_map by (metis beforeInputs_fields(4) length_map)
  then show ?thesis
    by (simp add: pendingSplats_def)
qed

lemma afterInputs_none:
  "\<not> pendingSplats s \<Longrightarrow> afterInputs b s = beforeInputs b s"
  by (simp add: afterInputs_def applyInputs_none)

lemma passes_otherDraws:
  "p \<noteq> SplatProgram \<Longrightarrow> passes p s = length (filter (\<lambda>d. fst d = p) (otherDraws s))"
  unfolding passes_def otherDraws_def filter_filter
  by (rule arg_cong[where f=length], rule filter_cong) auto

lemma afterInputs_passes:
  "p \<noteq> SplatProgram \<Longrightarrow> passes p (afterInputs b s) = passes p s"
  by (simp add: passes_otherDraws)

lemma pass_draws:
  "draws (curlPass s) = draws s @ [(CurlProgram, Target (texture (curl s)))]"
  "draws (vorticityPass dt s) =
     draws s @ [(VorticityProgram, Target (texture (dwrite (velocity s))))]"
  "draws (divergencePass s) = draws s @ [(DivergenceProgram, Target (texture (divergence s)))]"
  "draws (clearPass s) = draws s @ [(ClearProgram, Target (texture (dwrite (pressure s))))]"
  "draws (pressurePass s) = draws s @ [(PressureProgram, Target (texture (dwrite (pressure s))))]"
  "draws (gradientSubtractPass s) =
     draws s @ [(GradienSubtractProgram, Target (texture (dwrite (velocity s))))]"
  "draws (advectVelocityPass dt s) =
     draws s @ [(AdvectionProgram, Target (texture (dwrite (velocity s))))]"
  "draws (advectDyePass dt s) = draws s @ [(AdvectionProgram, Target (texture (dwrite (dye s))))]"
  by (simp_all add: curlPass_def vorticityPass_def divergencePass_def clearPass_def
        pressurePass_def gradientSubtractPass_def advectVelocityPass_def advectDyePass_def
        Let_def)

lemma pass_passes:
  "passes p (curlPass s) = passes p s + (if p = CurlProgram then 1 else 0)"
  "passes p (vorticityPass dt s) = passes p s + (if p = VorticityProgram then 1 else 0)"
  "passes p (divergencePass s) = passes p s + (if p = DivergenceProgram then 1 else 0)"
  "passes p (clearPass s) = passes p s + (if p = ClearProgram then 1 else 0)"
  "passes p (pressurePass s) = passes p s + (if p = PressureProgram then 1 else 0)"
  "passes p (gradientSubtractPass s) =
     passes p s + (if p = GradienSubtractProgram then 1 else 0)"
  "passes p (advectVelocityPass dt s) = passes p s + (if p = AdvectionProgram then 1 else 0)"
  "passes p (advectDyePass dt s) = passes p s + (if p = AdvectionProgram then 1 else 0)"
  by (simp_all add: passes_def pass_draws)

lemma funpow_pressurePass_CONFIG [simp]: "CONFIG ((pressurePass ^^ k) s) = CONFIG s"
  by (induction k) simp_all

lemma funpow_pressurePass_passes:
  "passes p ((pressurePass ^^ k) s) = passes p s + (if p = PressureProgram then k else 0)"
  by (induction k) (simp_all add: pass_passes)

lemma simAligned_funpow_pressurePass:
  "simAligned s \<Longrightarrow> simAligned ((pressurePass ^^ k) s)"
  by (induction k) (simp_all add: simAligned_pressurePass)

lemma funpow_pressurePass_fields [simp]:
  "velocity ((pressurePass ^^ k) s) = velocity s"
  "divergence ((pressurePass ^^ k) s) = divergence s"
  by (induction k) simp_all

lemma bindAssigned_funpow_pressurePass [simp]:
  "bindAssigned ((pressurePass ^^ k) s) = bindAssigned s"
  by (induction k) simp_all

lemma step_unloaded: "\<not> bindAssigned s \<Longrightarrow> step dt s = s"
  by (simp add: step_def programBuilt_def)

lemma step_unfold:
  "bindAssigned s \<Longrightarrow>
   step dt s =
     advectDyePass dt (advectVelocityPass dt (gradientSubtractPass
       ((pressurePass ^^ PRESSURE_ITERATIONS (CONFIG s))
          (clearPass (divergencePass (vorticityPass dt (curlPass s)))))))"
  by (simp add: step_def programBuilt_def pressureLoop_funpow)

lemma bindAssigned_step [simp]: "bindAssigned (step dt s) = bindAssigned s"
  by (cases "bindAssigned s") (simp_all add: step_unfold step_unloaded)

lemma step_passes:
  "bindAssigned s \<Longrightarrow>
   passes p (step dt s) =
     passes p s
     + (if p = CurlProgram \<or> p = VorticityProgram \<or> p = DivergenceProgram
           \<or> p = ClearProgram \<or> p = GradienSubtractProgram then 1 else 0)
     + (if p = AdvectionProgram then 2 else 0)
     + (if p = PressureProgram then PRESSURE_ITERATIONS (CONFIG s) else 0)"
  by (simp add: step_unfold pass_passes funpow_pressurePass_passes)

lemma render_fields [simp]:
  "CONFIG (render s) = CONFIG s" "velocity (render s) = velocity s" "dye (render s) = dye s"
  "pressure (render s) = pressure s" "divergence (render s) = divergence s"
  "curl (render s) = curl s" "pointers (render s) = pointers s"
  "splatStack (render s) = splatStack s" "bindAssigned (render s) = bindAssigned s"
  by (simp_all add: render_def drawDisplay_def drawColor_def Let_def)

lemma render_unloaded: "\<not> bindAssigned s \<Longrightarrow> render s = s"
  by (simp add: render_def programBuilt_def)

lemma render_draws:
  "bindAssigned s \<Longrightarrow>
   draws (render s) =
     draws s @ (if TRANSPARENT (CONFIG s) then [] else [(ColorProgram, Screen)])
             @ [(DisplayProgram, Screen)]"
  by (simp add: render_def programBuilt_def drawDisplay_def drawColor_def Let_def)

lemma render_passes:
  "bindAssigned s \<Longrightarrow>
   passes p (render s) =
     passes p s + (if p = ColorProgram \<and> \<not> TRANSPARENT (CONFIG s) then 1 else 0)
                + (if p = DisplayProgram then 1 else 0)"
  by (simp add: passes_def render_draws)

lemma render_screen:
  assumes "bindAssigned s" "x < canvasWidth s" "y < canvasHeight s"
  shows "screen (render s) x y =
     displayShader (dread (dye s)) (1 / real (canvasWidth s), 1 / real (canvasHeight s))
       (if SHADING (CONFIG s) then 65 / 100 else 0)
       (baseVertexShader (1 / real (canvasWidth s), 1 / real (canvasHeight s))
          (pixelUv (canvasWidth s, canvasHeight s) x y))"
  using assms
  by (simp add: render_def programBuilt_def drawDisplay_def drawColor_def Let_def
        blitScreen_def)

lemma bindAssigned_update [simp]: "bindAssigned (update b s) = bindAssigned s"
  by (simp add: update_unfold)

lemma update_passes_pressure:
  "\<not> PAUSED (CONFIG s) \<Longrightarrow> bindAssigned s \<Longrightarrow>
   passes PressureProgram (update b s) =
     passes PressureProgram s + PRESSURE_ITERATIONS (CONFIG s)"
  by (simp add: update_unfold render_passes step_passes afterInputs_passes)

lemma jacobiPass_pressurePass: "simAligned a \<Longrightarrow> jacobiPass a (pressurePass a)"
  unfolding jacobiPass_def
  by (simp add: pressurePass_toggle pass_draws pressurePass_pixel)

lemma simAligned_upToClear:
  "simAligned s \<Longrightarrow> simAligned (clearPass (divergencePass (vorticityPass dt (curlPass s))))"
  by (intro simAligned_clearPass simAligned_divergencePass simAligned_vorticityPass
        simAligned_curlPass)

lemma simAligned_splat [simp]: "simAligned (splat x y dx dy col s) = simAligned s"
  by (auto simp add: simAligned_def splat_def Let_def)

lemma simAligned_counters [simp]:
  "simAligned (s\<lparr>paletteIndex := a, randomCalls := c\<rparr>) = simAligned s"
  "simAligned (s\<lparr>splatStack := st\<rparr>) = simAligned s"
  "simAligned (s\<lparr>pointers := ps\<rparr>) = simAligned s"
  by (simp_all add: simAligned_def)

lemma simAligned_multipleSplatsFrom [simp]:
  "simAligned (multipleSplatsFrom i amount s) = simAligned s"
proof (induction i amount s rule: multipleSplatsFrom.induct)
  case (1 i amount s)
  show ?case
  proof (cases "i < amount")
    case True
    have "multipleSplatsFrom i amount s = multipleSplatsFrom (i + 1) amount (randomSplat s)"
      using True by (subst multipleSplatsFrom.simps) simp
    then show ?thesis
      using "1.IH"[OF True] by (simp add: randomSplat_eq)
  next
    case False
    then have "multipleSplatsFrom i amount s = s"
      by (subst multipleSplatsFrom.simps) simp
    then show ?thesis by simp
  qed
qed

lemma simAligned_splatMovedPointers [simp]:
  "simAligned (snd (splatMovedPointers ps s)) = simAligned s"
  by (induction ps arbitrary: s) (simp_all add: split_beta Let_def splatPointer_def)

lemma simAligned_applyInputs [simp]: "simAligned (applyInputs s) = simAligned s"
  by (simp add: applyInputs_def split_beta Let_def multipleSplats_def)

lemma simAligned_afterInputs:
  assumes "simAligned s" "\<not> canvasResized b s"
  shows "simAligned (afterInputs b s)"
proof -
  have "simAligned (beforeInputs b s) = simAligned s"
    unfolding simAligned_def[of "beforeInputs b s"] simAligned_def[of s]
    by (simp only: beforeInputs_fields_noresize[OF assms(2)])
  then show ?thesis
    using assms(1) by (simp add: afterInputs_def)
qed

lemma demo_facts:
  "\<not> PAUSED (CONFIG demoState)" "\<not> canvasResized demoBrowser demoState"
  "\<not> pendingSplats demoState" "passes p demoState = 0"
  "PRESSURE_ITERATIONS (CONFIG demoState) = 20" "PRESSURE (CONFIG demoState) = 8 / 10"
  "bindAssigned demoState"
  by (simp_all add: demoState_def demoBrowser_def CONFIG_default_def canvasResized_def
        scaleByPixelRatio_def pendingSplats_def pointerPrototype_def passes_def)

lemma demo_afterInputs:
  "simAligned (afterInputs demoBrowser demoState)"
  "velocity (afterInputs demoBrowser demoState) = velocity demoState"
  "pressure (afterInputs demoBrowser demoState) = pressure demoState"
  using simAligned_afterInputs[OF simAligned_demoState demo_facts(2)]
  by (simp_all add: afterInputs_none demo_facts beforeInputs_fields_noresize)

lemma update_passes_clear:
  "\<not> PAUSED (CONFIG s) \<Longrightarrow> bindAssigned s \<Longrightarrow>
   passes ClearProgram (update b s) = passes ClearProgram s + 1"
  by (simp add: update_unfold render_passes step_passes afterInputs_passes)

lemma update_unloaded:
  "\<not> bindAssigned s \<Longrightarrow> update b s = afterInputs b s"
  by (simp add: update_unfold step_unloaded render_unloaded)

lemma demoLoad_facts:
  "\<not> PAUSED (CONFIG demoLoadState)" "\<not> bindAssigned demoLoadState"
  "\<not> canvasResized demoBrowser demoLoadState" "\<not> pendingSplats demoLoadState"
  "simAligned demoLoadState" "draws demoLoadState = []"
  "PRESSURE_ITERATIONS (CONFIG demoLoadState) = 20"
  by (simp_all add: demoLoadState_def demoState_def demoBrowser_def CONFIG_default_def
        canvasResized_def scaleByPixelRatio_def pendingSplats_def pointerPrototype_def
        simAligned_def demoDouble_def demoFBO_def fboSized_def)

lemma demoLoad_update:
  "update demoBrowser demoLoadState = beforeInputs demoBrowser demoLoadState"
  by (simp add: update_unloaded demoLoad_facts afterInputs_none)

subsection \<open>The size invariant of the fields\<close>

text \<open>
  The hypotheses on the sizes of the fields in the theorems below are an invariant of the
  script: a double field created from nothing is well-formed, and a tick keeps the fields
  well-formed, provided that a resized canvas is not empty and the two resolutions of the
  configuration round to at least one texel.
\<close>

lemma createDoubleFBO_None_aligned:
  assumes "0 < w" "0 < h"
  shows "doubleAligned (fst (createDoubleFBO w h fmt prm None n))
     \<and> dtexelSizeX (fst (createDoubleFBO w h fmt prm None n)) = 1 / real w
     \<and> dtexelSizeY (fst (createDoubleFBO w h fmt prm None n)) = 1 / real h"
  using assms
  by (simp add: createDoubleFBO_def createFBO_def Let_def doubleAligned_def fboSized_def)

lemma getResolution_pos:
  assumes "0 < canvasWidth s" "0 < canvasHeight s" "1 / 2 \<le> resolution"
  shows "0 < fst (getResolution s resolution) \<and> 0 < snd (getResolution s resolution)"
proof -
  define a0 where "a0 = real (canvasWidth s) / real (canvasHeight s)"
  define a where "a = (if a0 < 1 then 1 / a0 else a0)"
  have "0 < a0" using assms by (simp add: a0_def)
  then have "1 \<le> a"
    by (simp add: a_def field_simps)
  then have "resolution * 1 \<le> resolution * a"
    using assms(3) by (intro mult_left_mono) simp_all
  then have "1 \<le> resolution * a + 1 / 2" "1 \<le> resolution + 1 / 2"
    using assms(3) by linarith+
  then have "1 \<le> \<lfloor>resolution * a + 1 / 2\<rfloor>" "1 \<le> \<lfloor>resolution + 1 / 2\<rfloor>"
    by linarith+
  then have p: "0 < nat \<lfloor>resolution * a + 1 / 2\<rfloor>" "0 < nat \<lfloor>resolution + 1 / 2\<rfloor>"
    by simp_all
  have "getResolution s resolution =
      (if canvasWidth s > canvasHeight s
       then (nat \<lfloor>resolution * a + 1 / 2\<rfloor>, nat \<lfloor>resolution + 1 / 2\<rfloor>)
       else (nat \<lfloor>resolution + 1 / 2\<rfloor>, nat \<lfloor>resolution * a + 1 / 2\<rfloor>))"
    by (simp add: getResolution_def Let_def a_def a0_def)
  then show ?thesis
    using p by simp
qed

lemma createFBO_sized: "fboSized w h (fst (createFBO w h fmt prm (Some e) n))"
  by (simp add: createFBO_def fboSized_def)

lemma createDoubleFBO_aligned:
  assumes "0 < w" "0 < h" "doubleAligned d"
  shows "doubleAligned (fst (createDoubleFBO w h fmt prm (Some d) n))"
    and "dwidth (fst (createDoubleFBO w h fmt prm (Some d) n)) = w"
    and "dheight (fst (createDoubleFBO w h fmt prm (Some d) n)) = h"
    and "fboSized w h (fbo1 (fst (createDoubleFBO w h fmt prm (Some d) n)))"
    and "fboSized w h (fbo2 (fst (createDoubleFBO w h fmt prm (Some d) n)))"
  using assms
  by (simp_all add: createDoubleFBO_def createFBO_def Let_def doubleAligned_def fboSized_def)

lemma createDoubleFBO_texelSize:
  assumes "dtexelSizeX d = 1 / real (dwidth d)" "dtexelSizeY d = 1 / real (dheight d)"
  shows "dtexelSizeX (fst (createDoubleFBO w h fmt prm (Some d) n)) = 1 / real w"
    and "dtexelSizeY (fst (createDoubleFBO w h fmt prm (Some d) n)) = 1 / real h"
  using assms
  by (auto simp add: createDoubleFBO_def createFBO_def Let_def)

lemma fieldsAligned_initFramebuffers:
  assumes "fieldsAligned s" "0 < canvasWidth s" "0 < canvasHeight s"
    "1 / 2 \<le> SIM_RESOLUTION (CONFIG s)" "1 / 2 \<le> DYE_RESOLUTION (CONFIG s)"
  shows "fieldsAligned (initFramebuffers s)"
proof -
  define W where "W = fst (getResolution s (SIM_RESOLUTION (CONFIG s)))"
  define H where "H = snd (getResolution s (SIM_RESOLUTION (CONFIG s)))"
  define DW where "DW = fst (getResolution s (DYE_RESOLUTION (CONFIG s)))"
  define DH where "DH = snd (getResolution s (DYE_RESOLUTION (CONFIG s)))"
  have pos: "0 < W" "0 < H" "0 < DW" "0 < DH"
    using getResolution_pos[OF assms(2,3,4)] getResolution_pos[OF assms(2,3,5)]
    by (simp_all add: W_def H_def DW_def DH_def)
  have dv: "doubleAligned (velocity s)" "doubleAligned (pressure s)" "doubleAligned (dye s)"
    using assms(1) by (simp_all add: fieldsAligned_def simAligned_def doubleAligned_def)
  have ts: "dtexelSizeX (velocity s) = 1 / real (dwidth (velocity s))"
    "dtexelSizeY (velocity s) = 1 / real (dheight (velocity s))"
    using assms(1) by (simp_all add: fieldsAligned_def simAligned_def)
  have vel: "velocity (initFramebuffers s) =
      fst (createDoubleFBO W H (formatRG (ext s))
             (if supportLinearFiltering (ext s) then LINEAR else NEAREST)
             (Some (velocity s))
             (snd (createDoubleFBO DW DH (formatRGBA (ext s))
                (if supportLinearFiltering (ext s) then LINEAR else NEAREST)
                (Some (dye s)) (texturesCreated s))))"
    by (simp add: initFramebuffers_def split_beta Let_def W_def H_def DW_def DH_def)
  have dy: "dye (initFramebuffers s) =
      fst (createDoubleFBO DW DH (formatRGBA (ext s))
             (if supportLinearFiltering (ext s) then LINEAR else NEAREST)
             (Some (dye s)) (texturesCreated s))"
    by (simp add: initFramebuffers_def split_beta Let_def DW_def DH_def)
  have "\<exists>n. pressure (initFramebuffers s) =
      fst (createDoubleFBO W H (formatR (ext s)) NEAREST (Some (pressure s)) n)"
    by (simp add: initFramebuffers_def split_beta Let_def W_def H_def) blast
  then obtain n where pr: "pressure (initFramebuffers s) =
      fst (createDoubleFBO W H (formatR (ext s)) NEAREST (Some (pressure s)) n)"
    by blast
  have "\<exists>n. divergence (initFramebuffers s) =
      fst (createFBO W H (formatR (ext s)) NEAREST (Some (divergence s)) n)"
    by (simp add: initFramebuffers_def split_beta Let_def W_def H_def) blast
  then obtain n2 where dg: "divergence (initFramebuffers s) =
      fst (createFBO W H (formatR (ext s)) NEAREST (Some (divergence s)) n2)"
    by blast
  have "\<exists>n. curl (initFramebuffers s) =
      fst (createFBO W H (formatR (ext s)) NEAREST (Some (curl s)) n)"
    by (simp add: initFramebuffers_def split_beta Let_def W_def H_def) blast
  then obtain n3 where cu: "curl (initFramebuffers s) =
      fst (createFBO W H (formatR (ext s)) NEAREST (Some (curl s)) n3)"
    by blast
  have "simAligned (initFramebuffers s)"
    unfolding simAligned_def vel pr dg cu
    by (simp only: createDoubleFBO_aligned[OF pos(1,2) dv(1)]
          createDoubleFBO_aligned[OF pos(1,2) dv(2)]
          createDoubleFBO_texelSize[OF ts] pos createFBO_sized simp_thms)
  moreover have "doubleAligned (dye (initFramebuffers s))"
    unfolding dy by (rule createDoubleFBO_aligned[OF pos(3,4) dv(3)])
  ultimately show ?thesis
    by (simp add: fieldsAligned_def)
qed

lemma doubleAligned_swap_blit [simp]:
  "doubleAligned (swap (d\<lparr>fbo2 := blit vp ts frag (fbo2 d)\<rparr>)) = doubleAligned d"
  by (auto simp add: doubleAligned_def)

lemma fieldsAligned_splat [simp]: "fieldsAligned (splat x y dx dy col s) = fieldsAligned s"
  by (simp add: fieldsAligned_def) (simp add: splat_def Let_def)

lemma fieldsAligned_counters [simp]:
  "fieldsAligned (s\<lparr>paletteIndex := a, randomCalls := c\<rparr>) = fieldsAligned s"
  "fieldsAligned (s\<lparr>splatStack := st\<rparr>) = fieldsAligned s"
  "fieldsAligned (s\<lparr>pointers := ps\<rparr>) = fieldsAligned s"
  "fieldsAligned (s\<lparr>lastUpdateTime := t\<rparr>) = fieldsAligned s"
  "fieldsAligned (s\<lparr>canvasWidth := w\<rparr>) = fieldsAligned s"
  "fieldsAligned (s\<lparr>canvasHeight := h\<rparr>) = fieldsAligned s"
  by (simp_all add: fieldsAligned_def simAligned_def)

lemma fieldsAligned_multipleSplatsFrom [simp]:
  "fieldsAligned (multipleSplatsFrom i amount s) = fieldsAligned s"
proof (induction i amount s rule: multipleSplatsFrom.induct)
  case (1 i amount s)
  show ?case
  proof (cases "i < amount")
    case True
    have "multipleSplatsFrom i amount s = multipleSplatsFrom (i + 1) amount (randomSplat s)"
      using True by (subst multipleSplatsFrom.simps) simp
    then show ?thesis
      using "1.IH"[OF True] by (simp add: randomSplat_eq)
  next
    case False
    then have "multipleSplatsFrom i amount s = s"
      by (subst multipleSplatsFrom.simps) simp
    then show ?thesis by simp
  qed
qed

lemma fieldsAligned_splatMovedPointers [simp]:
  "fieldsAligned (snd (splatMovedPointers ps s)) = fieldsAligned s"
  by (induction ps arbitrary: s) (simp_all add: split_beta Let_def splatPointer_def)

lemma fieldsAligned_applyInputs [simp]: "fieldsAligned (applyInputs s) = fieldsAligned s"
  by (simp add: applyInputs_def split_beta Let_def multipleSplats_def)

lemma fieldsAligned_updateColors [simp]: "fieldsAligned (updateColors dt s) = fieldsAligned s"
  by (simp add: fieldsAligned_def simAligned_def)

lemma fieldsAligned_render [simp]: "fieldsAligned (render s) = fieldsAligned s"
  by (simp add: fieldsAligned_def simAligned_def)

lemma fieldsAligned_passes:
  "fieldsAligned s \<Longrightarrow> fieldsAligned (curlPass s)"
  "fieldsAligned s \<Longrightarrow> fieldsAligned (vorticityPass dt s)"
  "fieldsAligned s \<Longrightarrow> fieldsAligned (divergencePass s)"
  "fieldsAligned s \<Longrightarrow> fieldsAligned (clearPass s)"
  "fieldsAligned s \<Longrightarrow> fieldsAligned (pressurePass s)"
  "fieldsAligned s \<Longrightarrow> fieldsAligned (gradientSubtractPass s)"
  "fieldsAligned s \<Longrightarrow> fieldsAligned (advectVelocityPass dt s)"
  "fieldsAligned s \<Longrightarrow> fieldsAligned (advectDyePass dt s)"
  by (simp_all add: fieldsAligned_def simAligned_def doubleAligned_def curlPass_def
        vorticityPass_def divergencePass_def clearPass_def pressurePass_def
        gradientSubtractPass_def advectVelocityPass_def advectDyePass_def Let_def)

lemma fieldsAligned_funpow_pressurePass:
  "fieldsAligned s \<Longrightarrow> fieldsAligned ((pressurePass ^^ k) s)"
  by (induction k) (simp_all add: fieldsAligned_passes)

lemma fieldsAligned_step: "fieldsAligned s \<Longrightarrow> fieldsAligned (step dt s)"
proof (cases "bindAssigned s")
  case True
  assume "fieldsAligned s"
  then show ?thesis
    unfolding step_unfold[OF True]
    by (intro fieldsAligned_passes fieldsAligned_funpow_pressurePass)
next
  case False
  assume "fieldsAligned s"
  then show ?thesis by (simp add: step_unloaded[OF False])
qed

lemma fieldsAligned_beforeInputs:
  assumes "fieldsAligned s"
    "canvasResized b s \<Longrightarrow>
       0 < scaleByPixelRatio b (clientWidth b) \<and> 0 < scaleByPixelRatio b (clientHeight b)"
    "1 / 2 \<le> SIM_RESOLUTION (CONFIG s)" "1 / 2 \<le> DYE_RESOLUTION (CONFIG s)"
  shows "fieldsAligned (beforeInputs b s)"
proof (cases "canvasResized b s")
  case True
  define s2 where
    "s2 = s\<lparr>lastUpdateTime := now b, canvasWidth := scaleByPixelRatio b (clientWidth b),
              canvasHeight := scaleByPixelRatio b (clientHeight b)\<rparr>"
  have "fieldsAligned s2" "0 < canvasWidth s2" "0 < canvasHeight s2"
    "1 / 2 \<le> SIM_RESOLUTION (CONFIG s2)" "1 / 2 \<le> DYE_RESOLUTION (CONFIG s2)"
    using assms True by (simp_all add: s2_def)
  then have "fieldsAligned (initFramebuffers s2)"
    by (rule fieldsAligned_initFramebuffers)
  moreover have "beforeInputs b s = updateColors (tickTime b s) (initFramebuffers s2)"
    using True
    by (auto simp add: beforeInputs_def tickTime_def calcDeltaTime_def resizeCanvas_def
          canvasResized_def Let_def s2_def)
  ultimately show ?thesis by simp
next
  case False
  then have "beforeInputs b s = updateColors (tickTime b s) (s\<lparr>lastUpdateTime := now b\<rparr>)"
    by (simp add: beforeInputs_def tickTime_def calcDeltaTime_def resizeCanvas_def
          canvasResized_def Let_def)
  then show ?thesis using assms(1) by simp
qed

lemma fieldsAligned_update:
  assumes "fieldsAligned s"
    "canvasResized b s \<Longrightarrow>
       0 < scaleByPixelRatio b (clientWidth b) \<and> 0 < scaleByPixelRatio b (clientHeight b)"
    "1 / 2 \<le> SIM_RESOLUTION (CONFIG s)" "1 / 2 \<le> DYE_RESOLUTION (CONFIG s)"
  shows "fieldsAligned (afterInputs b s) \<and> fieldsAligned (update b s)"
proof -
  have a: "fieldsAligned (afterInputs b s)"
    using fieldsAligned_beforeInputs[OF assms] by (simp add: afterInputs_def)
  then show ?thesis
    by (simp add: update_unfold fieldsAligned_step)
qed

subsection \<open>The divergence pass\<close>

text \<open>
  C3.  The divergence pass writes, at every texel \<open>(x, y)\<close> of the simulation grid, the value
  \<open>0.5 * ((R - L) + (T - B))\<close>, where \<open>L\<close> and \<open>R\<close> are the first velocity components of the
  left and right neighbours and \<open>T\<close> and \<open>B\<close> the second components of the upper and lower
  neighbours; where the neighbour lies outside the grid (left of column \<open>0\<close>, right of the
  last column, above the last row, below row \<open>0\<close>) its sample is replaced by the negated
  component of the centre texel on that axis.  The hypothesis \<open>simAligned\<close> is part of the
  size invariant of the fields.
\<close>

theorem divergence_mirrored_edges:
  assumes "simAligned s" "x < dwidth (velocity s)" "y < dheight (velocity s)"
  shows "vx (pixels (divergence (divergencePass s)) x y) =
     (let V = pixels (dread (velocity s));
          C = V x y;
          L = (if x = 0 then - vx C else vx (V (x - 1) y));
          R = (if x = dwidth (velocity s) - 1 then - vx C else vx (V (x + 1) y));
          T = (if y = dheight (velocity s) - 1 then - vy C else vy (V x (y + 1)));
          B = (if y = 0 then - vy C else vy (V x (y - 1)))
      in (1 / 2) * ((R - L) + (T - B)))"
proof -
  define W where "W = dwidth (velocity s)"
  define H where "H = dheight (velocity s)"
  define t where "t = dread (velocity s)"
  have pos: "0 < W" "0 < H" and xy: "x < W" "y < H"
    and ts: "simTexelSize s = (1 / real W, 1 / real H)"
    and vp: "simViewport s = (W, H)"
    and wt: "width t = W" "height t = H"
    and wd: "width (divergence s) = W" "height (divergence s) = H"
    using assms by (simp_all add: simAligned_def fboSized_def W_def H_def t_def simTexelSize_def simViewport_def)
  have px: "pixels (divergence (divergencePass s)) x y =
     storeTexel (internalFormat (divergence s))
       (divergenceShader t (baseVertexShader (1 / real W, 1 / real H) (pixelUv (W, H) x y)))"
    using xy wd by (simp add: divergencePass_def ts vp blit_pixel t_def)
  have smp: "texture2D t (texelCentre W (int x), texelCentre H (int y)) = pixels t x y"
    "texture2D t (texelCentre W (int x - 1), texelCentre H (int y)) = pixels t (x - 1) y"
    "texture2D t (texelCentre W (int x + 1), texelCentre H (int y))
           = pixels t (min (x + 1) (W - 1)) y"
    "texture2D t (texelCentre W (int x), texelCentre H (int y + 1))
           = pixels t x (min (y + 1) (H - 1))"
    "texture2D t (texelCentre W (int x), texelCentre H (int y - 1)) = pixels t x (y - 1)"
    using sample_neighbours[of x t y] xy unfolding wt by simp_all
  have sh: "vx (divergenceShader t
              (baseVertexShader (1 / real W, 1 / real H) (pixelUv (W, H) x y))) =
     (1 / 2) * ((if x = W - 1 then - vx (pixels t x y) else vx (pixels t (min (x + 1) (W - 1)) y))
              - (if x = 0 then - vx (pixels t x y) else vx (pixels t (x - 1) y))
              + (if y = H - 1 then - vy (pixels t x y) else vy (pixels t x (min (y + 1) (H - 1))))
              - (if y = 0 then - vy (pixels t x y) else vy (pixels t x (y - 1))))"
    unfolding varyings_at_pixel[OF pos] divergenceShader_def Let_def
    by (simp only: varyings.simps fst_conv snd_conv smp
          edge_conditions[OF pos(1) xy(1)] edge_conditions[OF pos(2) xy(2)] vec4.sel)
  have mn: "x \<noteq> W - Suc 0 \<Longrightarrow> min (Suc x) (W - Suc 0) = Suc x"
    "y \<noteq> H - Suc 0 \<Longrightarrow> min (Suc y) (H - Suc 0) = Suc y"
    using xy by linarith+
  have "vx (pixels (divergence (divergencePass s)) x y) =
        vx (divergenceShader t
              (baseVertexShader (1 / real W, 1 / real H) (pixelUv (W, H) x y)))"
    unfolding px by simp
  also note sh
  finally show ?thesis
    unfolding Let_def W_def[symmetric] H_def[symmetric] t_def[symmetric]
    by (simp add: mn)
qed

theorem divergence_mirrored_edges_witness:
  "simAligned demoState \<and> 0 < dwidth (velocity demoState) \<and> 0 < dheight (velocity demoState)
   \<and> vx (pixels (divergence (divergencePass demoState)) 0 0) = 1"
proof -
  have d: "dwidth (velocity demoState) = 2" "dheight (velocity demoState) = 2"
    "pixels (dread (velocity demoState)) = (\<lambda>x y. Vec4 (real x) (real y) 0 1)"
    by (simp_all add: demoState_def demoDouble_def demoFBO_def)
  have h: "(0::nat) < dwidth (velocity demoState)" "(0::nat) < dheight (velocity demoState)"
    by (simp_all add: d)
  show ?thesis
    using divergence_mirrored_edges[OF simAligned_demoState h] simAligned_demoState h
    by (simp add: d)
qed

subsection \<open>The pressure warm start\<close>

text \<open>
  C2 (amended).  In an unpaused tick made after \<^verbatim>\<open>Program.prototype.bind\<close> has been assigned,
  that is in every unpaused tick but the one that the script makes while it loads, the
  solver step runs one warm-start pass, and that pass leaves in the pressure buffer that is
  read next, at every texel of the grid, the pressure that was there when the solver step
  began multiplied by \<^verbatim>\<open>CONFIG.PRESSURE\<close>; with the default coefficient \<open>0.8\<close> a non-zero
  pressure stays non-zero, so the field is not reset.  (The pressure is the first channel
  of the pressure texture, the only one the shaders read.)  The hypothesis on the sizes
  of the fields at the start of the solver step follows from the size invariant.
\<close>

theorem pressure_warm_start:
  assumes "\<not> PAUSED (CONFIG s)" "bindAssigned s" "simAligned (afterInputs b s)"
    "x < dwidth (velocity (afterInputs b s))" "y < dheight (velocity (afterInputs b s))"
  shows "(let dt = tickTime b s;
              s1 = divergencePass (vorticityPass dt (curlPass (afterInputs b s)));
              old = vx (pixels (dread (pressure (afterInputs b s))) x y);
              new = vx (pixels (dread (pressure (clearPass s1))) x y)
          in update b s =
               render (advectDyePass dt (advectVelocityPass dt (gradientSubtractPass
                 (pressureLoop 0 (clearPass s1)))))
             \<and> passes ClearProgram (update b s) = passes ClearProgram s + 1
             \<and> new = PRESSURE (CONFIG s) * old
             \<and> (PRESSURE (CONFIG s) = PRESSURE CONFIG_default \<longrightarrow>
                  new = (8 / 10) * old \<and> (old \<noteq> 0 \<longrightarrow> new \<noteq> 0)))"
proof -
  define s1 where
    "s1 = divergencePass (vorticityPass (tickTime b s) (curlPass (afterInputs b s)))"
  have al: "simAligned s1"
    unfolding s1_def using assms(3)
    by (intro simAligned_divergencePass simAligned_vorticityPass simAligned_curlPass)
  have vel: "dwidth (velocity s1) = dwidth (velocity (afterInputs b s))"
    "dheight (velocity s1) = dheight (velocity (afterInputs b s))"
    by (simp_all add: s1_def vorticityPass_def Let_def)
  have pr: "pressure s1 = pressure (afterInputs b s)" "CONFIG s1 = CONFIG s"
    by (simp_all add: s1_def)
  have px: "vx (pixels (dread (pressure (clearPass s1))) x y) =
            PRESSURE (CONFIG s) * vx (pixels (dread (pressure (afterInputs b s))) x y)"
    using clearPass_pixel[OF al, of x y] assms(4,5) by (simp add: vel pr)
  have up: "update b s =
      render (advectDyePass (tickTime b s) (advectVelocityPass (tickTime b s)
        (gradientSubtractPass (pressureLoop 0 (clearPass s1)))))"
    using assms(1,2) by (simp add: update_unfold step_def programBuilt_def s1_def)
  have cl: "passes ClearProgram (update b s) = passes ClearProgram s + 1"
    using assms(1,2) by (rule update_passes_clear)
  show ?thesis
    using px up cl by (simp add: Let_def s1_def[symmetric] CONFIG_default_def)
qed

theorem pressure_warm_start_witness:
  "\<not> PAUSED (CONFIG demoState) \<and> bindAssigned demoState
   \<and> simAligned (afterInputs demoBrowser demoState)
   \<and> 1 < dwidth (velocity (afterInputs demoBrowser demoState))
   \<and> 0 < dheight (velocity (afterInputs demoBrowser demoState))
   \<and> passes ClearProgram (update demoBrowser demoState) = 1
   \<and> vx (pixels (dread (pressure (clearPass (divergencePass
           (vorticityPass (tickTime demoBrowser demoState)
              (curlPass (afterInputs demoBrowser demoState))))))) 1 0) = 16 / 10"
proof -
  have d: "dwidth (velocity demoState) = 2" "dheight (velocity demoState) = 2"
    "vx (pixels (dread (pressure demoState)) (Suc 0) 0) = 2"
    by (simp_all add: demoState_def demoDouble_def demoFBO_def)
  have h: "1 < dwidth (velocity (afterInputs demoBrowser demoState))"
    "0 < dheight (velocity (afterInputs demoBrowser demoState))"
    by (simp_all add: demo_afterInputs d)
  show ?thesis
    using pressure_warm_start[OF demo_facts(1) demo_facts(7) demo_afterInputs(1) h]
      demo_facts(1) demo_facts(7) demo_afterInputs(1) h
    by (auto simp add: Let_def demo_facts demo_afterInputs d)
qed

text \<open>
  C2 as stated fails: the tick that the script makes while it loads is unpaused, and its
  solver step returns at the guard, since no program has a method \<^verbatim>\<open>bind\<close> yet.  No
  warm-start pass is drawn and the buffers of the pressure field keep their roles.
\<close>

theorem pressure_warm_start_load_tick_counterexample:
  "\<not> PAUSED (CONFIG demoLoadState)
   \<and> simAligned (afterInputs demoBrowser demoLoadState)
   \<and> passes ClearProgram (update demoBrowser demoLoadState) = 0
   \<and> pressure (update demoBrowser demoLoadState) = pressure demoLoadState
   \<and> texture (dread (pressure (update demoBrowser demoLoadState))) = 6"
proof -
  have "texture (dread (pressure demoLoadState)) = 6"
    by (simp add: demoLoadState_def demoDouble_def demoFBO_def)
  then show ?thesis
    using simAligned_afterInputs[OF demoLoad_facts(5) demoLoad_facts(3)]
    by (simp add: demoLoad_update demoLoad_facts beforeInputs_fields_noresize passes_def)
qed

subsection \<open>The pressure solver\<close>

text \<open>
  C1 (amended).  In an unpaused tick made after \<^verbatim>\<open>Program.prototype.bind\<close> has been assigned,
  that is in every unpaused tick but the one that the script makes while it loads, exactly
  \<^verbatim>\<open>CONFIG.PRESSURE_ITERATIONS\<close> draw calls are made with the
  pressure program, the pressure stage of the tick is that many applications of
  \<open>pressurePass\<close> to the state left by the warm start, and each of them is a Jacobi pass in
  the sense of \<open>jacobiPass\<close>: it reads the previous pressure buffer and the divergence,
  writes \<open>(L + R + T + B - divergence) / 4\<close> into the write buffer and swaps the two buffers
  once.  The hypothesis on the sizes of the fields at the start of the solver step follows
  from the size invariant.
\<close>

theorem pressure_projection_jacobi:
  assumes "\<not> PAUSED (CONFIG s)" "bindAssigned s" "simAligned (afterInputs b s)"
  shows "passes PressureProgram (update b s) =
           passes PressureProgram s + PRESSURE_ITERATIONS (CONFIG s)
     \<and> (let n = PRESSURE_ITERATIONS (CONFIG s);
             dt = tickTime b s;
             s0 = clearPass (divergencePass (vorticityPass dt (curlPass (afterInputs b s))))
         in update b s =
              render (advectDyePass dt (advectVelocityPass dt (gradientSubtractPass
                ((pressurePass ^^ n) s0))))
            \<and> (\<forall>k<n. jacobiPass ((pressurePass ^^ k) s0) ((pressurePass ^^ Suc k) s0)))"
proof -
  define s0 where
    "s0 = clearPass (divergencePass (vorticityPass (tickTime b s)
            (curlPass (afterInputs b s))))"
  have al: "simAligned s0"
    unfolding s0_def using assms(3) by (rule simAligned_upToClear)
  have "jacobiPass ((pressurePass ^^ k) s0) ((pressurePass ^^ Suc k) s0)" for k
    using jacobiPass_pressurePass[OF simAligned_funpow_pressurePass[OF al, of k]] by simp
  moreover have "update b s =
      render (advectDyePass (tickTime b s) (advectVelocityPass (tickTime b s)
        (gradientSubtractPass ((pressurePass ^^ PRESSURE_ITERATIONS (CONFIG s)) s0))))"
    using assms(1,2) by (simp add: update_unfold step_unfold s0_def)
  ultimately show ?thesis
    using update_passes_pressure[OF assms(1,2), of b]
    by (simp add: Let_def s0_def)
qed

theorem pressure_projection_jacobi_witness:
  "\<not> PAUSED (CONFIG demoState) \<and> bindAssigned demoState
   \<and> simAligned (afterInputs demoBrowser demoState)
   \<and> passes PressureProgram (update demoBrowser demoState) = 20
   \<and> jacobiPass
        (clearPass (divergencePass (vorticityPass (tickTime demoBrowser demoState)
           (curlPass (afterInputs demoBrowser demoState)))))
        (pressurePass
          (clearPass (divergencePass (vorticityPass (tickTime demoBrowser demoState)
             (curlPass (afterInputs demoBrowser demoState))))))"
  using pressure_projection_jacobi[OF demo_facts(1) demo_facts(7) demo_afterInputs(1)]
    demo_facts(1) demo_facts(7) demo_afterInputs(1)
  by (simp add: Let_def demo_facts) (metis funpow_0 zero_less_numeral)

text \<open>
  C1 as stated fails: the tick that the script makes while it loads is unpaused, and its
  solver step returns at the guard, since no program has a method \<^verbatim>\<open>bind\<close> yet.  With
  twenty iterations configured, that tick makes no draw call at all.
\<close>

theorem pressure_projection_load_tick_counterexample:
  "\<not> PAUSED (CONFIG demoLoadState)
   \<and> simAligned (afterInputs demoBrowser demoLoadState)
   \<and> PRESSURE_ITERATIONS (CONFIG demoLoadState) = 20
   \<and> passes PressureProgram demoLoadState = 0
   \<and> passes PressureProgram (update demoBrowser demoLoadState) = 0
   \<and> draws (update demoBrowser demoLoadState) = []"
  using simAligned_afterInputs[OF demoLoad_facts(5) demoLoad_facts(3)]
  by (simp add: demoLoad_update demoLoad_facts passes_def)

subsection \<open>The timestep\<close>

text \<open>
  C4 (amended).  The timestep of a tick is the time elapsed since the previous tick, in
  seconds, when that is below \<open>0.016666\<close>, and exactly \<open>0.016666\<close> when it is not; it is
  non-negative exactly when \<^verbatim>\<open>Date.now()\<close> has not gone backwards since the previous tick.
  The tick records the new time.
\<close>

theorem timestep_clamp:
  "(let elapsed = real_of_int (now b - lastUpdateTime s) / 1000;
        threshold = 16666 / 1000000;
        dt = tickTime b s
    in (elapsed < threshold \<longrightarrow> dt = elapsed)
       \<and> (threshold \<le> elapsed \<longrightarrow> dt = threshold)
       \<and> (0 \<le> dt \<longleftrightarrow> lastUpdateTime s \<le> now b)
       \<and> lastUpdateTime (snd (calcDeltaTime b s)) = now b)"
  by (auto simp add: tickTime_def calcDeltaTime_def Let_def min_def)

theorem timestep_clamp_witness:
  "tickTime demoBrowser demoState = 16 / 1000
   \<and> tickTime (demoBrowser\<lparr>now := 1017\<rparr>) demoState = 16666 / 1000000
   \<and> lastUpdateTime demoState \<le> now demoBrowser"
  using timestep_clamp[of demoBrowser demoState]
    timestep_clamp[of "demoBrowser\<lparr>now := 1017\<rparr>" demoState]
  by (simp add: Let_def demoBrowser_def demoState_def)

text \<open>
  C4 as stated fails: there is no lower clamp, so a clock set back by one second between
  two ticks gives the timestep \<open>-1\<close>.
\<close>

theorem timestep_negative_counterexample:
  "lastUpdateTime demoState = 1000 \<and> now (demoBrowser\<lparr>now := 0\<rparr>) = 0
   \<and> tickTime (demoBrowser\<lparr>now := 0\<rparr>) demoState = - 1
   \<and> tickTime (demoBrowser\<lparr>now := 0\<rparr>) demoState < 0"
  by (simp add: tickTime_def calcDeltaTime_def Let_def demoBrowser_def demoState_def)

subsection \<open>Resizing a field\<close>

lemma storeTexel_clearColor:
  "vx (storeTexel fmt clearColor) = 0" "vy (storeTexel fmt clearColor) = 0"
  "vz (storeTexel fmt clearColor) = 0" "vw (storeTexel fmt clearColor) = 1"
  unfolding clearColor_def by (cases fmt, simp_all)+

lemma createFBO_None: "freshlyCleared w h fmt prm n (fst (createFBO w h fmt prm None n))"
  "snd (createFBO w h fmt prm None n) = Suc n"
  using storeTexel_clearColor[of fmt]
  by (simp_all add: createFBO_def freshlyCleared_def)

text \<open>
  C5 (amended).  Resizing a field or a double field to the size it has returns the very
  same object and creates no texture.  Resizing it to another size gives what creating it
  from nothing gives: new textures of the requested size, nothing carried over, every texel
  cleared to the clear colour of the context, which is opaque black: the colour channels
  are zero and the alpha channel is one.
\<close>

theorem resize_reuses_or_reallocates:
  "(width e = w \<and> height e = h \<longrightarrow> createFBO w h fmt prm (Some e) n = (e, n))
   \<and> (\<not> (width e = w \<and> height e = h) \<longrightarrow>
        createFBO w h fmt prm (Some e) n = createFBO w h fmt prm None n
        \<and> freshlyCleared w h fmt prm n (fst (createFBO w h fmt prm (Some e) n))
        \<and> snd (createFBO w h fmt prm (Some e) n) = n + 1)
   \<and> (dwidth d = w \<and> dheight d = h \<longrightarrow> createDoubleFBO w h fmt prm (Some d) n = (d, n))
   \<and> (\<not> (dwidth d = w \<and> dheight d = h) \<longrightarrow>
        createDoubleFBO w h fmt prm (Some d) n = createDoubleFBO w h fmt prm None n
        \<and> dwidth (fst (createDoubleFBO w h fmt prm (Some d) n)) = w
        \<and> dheight (fst (createDoubleFBO w h fmt prm (Some d) n)) = h
        \<and> dtexelSizeX (fst (createDoubleFBO w h fmt prm (Some d) n)) = 1 / real w
        \<and> dtexelSizeY (fst (createDoubleFBO w h fmt prm (Some d) n)) = 1 / real h
        \<and> freshlyCleared w h fmt prm n (dread (fst (createDoubleFBO w h fmt prm (Some d) n)))
        \<and> freshlyCleared w h fmt prm (n + 1)
             (dwrite (fst (createDoubleFBO w h fmt prm (Some d) n)))
        \<and> snd (createDoubleFBO w h fmt prm (Some d) n) = n + 2)"
proof -
  have a: "createDoubleFBO w h fmt prm None n =
      (\<lparr>dwidth = w, dheight = h,
         dtexelSizeX = texelSizeX (fst (createFBO w h fmt prm None n)),
         dtexelSizeY = texelSizeY (fst (createFBO w h fmt prm None n)),
         fbo1 = fst (createFBO w h fmt prm None n),
         fbo2 = fst (createFBO w h fmt prm None (Suc n))\<rparr>, Suc (Suc n))"
    by (simp add: createDoubleFBO_def createFBO_def Let_def)
  have b: "freshlyCleared w h fmt prm n (fst (createFBO w h fmt prm None n))"
    "freshlyCleared w h fmt prm (Suc n) (fst (createFBO w h fmt prm None (Suc n)))"
    by (rule createFBO_None)+
  have c: "texelSizeX (fst (createFBO w h fmt prm None n)) = 1 / real w"
    "texelSizeY (fst (createFBO w h fmt prm None n)) = 1 / real h"
    using b(1) by (simp_all add: freshlyCleared_def)
  have e1: "width e = w \<and> height e = h \<Longrightarrow> createFBO w h fmt prm (Some e) n = (e, n)"
    by (simp add: createFBO_def)
  have e2: "\<not> (width e = w \<and> height e = h) \<Longrightarrow>
      createFBO w h fmt prm (Some e) n = createFBO w h fmt prm None n"
    by (simp add: createFBO_def)
  have d1: "dwidth d = w \<and> dheight d = h \<Longrightarrow> createDoubleFBO w h fmt prm (Some d) n = (d, n)"
    by (simp add: createDoubleFBO_def)
  have d2: "\<not> (dwidth d = w \<and> dheight d = h) \<Longrightarrow>
      createDoubleFBO w h fmt prm (Some d) n = createDoubleFBO w h fmt prm None n"
    by (auto simp add: createDoubleFBO_def Let_def)
  show ?thesis
    using e1 e2 d1 d2 b c createFBO_None(2)[of w h fmt prm n]
    by (simp add: a)
qed

theorem resize_reuses_or_reallocates_witness:
  "createDoubleFBO 2 2 RGBA16F LINEAR (Some (dye demoState)) 8 = (dye demoState, 8)
   \<and> snd (createDoubleFBO 4 4 RGBA16F LINEAR (Some (dye demoState)) 8) = 10
   \<and> createFBO 2 2 R16F NEAREST (Some (curl demoState)) 8 = (curl demoState, 8)
   \<and> texture (fst (createFBO 4 2 R16F NEAREST (Some (curl demoState)) 8)) = 8"
proof -
  have d: "dwidth (dye demoState) = 2" "dheight (dye demoState) = 2"
    "width (curl demoState) = 2" "height (curl demoState) = 2"
    by (simp_all add: demoState_def demoDouble_def demoFBO_def)
  show ?thesis
    using resize_reuses_or_reallocates[where e = "curl demoState" and d = "dye demoState"
        and w = 2 and h = 2 and n = 8 and fmt = RGBA16F and prm = LINEAR]
      resize_reuses_or_reallocates[where e = "curl demoState" and d = "dye demoState"
        and w = 2 and h = 2 and n = 8 and fmt = R16F and prm = NEAREST]
      resize_reuses_or_reallocates[where e = "curl demoState" and d = "dye demoState"
        and w = 4 and h = 2 and n = 8 and fmt = R16F and prm = NEAREST]
      resize_reuses_or_reallocates[where e = "curl demoState" and d = "dye demoState"
        and w = 4 and h = 4 and n = 8 and fmt = RGBA16F and prm = LINEAR]
    by (simp add: d freshlyCleared_def createDoubleFBO_def createFBO_def Let_def)
qed

text \<open>
  C5 as stated fails in the alpha channel: the dye field has four channels, and after a
  resize to another size its texels are \<open>(0, 0, 0, 1)\<close>, not zero.
\<close>

theorem resize_clears_to_zero_counterexample:
  "dwidth (dye demoState) \<noteq> 4
   \<and> pixels (dread (fst (createDoubleFBO 4 4 RGBA16F LINEAR (Some (dye demoState)) 8))) 0 0
       = Vec4 0 0 0 1
   \<and> pixels (dread (fst (createDoubleFBO 4 4 RGBA16F LINEAR (Some (dye demoState)) 8))) 0 0
       \<noteq> Vec4 0 0 0 0"
  by (simp add: createDoubleFBO_def createFBO_def Let_def clearColor_def demoState_def
        demoDouble_def demoFBO_def)

subsection \<open>The radius of a splat\<close>

lemma splatWeight_offset:
  "splatWeight a pt r uv =
     exp (- (((fst uv - fst pt) * a)\<^sup>2 + (snd uv - snd pt)\<^sup>2) / r)"
  by (simp add: splatWeight_def Let_def power2_eq_square)

text \<open>
  C7 (amended).  For radii \<open>0 < r1 < r2\<close> and the same centre and impulse, the splat of radius
  \<open>r1\<close> is the sharper one: its weight \<open>exp(-|p|\<^sup>2 / r1)\<close> is nowhere above the weight for
  \<open>r2\<close>, and strictly below it everywhere but at the centre, so its contribution to every
  texel is at most as large in absolute value.  At the centre both weights are \<open>1\<close>: the two
  splats have the same peak, the impulse itself.  (A splat pass adds to every texel the
  impulse times this weight, see \<open>splatAdded\<close>.)
\<close>

theorem splat_radius_sharpness:
  assumes "0 < r1" "r1 < r2"
  shows "splatWeight a pt r1 uv \<le> splatWeight a pt r2 uv
     \<and> 0 < splatWeight a pt r1 uv \<and> splatWeight a pt r2 uv \<le> 1
     \<and> \<bar>splatWeight a pt r1 uv * c\<bar> \<le> \<bar>splatWeight a pt r2 uv * c\<bar>
     \<and> (splatWeight a pt r1 uv = splatWeight a pt r2 uv
          \<longleftrightarrow> (fst uv - fst pt) * a = 0 \<and> snd uv = snd pt)
     \<and> splatWeight a pt r1 pt = 1 \<and> splatWeight a pt r2 pt = 1"
proof -
  define d where "d = ((fst uv - fst pt) * a)\<^sup>2 + (snd uv - snd pt)\<^sup>2"
  have d0: "0 \<le> d" by (simp add: d_def)
  have r2: "0 < r2" using assms by simp
  have w1: "splatWeight a pt r1 uv = exp (- d / r1)"
    and w2: "splatWeight a pt r2 uv = exp (- d / r2)"
    by (simp_all add: splatWeight_offset d_def)
  have frac: "d / r2 \<le> d / r1"
    using assms d0 by (simp add: frac_le)
  have le: "exp (- d / r1) \<le> exp (- d / r2)"
    using frac by simp
  have pos: "0 < exp (- d / r1)" by simp
  have le1: "exp (- d / r2) \<le> 1"
    using d0 r2 by simp
  have eq: "exp (- d / r1) = exp (- d / r2) \<longleftrightarrow> d = 0"
  proof
    assume "exp (- d / r1) = exp (- d / r2)"
    then have "d / r1 = d / r2" by simp
    then have "d * r2 = d * r1"
      using assms r2 by (simp add: field_simps)
    then show "d = 0" using assms by simp
  qed simp
  have dz: "d = 0 \<longleftrightarrow> (fst uv - fst pt) * a = 0 \<and> snd uv = snd pt"
    unfolding d_def by simp
  have abs: "\<bar>exp (- d / r1) * c\<bar> \<le> \<bar>exp (- d / r2) * c\<bar>"
    unfolding abs_mult using le by (simp add: mult_right_mono)
  have peak: "splatWeight a pt r1 pt = 1" "splatWeight a pt r2 pt = 1"
    by (simp_all add: splatWeight_def)
  show ?thesis
    unfolding w1 w2 using le pos le1 eq dz abs peak by simp
qed

theorem splat_radius_sharpness_witness:
  "(0::real) < 1 \<and> (1::real) < 2
   \<and> splatWeight 1 (1 / 2, 1 / 2) 1 (1 / 2, 3 / 2) \<le> splatWeight 1 (1 / 2, 1 / 2) 2 (1 / 2, 3 / 2)
   \<and> splatWeight 1 (1 / 2, 1 / 2) 1 (1 / 2, 3 / 2) \<noteq> splatWeight 1 (1 / 2, 1 / 2) 2 (1 / 2, 3 / 2)"
  using splat_radius_sharpness[of 1 2 1 "(1 / 2, 1 / 2)" "(1 / 2, 3 / 2)" 0]
  by simp

text \<open>
  C7 as stated fails: the splat of the smaller radius has no higher peak.  At the centre of
  the splat the weight is \<open>1\<close> for the default radius and for twice the default radius.
\<close>

theorem splat_peak_counterexample:
  "(35 / 10000 :: real) < 70 / 10000
   \<and> splatWeight 1 (1 / 2, 1 / 2) (35 / 10000) (1 / 2, 1 / 2) = 1
   \<and> splatWeight 1 (1 / 2, 1 / 2) (70 / 10000) (1 / 2, 1 / 2) = 1
   \<and> \<not> splatWeight 1 (1 / 2, 1 / 2) (70 / 10000) (1 / 2, 1 / 2)
         < splatWeight 1 (1 / 2, 1 / 2) (35 / 10000) (1 / 2, 1 / 2)"
  by (simp add: splatWeight_def)

subsection \<open>The colour generator\<close>

lemma generateColors_nth:
  "i < n \<Longrightarrow>
   fst (generateColors n s) ! i =
     jitteredColor (PALETTE ! ((paletteIndex s + i) mod length PALETTE))
       (jitterOf (randoms s (randomCalls s + i)))"
proof (induction n arbitrary: s i)
  case 0
  then show ?case by simp
next
  case (Suc n)
  show ?case
  proof (cases i)
    case 0
    then show ?thesis
      by (simp add: split_beta Let_def generateColor_fst)
  next
    case (Suc j)
    then have "j < n" using Suc.prems by simp
    from Suc.IH[OF this, of "snd (generateColor s)"] Suc show ?thesis
      by (simp add: split_beta Let_def generateColor_snd)
  qed
qed

lemma generateColors_length: "length (fst (generateColors n s)) = n"
  by (induction n arbitrary: s) (simp_all add: split_beta Let_def)

lemma generateColors_snd:
  "snd (generateColors n s) =
     s\<lparr>paletteIndex := paletteIndex s + n, randomCalls := randomCalls s + n\<rparr>"
  by (induction n arbitrary: s) (simp_all add: split_beta Let_def generateColor_snd)

lemma jitterOf_bound:
  assumes "0 \<le> r" "r < 1"
  shows "\<bar>jitterOf r\<bar> \<le> 3 / 100"
proof -
  have "jitterOf r = (6 * r - 3) / 100"
    by (simp add: jitterOf_def field_simps)
  moreover have "- 3 \<le> 6 * r - 3" "6 * r - 3 \<le> 3"
    using assms by simp_all
  ultimately show ?thesis
    by (simp add: abs_le_iff)
qed

text \<open>
  C8.  Of \<open>n\<close> consecutive calls of \<^verbatim>\<open>generateColor\<close>, call number \<open>i\<close> (from \<open>0\<close>) builds its
  colour from the palette entry \<open>(start + i) mod 4\<close>, where \<open>start\<close> is the palette index
  before the first call, and from a hue jitter of absolute value at most \<open>0.03\<close>.  The
  hypothesis is the range of \<^verbatim>\<open>Math.random\<close>, from \<open>0\<close> up to but not including \<open>1\<close>.
\<close>

theorem palette_round_robin:
  assumes "\<forall>k. 0 \<le> randoms s k \<and> randoms s k < 1" "i < n"
  shows "length (fst (generateColors n s)) = n
     \<and> length PALETTE = 4
     \<and> fst (generateColors n s) ! i =
         jitteredColor (PALETTE ! ((paletteIndex s + i) mod 4))
           (jitterOf (randoms s (randomCalls s + i)))
     \<and> \<bar>jitterOf (randoms s (randomCalls s + i))\<bar> \<le> 3 / 100
     \<and> paletteIndex (snd (generateColors n s)) = paletteIndex s + n"
proof -
  have len: "length PALETTE = 4" by (simp add: PALETTE_def)
  show ?thesis
    using generateColors_nth[OF assms(2), of s] assms(1) jitterOf_bound
    by (simp add: generateColors_length generateColors_snd len)
qed

theorem palette_round_robin_witness:
  "(\<forall>k. 0 \<le> randoms demoState k \<and> randoms demoState k < 1)
   \<and> fst (generateColors 6 demoState) ! 5 = jitteredColor (PALETTE ! 1) 0
   \<and> fst (generateColors 6 demoState) ! 5 = RGB (8 / 10) (144 / 1000) (1336 / 1875)"
proof -
  have r: "\<forall>k. 0 \<le> randoms demoState k \<and> randoms demoState k < 1"
    by (simp add: demoState_def)
  have five: "(5::nat) < 6" by simp
  have d: "paletteIndex demoState = 0" "randoms demoState = (\<lambda>k. 1 / 2)"
    by (simp_all add: demoState_def)
  have c: "jitteredColor (PALETTE ! Suc 0) 0 = RGB (8 / 10) (144 / 1000) (1336 / 1875)"
    by (simp add: jitteredColor_def PALETTE_def HSVtoRGB_def jsMod_def Let_def)
  show ?thesis
    using palette_round_robin[OF r five] r
    by (simp add: d jitterOf_def c)
qed

subsection \<open>Colour cycling\<close>

text \<open>
  C9 (amended).  With colour cycling off \<^verbatim>\<open>updateColors\<close> does nothing.  With colour
  cycling on, it adds \<open>dt * COLOR_UPDATE_SPEED\<close> to the timer; while the sum is below \<open>1\<close> no
  pointer changes; when the sum reaches \<open>1\<close> the timer is wrapped into the unit interval and
  every pointer, whether it is down or not, is given a newly generated colour, pointer
  \<open>i\<close> the colour of the palette entry \<open>(start + i) mod 4\<close>.
\<close>

theorem color_cycling_all_pointers:
  "(\<not> COLORFUL (CONFIG s) \<longrightarrow> updateColors dt s = s)
   \<and> (COLORFUL (CONFIG s) \<longrightarrow>
       (let t = colorUpdateTimer s + dt * COLOR_UPDATE_SPEED (CONFIG s)
        in (t < 1 \<longrightarrow> pointers (updateColors dt s) = pointers s
                     \<and> colorUpdateTimer (updateColors dt s) = t)
           \<and> (1 \<le> t \<longrightarrow>
                 colorUpdateTimer (updateColors dt s) = wrap t 0 1
                 \<and> length (pointers (updateColors dt s)) = length (pointers s)
                 \<and> (\<forall>i<length (pointers s).
                       pointers (updateColors dt s) ! i =
                         (pointers s ! i)\<lparr>color :=
                            jitteredColor (PALETTE ! ((paletteIndex s + i) mod 4))
                              (jitterOf (randoms s (randomCalls s + i)))\<rparr>))))"
proof -
  have len: "length PALETTE = 4" by (simp add: PALETTE_def)
  show ?thesis
    using recolorPointers_nth[of _ "pointers s"
        "s\<lparr>colorUpdateTimer := wrap (colorUpdateTimer s + dt * COLOR_UPDATE_SPEED (CONFIG s)) 0 1\<rparr>"]
    by (simp add: updateColors_def Let_def split_beta recolorPointers_snd
          recolorPointers_length len)
qed

lemma demoTimer_facts:
  "COLORFUL (CONFIG demoTimerState)"
  "colorUpdateTimer demoTimerState = 95 / 100"
  "COLOR_UPDATE_SPEED (CONFIG demoTimerState) = 9"
  "pointers demoTimerState = [pointerPrototype]"
  "paletteIndex demoTimerState = 0" "randoms demoTimerState = (\<lambda>k. 1 / 2)"
  by (simp_all add: demoTimerState_def demoState_def CONFIG_default_def)

lemma demo_colour: "jitteredColor (PALETTE ! 0) 0 = RGB (4 / 100) (61 / 100) (8 / 10)"
  by (simp add: jitteredColor_def PALETTE_def HSVtoRGB_def jsMod_def Let_def)

theorem color_cycling_all_pointers_witness:
  "COLORFUL (CONFIG demoTimerState)
   \<and> pointers (updateColors (16 / 1000) demoTimerState) ! 0
       = pointerPrototype\<lparr>color := RGB (4 / 100) (61 / 100) (8 / 10)\<rparr>
   \<and> pointers (updateColors (16 / 1000) demoState) = pointers demoState"
proof -
  have a: "pointers (updateColors (16 / 1000) demoTimerState) ! 0
       = pointerPrototype\<lparr>color := RGB (4 / 100) (61 / 100) (8 / 10)\<rparr>"
    using color_cycling_all_pointers[of demoTimerState "16 / 1000"] demo_colour
    by (simp add: demoTimer_facts Let_def jitterOf_def)
  have b: "pointers (updateColors (16 / 1000) demoState) = pointers demoState"
    using color_cycling_all_pointers[of demoState "16 / 1000"]
    by (simp add: demoState_def CONFIG_default_def Let_def)
  show ?thesis
    using a b by (simp add: demoTimer_facts)
qed

text \<open>
  C9 as stated fails: when the timer crosses \<open>1\<close>, the colour of a pointer that is not down
  is replaced too.
\<close>

theorem color_cycling_inactive_counterexample:
  "COLORFUL (CONFIG demoTimerState)
   \<and> \<not> down (pointers demoTimerState ! 0)
   \<and> color (pointers demoTimerState ! 0) = RGB 30 0 300
   \<and> color (pointers (updateColors (16 / 1000) demoTimerState) ! 0)
       = RGB (4 / 100) (61 / 100) (8 / 10)
   \<and> color (pointers (updateColors (16 / 1000) demoTimerState) ! 0)
       \<noteq> color (pointers demoTimerState ! 0)"
proof -
  have "fst (recolorPointers [pointerPrototype]
          (demoTimerState\<lparr>colorUpdateTimer := t\<rparr>)) ! 0
        = pointerPrototype\<lparr>color := RGB (4 / 100) (61 / 100) (8 / 10)\<rparr>"
    for t
    using demo_colour
    by (simp add: split_beta generateColor_fst demoTimer_facts jitterOf_def)
  then have "pointers (updateColors (16 / 1000) demoTimerState) ! 0
       = pointerPrototype\<lparr>color := RGB (4 / 100) (61 / 100) (8 / 10)\<rparr>"
    by (simp add: updateColors_def Let_def split_beta demoTimer_facts)
  then show ?thesis
    by (simp add: demoTimer_facts pointerPrototype_def)
qed

subsection \<open>Splats and the paused tick\<close>

lemma splatAdded_blit:
  assumes "doubleAligned d"
  shows "splatAdded a pt imp r d
           (swap (d\<lparr>fbo2 := blit (dwidth d, dheight d) (0, 0)
                                 (splatShader (dread d) a imp pt r) (dwrite d)\<rparr>))"
proof -
  have sz: "0 < dwidth d" "0 < dheight d" "width (fbo1 d) = dwidth d"
    "height (fbo1 d) = dheight d" "width (fbo2 d) = dwidth d" "height (fbo2 d) = dheight d"
    using assms by (simp_all add: doubleAligned_def fboSized_def)
  have px: "pixels (blit (dwidth d, dheight d) (0, 0) (splatShader (dread d) a imp pt r)
              (dwrite d)) x y =
      storeTexel (internalFormat (dwrite d))
        (splatShader (dread d) a imp pt r
           (baseVertexShader (0, 0) (pixelUv (dwidth d, dheight d) x y)))"
    if "x < dwidth d" "y < dheight d" for x y
    using that sz by (simp add: blit_pixel)
  have smp: "texture2D (dread d) (texelCentre (dwidth d) (int x), texelCentre (dheight d) (int y))
      = pixels (dread d) x y"
    if "x < dwidth d" "y < dheight d" for x y
    using sample_neighbours(1)[of x "dread d" y] that sz by simp
  show ?thesis
    unfolding splatAdded_def
    by (simp add: px splatShader_def vUv_at_pixel smp Let_def)
qed

lemma splat_unloaded: "\<not> bindAssigned s \<Longrightarrow> splat x y dx dy col s = s"
  by (simp add: splat_def programBuilt_def)

lemma splat_velocity_added:
  "bindAssigned s \<Longrightarrow> doubleAligned (velocity s) \<Longrightarrow>
   splatAdded (real (canvasWidth s) / real (canvasHeight s)) (x, y) (dx, dy, 0)
     (correctRadius s (SPLAT_RADIUS (CONFIG s) / 100))
     (velocity s) (velocity (splat x y dx dy col s))"
  using splatAdded_blit[of "velocity s"]
  by (simp add: splat_def programBuilt_def Let_def)

lemma splat_dye_added:
  "bindAssigned s \<Longrightarrow> doubleAligned (dye s) \<Longrightarrow>
   splatAdded (real (canvasWidth s) / real (canvasHeight s)) (x, y)
     (red col, green col, blue col)
     (correctRadius s (SPLAT_RADIUS (CONFIG s) / 100))
     (dye s) (dye (splat x y dx dy col s))"
  using splatAdded_blit[of "dye s"]
  by (simp add: splat_def programBuilt_def Let_def)

lemma splat_draws:
  "bindAssigned s \<Longrightarrow>
   draws (splat x y dx dy col s) =
     draws s @ [(SplatProgram, Target (texture (dwrite (velocity s)))),
                (SplatProgram, Target (texture (dwrite (dye s))))]"
  by (simp add: splat_def programBuilt_def Let_def)

lemma splat_passes:
  "bindAssigned s \<Longrightarrow>
   passes p (splat x y dx dy col s) = passes p s + (if p = SplatProgram then 2 else 0)"
  by (simp add: splat_draws passes_def)

lemma splat_kept [simp]:
  "bindAssigned (splat x y dx dy col s) = bindAssigned s"
  "CONFIG (splat x y dx dy col s) = CONFIG s"
  "canvasWidth (splat x y dx dy col s) = canvasWidth s"
  "canvasHeight (splat x y dx dy col s) = canvasHeight s"
  "pointers (splat x y dx dy col s) = pointers s"
  "paletteIndex (splat x y dx dy col s) = paletteIndex s"
  "randomCalls (splat x y dx dy col s) = randomCalls s"
  "randoms (splat x y dx dy col s) = randoms s"
  by (simp_all add: splat_def Let_def)

lemma doubleAligned_splat [simp]:
  "doubleAligned (velocity (splat x y dx dy col s)) = doubleAligned (velocity s)"
  "doubleAligned (dye (splat x y dx dy col s)) = doubleAligned (dye s)"
  by (simp_all add: splat_def Let_def)

lemma splat_applied:
  assumes "bindAssigned s" "doubleAligned (velocity s)" "doubleAligned (dye s)"
  shows "splatApplied x y dx dy col s (splat x y dx dy col s)"
  unfolding splatApplied_def Let_def
  using splat_velocity_added[OF assms(1,2)] splat_dye_added[OF assms(1,3)]
    splat_draws[OF assms(1)]
  by simp

lemma splatApplied_counters:
  "splatApplied x y dx dy col (s\<lparr>paletteIndex := a, randomCalls := c\<rparr>) t
     = splatApplied x y dx dy col s t"
  by (simp add: splatApplied_def correctRadius_def)

lemma passes_counters [simp]:
  "passes p (s\<lparr>paletteIndex := a, randomCalls := c\<rparr>) = passes p s"
  "passes p (s\<lparr>splatStack := st\<rparr>) = passes p s"
  "passes p (s\<lparr>pointers := ps\<rparr>) = passes p s"
  by (simp_all add: passes_def)

lemma randomSplat_passes:
  "bindAssigned s \<Longrightarrow>
   passes p (randomSplat s) = passes p s + (if p = SplatProgram then 2 else 0)"
  by (simp add: randomSplat_eq splat_passes)

lemma randomSplat_kept [simp]:
  "bindAssigned (randomSplat s) = bindAssigned s"
  "doubleAligned (velocity (randomSplat s)) = doubleAligned (velocity s)"
  "doubleAligned (dye (randomSplat s)) = doubleAligned (dye s)"
  "pointers (randomSplat s) = pointers s"
  by (simp_all add: randomSplat_eq)

lemma randomSplat_applied:
  assumes "bindAssigned s" "doubleAligned (velocity s)" "doubleAligned (dye s)"
  shows "randomSplatApplied s (randomSplat s)"
proof -
  define s5 where
    "s5 = s\<lparr>paletteIndex := Suc (paletteIndex s),
             randomCalls := Suc (Suc (Suc (Suc (Suc (randomCalls s)))))\<rparr>"
  have inv: "bindAssigned s5" "doubleAligned (velocity s5)" "doubleAligned (dye s5)"
    using assms by (simp_all add: s5_def)
  have ap: "splatApplied x y dx dy col s (splat x y dx dy col s5)" for x y dx dy col
    using splat_applied[OF inv, of x y dx dy col]
    unfolding s5_def splatApplied_counters .
  have n34: "randomCalls s + 3 = Suc (Suc (Suc (randomCalls s)))"
    "randomCalls s + 4 = Suc (Suc (Suc (Suc (randomCalls s))))"
    by simp_all
  show ?thesis
    unfolding randomSplatApplied_def Let_def randomSplat_eq s5_def[symmetric]
    using ap by (simp add: s5_def n34)
qed

lemma funpow_randomSplat_kept [simp]:
  "bindAssigned ((randomSplat ^^ k) s) = bindAssigned s"
  "doubleAligned (velocity ((randomSplat ^^ k) s)) = doubleAligned (velocity s)"
  "doubleAligned (dye ((randomSplat ^^ k) s)) = doubleAligned (dye s)"
  "pointers ((randomSplat ^^ k) s) = pointers s"
  by (induction k) simp_all

lemma funpow_randomSplat_applied:
  assumes "bindAssigned s" "doubleAligned (velocity s)" "doubleAligned (dye s)"
  shows "randomSplatApplied ((randomSplat ^^ k) s) ((randomSplat ^^ Suc k) s)"
  using randomSplat_applied[of "(randomSplat ^^ k) s"] assms by simp

lemma funpow_randomSplat_passes:
  "bindAssigned s \<Longrightarrow>
   passes SplatProgram ((randomSplat ^^ k) s) = passes SplatProgram s + 2 * k"
  by (induction k) (simp_all add: randomSplat_passes)

lemma multipleSplatsFrom_funpow:
  "multipleSplatsFrom i amount s = (randomSplat ^^ nat (amount - i)) s"
proof (induction i amount s rule: multipleSplatsFrom.induct)
  case (1 i amount s)
  show ?case
  proof (cases "i < amount")
    case True
    have "multipleSplatsFrom i amount s = multipleSplatsFrom (i + 1) amount (randomSplat s)"
      using True by (subst multipleSplatsFrom.simps) simp
    moreover have "nat (amount - i) = Suc (nat (amount - (i + 1)))"
      using True by linarith
    ultimately show ?thesis
      using "1.IH"[OF True] by (simp add: funpow_swap1)
  next
    case False
    then have "multipleSplatsFrom i amount s = s"
      by (subst multipleSplatsFrom.simps) simp
    then show ?thesis using False by simp
  qed
qed

lemma multipleSplatsFrom_passes:
  "bindAssigned s \<Longrightarrow>
   passes SplatProgram (multipleSplatsFrom i amount s) =
     passes SplatProgram s + 2 * nat (amount - i)"
  by (simp add: multipleSplatsFrom_funpow funpow_randomSplat_passes)

lemma multipleSplatsFrom_pointers [simp]:
  "pointers (multipleSplatsFrom i amount s) = pointers s"
  by (simp add: multipleSplatsFrom_funpow)

lemma splatPointer_kept [simp]:
  "bindAssigned (splatPointer p s) = bindAssigned s"
  "doubleAligned (velocity (splatPointer p s)) = doubleAligned (velocity s)"
  "doubleAligned (dye (splatPointer p s)) = doubleAligned (dye s)"
  by (simp_all add: splatPointer_def Let_def)

lemma splatPointer_applied:
  assumes "bindAssigned s" "doubleAligned (velocity s)" "doubleAligned (dye s)"
  shows "pointerSplatApplied p s (splatPointer (p\<lparr>moved := False\<rparr>) s)"
  unfolding pointerSplatApplied_def splatPointer_def Let_def
  using splat_applied[OF assms] by simp

lemma pointerSplats_simps [simp]:
  "pointerSplats [] s = s"
  "pointerSplats (p # ps) s = pointerSplats ps (splatPointer (p\<lparr>moved := False\<rparr>) s)"
  "pointerSplats (ps @ qs) s = pointerSplats qs (pointerSplats ps s)"
  by (simp_all add: pointerSplats_def)

lemma pointerSplats_kept [simp]:
  "bindAssigned (pointerSplats ps s) = bindAssigned s"
  "doubleAligned (velocity (pointerSplats ps s)) = doubleAligned (velocity s)"
  "doubleAligned (dye (pointerSplats ps s)) = doubleAligned (dye s)"
  by (induction ps arbitrary: s) simp_all

lemma pointerSplats_applied:
  assumes "bindAssigned s" "doubleAligned (velocity s)" "doubleAligned (dye s)"
    "k < length ps"
  shows "pointerSplatApplied (ps ! k) (pointerSplats (take k ps) s)
           (pointerSplats (take (Suc k) ps) s)"
proof -
  have "take (Suc k) ps = take k ps @ [ps ! k]"
    using assms(4) by (rule take_Suc_conv_app_nth)
  then show ?thesis
    using splatPointer_applied[of "pointerSplats (take k ps) s" "ps ! k"] assms(1,2,3)
    by simp
qed

lemma splatMovedPointers_snd:
  "snd (splatMovedPointers ps s) = pointerSplats (filter moved ps) s"
  by (induction ps arbitrary: s) (simp_all add: split_beta Let_def)

lemma splatMovedPointers_passes:
  "bindAssigned s \<Longrightarrow>
   passes SplatProgram (snd (splatMovedPointers ps s)) =
     passes SplatProgram s + 2 * length (filter moved ps)"
  by (induction ps arbitrary: s)
     (simp_all add: split_beta Let_def splatPointer_def splat_passes)

lemma burstStart_empty: "splatStack s = [] \<Longrightarrow> burstStart s = s"
proof -
  assume a: "splatStack s = []"
  have "burstStart s = s\<lparr>splatStack := splatStack s\<rparr>"
    unfolding burstStart_def by (simp only: a butlast.simps)
  then show ?thesis by simp
qed

lemma burstStart_kept [simp]:
  "bindAssigned (burstStart s) = bindAssigned s" "velocity (burstStart s) = velocity s"
  "dye (burstStart s) = dye s" "passes p (burstStart s) = passes p s"
  "pointers (burstStart s) = pointers s"
  by (simp_all add: burstStart_def)

lemma applyInputs_burst:
  "(if length (splatStack s) > 0
    then multipleSplats (last (splatStack s)) (s\<lparr>splatStack := butlast (splatStack s)\<rparr>)
    else s) = (randomSplat ^^ burstSize s) (burstStart s)"
proof (cases "splatStack s = []")
  case True
  then show ?thesis
    by (simp add: burstSize_def burstStart_empty)
next
  case False
  then show ?thesis
    by (simp add: burstSize_def burstStart_def multipleSplats_def multipleSplatsFrom_funpow)
qed

lemma applyInputs_unfold:
  "applyInputs s =
     (pointerSplats (filter moved (pointers s)) ((randomSplat ^^ burstSize s) (burstStart s)))
       \<lparr>pointers := map (\<lambda>p. p\<lparr>moved := False\<rparr>) (pointers s)\<rparr>"
proof -
  show ?thesis
    unfolding applyInputs_def applyInputs_burst Let_def
    by (simp add: split_beta splatMovedPointers_fst splatMovedPointers_snd)
qed

lemma pointerSplats_passes:
  "bindAssigned s \<Longrightarrow>
   passes SplatProgram (pointerSplats ps s) = passes SplatProgram s + 2 * length ps"
  by (induction ps arbitrary: s) (simp_all add: splatPointer_def splat_passes)

lemma applyInputs_passes:
  "bindAssigned s \<Longrightarrow>
   passes SplatProgram (applyInputs s) =
     passes SplatProgram s
     + 2 * (length (filter moved (pointers s))
            + (if splatStack s = [] then 0 else nat (last (splatStack s))))"
  unfolding applyInputs_unfold
  by (simp add: pointerSplats_passes funpow_randomSplat_passes burstSize_def)

lemma splatNormalized_kept [simp]:
  "bindAssigned (splatNormalized x y dx dy col s) = bindAssigned s"
  by (cases col) (simp_all add: splatNormalized_def split_beta generateColor_snd)

lemma handle_kept [simp]: "bindAssigned (handle e s) = bindAssigned s"
  by (cases e)
     (simp_all add: addRandomSplats_def multipleSplats_def multipleSplatsFrom_funpow
        pause_def resume_def)

lemma fold_handle_kept [simp]: "bindAssigned (fold handle es s) = bindAssigned s"
  by (induction es arbitrary: s) simp_all

lemma script_bindAssigned: "bindAssigned (script b es s)"
  by (simp add: script_def finishLoad_def)

lemma length_filter_moved:
  "map moved ps = map moved qs \<Longrightarrow> length (filter moved ps) = length (filter moved qs)"
proof (induction ps arbitrary: qs)
  case Nil
  then show ?case by simp
next
  case (Cons p ps)
  then obtain q qs' where "qs = q # qs'" by (cases qs) auto
  with Cons show ?case by auto
qed

lemma beforeInputs_passes [simp]: "passes p (beforeInputs b s) = passes p s"
  by (simp add: passes_def)

lemma update_paused:
  "PAUSED (CONFIG s) \<Longrightarrow> update b s = render (applyInputs (beforeInputs b s))"
  by (simp add: update_unfold afterInputs_def[symmetric])

lemma applyInputs_single:
  assumes "splatStack s = []" "pointers s = [p]" "moved p"
  shows "applyInputs s =
           (splatPointer (p\<lparr>moved := False\<rparr>) s)\<lparr>pointers := [p\<lparr>moved := False\<rparr>]\<rparr>"
  using assms by (simp add: applyInputs_def Let_def)

lemma updateColors_single:
  assumes "pointers s = [p]"
  shows "pointers (updateColors dt s) =
           [p\<lparr>color := color (hd (pointers (updateColors dt s)))\<rparr>]"
  using assms
  by (simp add: updateColors_def Let_def split_beta)

lemma beforeInputs_single:
  assumes "pointers s = [p]"
  shows "pointers (beforeInputs b s) =
           [p\<lparr>color := color (hd (pointers (beforeInputs b s)))\<rparr>]"
proof -
  define s3 where
    "s3 = (if fst (resizeCanvas b (snd (calcDeltaTime b s)))
           then initFramebuffers (snd (resizeCanvas b (snd (calcDeltaTime b s))))
           else snd (resizeCanvas b (snd (calcDeltaTime b s))))"
  have a: "beforeInputs b s = updateColors (tickTime b s) s3"
    by (simp add: beforeInputs_def tickTime_def s3_def split_beta Let_def)
  have "pointers s3 = [p]"
    using assms by (simp add: s3_def calcDeltaTime_def resizeCanvas_def Let_def)
  then show ?thesis
    unfolding a by (rule updateColors_single)
qed

lemma updateColors_canvas [simp]:
  "canvasWidth (updateColors dt s) = canvasWidth s"
  "canvasHeight (updateColors dt s) = canvasHeight s"
  by (simp_all add: updateColors_def split_beta Let_def recolorPointers_snd)

lemma beforeInputs_canvas_noresize:
  assumes "\<not> canvasResized b s"
  shows "canvasWidth (beforeInputs b s) = canvasWidth s"
    "canvasHeight (beforeInputs b s) = canvasHeight s"
  using assms
  by (simp_all add: beforeInputs_def calcDeltaTime_def resizeCanvas_def canvasResized_def
        split_beta Let_def)

lemma paused_tick_single_pointer:
  assumes "PAUSED (CONFIG s)" "bindAssigned s"
    "doubleAligned (velocity s)" "doubleAligned (dye s)"
    and nr: "\<not> canvasResized b s" and st: "splatStack s = []" and ps: "pointers s = [p]"
    and m: "moved p"
  shows "splatAdded (real (canvasWidth s) / real (canvasHeight s))
               (texcoordX p, texcoordY p)
               (deltaX p * SPLAT_FORCE (CONFIG s), deltaY p * SPLAT_FORCE (CONFIG s), 0)
               (correctRadius s (SPLAT_RADIUS (CONFIG s) / 100))
               (velocity s) (velocity (update b s))
             \<and> splatAdded (real (canvasWidth s) / real (canvasHeight s))
               (texcoordX p, texcoordY p)
               (red (color (hd (pointers (beforeInputs b s)))),
                green (color (hd (pointers (beforeInputs b s)))),
                blue (color (hd (pointers (beforeInputs b s)))))
               (correctRadius s (SPLAT_RADIUS (CONFIG s) / 100))
               (dye s) (dye (update b s))"
proof -
  define s' where "s' = beforeInputs b s"
  define q where "q = p\<lparr>color := color (hd (pointers s'))\<rparr>"
  have ps': "pointers s' = [q]" "splatStack s' = []" "moved q"
    using beforeInputs_single[OF ps, of b] st m by (simp_all add: s'_def q_def)
  have same: "velocity s' = velocity s" "dye s' = dye s" "CONFIG s' = CONFIG s"
    "canvasWidth s' = canvasWidth s" "canvasHeight s' = canvasHeight s"
    using nr
    by (simp_all add: s'_def beforeInputs_fields_noresize beforeInputs_canvas_noresize)
  have rad: "correctRadius s' r = correctRadius s r" for r
    using same by (simp add: correctRadius_def)
  have up: "update b s =
      render ((splatPointer (q\<lparr>moved := False\<rparr>) s')\<lparr>pointers := [q\<lparr>moved := False\<rparr>]\<rparr>)"
    using assms(1) applyInputs_single[OF ps'(2) ps'(1) ps'(3)]
    by (simp add: update_paused s'_def)
  have bd: "bindAssigned s'"
    using assms(2) by (simp add: s'_def)
  have al: "doubleAligned (velocity s')" "doubleAligned (dye s')"
    using assms(3,4) by (simp_all add: same)
  show ?thesis
    unfolding up
    using splat_velocity_added[OF bd al(1), where x = "texcoordX p" and y = "texcoordY p"
        and dx = "deltaX p * SPLAT_FORCE (CONFIG s)"
        and dy = "deltaY p * SPLAT_FORCE (CONFIG s)"
        and col = "color (hd (pointers s'))"]
      splat_dye_added[OF bd al(2), where x = "texcoordX p" and y = "texcoordY p"
        and dx = "deltaX p * SPLAT_FORCE (CONFIG s)"
        and dy = "deltaY p * SPLAT_FORCE (CONFIG s)"
        and col = "color (hd (pointers s'))"]
    by (simp add: splatPointer_def Let_def q_def same rad s'_def[symmetric])
qed

lemma demoPaused_facts:
  "PAUSED (CONFIG demoPausedState)" "bindAssigned demoPausedState"
  "doubleAligned (velocity demoPausedState)"
  "doubleAligned (dye demoPausedState)" "\<not> canvasResized demoBrowser demoPausedState"
  "splatStack demoPausedState = []"
  "pointers demoPausedState =
     [pointerPrototype\<lparr>texcoordX := 1 / 4, texcoordY := 1 / 4,
                        deltaX := 1 / 6000, down := True, moved := True,
                        color := RGB 1 0 0\<rparr>]"
  "passes p demoPausedState = 0"
  "SPLAT_FORCE (CONFIG demoPausedState) = 6000"
  "dwidth (velocity demoPausedState) = 2" "dheight (velocity demoPausedState) = 2"
  "internalFormat (dwrite (velocity demoPausedState)) = RG16F"
  "pixels (dread (velocity demoPausedState)) 0 0 = Vec4 0 0 0 1"
  "canvasWidth demoPausedState = 2" "canvasHeight demoPausedState = 2"
  by (simp_all add: demoPausedState_def demoState_def demoBrowser_def CONFIG_default_def
        canvasResized_def scaleByPixelRatio_def doubleAligned_def fboSized_def
        demoDouble_def demoFBO_def passes_def)

lemma splatWeight_centre: "splatWeight a pt r pt = 1"
  by (simp add: splatWeight_def)

lemma solverDraws_otherDraws:
  "solverDraws s =
     filter (\<lambda>d. fst d \<in> {CurlProgram, VorticityProgram, DivergenceProgram, ClearProgram,
                             PressureProgram, GradienSubtractProgram, AdvectionProgram})
       (otherDraws s)"
  unfolding solverDraws_def otherDraws_def filter_filter
  by (rule filter_cong) auto

lemma render_solverDraws [simp]: "solverDraws (render s) = solverDraws s"
  by (cases "bindAssigned s") (simp_all add: solverDraws_def render_draws render_unloaded)

lemma render_canvas [simp]:
  "canvasWidth (render s) = canvasWidth s" "canvasHeight (render s) = canvasHeight s"
  by (simp_all add: render_def drawDisplay_def drawColor_def Let_def)

lemma render_last: "bindAssigned s \<Longrightarrow> last (draws (render s)) = (DisplayProgram, Screen)"
  by (simp add: render_draws)

text \<open>
  C10.  Splats are not gated by the pause flag.  The state is paused, with well-formed
  velocity and dye fields; \<^verbatim>\<open>Program.prototype.bind\<close> is assigned, as it is in every paused
  state (the flag is not set when the script loads, and what sets it is installed after
  the assignment: \<open>script_bindAssigned\<close>).  Then:

  \<^item> a call of \<^verbatim>\<open>splatNormalized\<close>, with a colour or without one (the colour is then the
    next colour of the generator), applies one splat in the sense of \<open>splatApplied\<close>: the
    splat is added to the velocity and to the dye, each field swaps its buffers, and the
    two passes are drawn with the splat program;
  \<^item> a call of \<^verbatim>\<open>addRandomSplats(n)\<close> is \<open>n\<close> rounds of the loop of \<^verbatim>\<open>multipleSplats\<close>, each of
    which applies one random splat in the sense of \<open>randomSplatApplied\<close>;
  \<^item> after a paused tick, velocity and dye are those left by the burst popped from the
    splat stack, if there is one, followed by the splats of the pointers that have moved,
    in order; unless the canvas was resized, each round of the burst applies one random
    splat and each moved pointer one splat at its position, with its movement times
    \<^verbatim>\<open>SPLAT_FORCE\<close> as impulse and its colour;
  \<^item> accordingly two splat passes are drawn for every splat;
  \<^item> with one moved pointer, no burst and no resize, the velocity and the dye after the
    tick are those before it with the splat of the pointer added, and their buffers swapped.
\<close>

theorem splats_run_while_paused:
  assumes "PAUSED (CONFIG s)" "bindAssigned s"
    "doubleAligned (velocity s)" "doubleAligned (dye s)"
  shows "(let aspectRatio = real (canvasWidth s) / real (canvasHeight s);
              radius = correctRadius s (SPLAT_RADIUS (CONFIG s) / 100);
              force = SPLAT_FORCE (CONFIG s);
              cl = color (hd (pointers (beforeInputs b s)));
              c = (case col of Some given \<Rightarrow> given | None \<Rightarrow> fst (generateColor s));
              s0 = beforeInputs b s;
              ps = filter moved (pointers s0);
              s1 = (randomSplat ^^ burstSize s0) (burstStart s0)
          in splatApplied x y (dx * 1500) (dy * 1500) c s (splatNormalized x y dx dy col s)
             \<and> addRandomSplats n s = (randomSplat ^^ nat n) s
             \<and> (\<forall>k. randomSplatApplied ((randomSplat ^^ k) s) ((randomSplat ^^ Suc k) s))
             \<and> velocity (update b s) = velocity (pointerSplats ps s1)
             \<and> dye (update b s) = dye (pointerSplats ps s1)
             \<and> (\<not> canvasResized b s \<longrightarrow>
                  (\<forall>k. randomSplatApplied ((randomSplat ^^ k) (burstStart s0))
                          ((randomSplat ^^ Suc k) (burstStart s0)))
                  \<and> (\<forall>k<length ps.
                        pointerSplatApplied (ps ! k) (pointerSplats (take k ps) s1)
                          (pointerSplats (take (Suc k) ps) s1)))
             \<and> passes SplatProgram (splatNormalized x y dx dy col s)
                 = passes SplatProgram s + 2
             \<and> passes SplatProgram (addRandomSplats n s) = passes SplatProgram s + 2 * nat n
             \<and> passes SplatProgram (update b s) =
                 passes SplatProgram s
                 + 2 * (length (filter moved (pointers s))
                        + (if splatStack s = [] then 0 else nat (last (splatStack s))))
             \<and> (\<not> canvasResized b s \<and> splatStack s = [] \<and> pointers s = [p] \<and> moved p \<longrightarrow>
                  splatAdded aspectRatio (texcoordX p, texcoordY p)
                    (deltaX p * force, deltaY p * force, 0) radius
                    (velocity s) (velocity (update b s))
                  \<and> splatAdded aspectRatio (texcoordX p, texcoordY p)
                      (red cl, green cl, blue cl) radius
                      (dye s) (dye (update b s))))"
proof -
  let ?s0 = "beforeInputs b s"
  let ?ps = "filter moved (pointers ?s0)"
  let ?s1 = "(randomSplat ^^ burstSize ?s0) (burstStart ?s0)"
  have host: "splatApplied x y (dx * 1500) (dy * 1500)
                (case col of Some given \<Rightarrow> given | None \<Rightarrow> fst (generateColor s)) s
                (splatNormalized x y dx dy col s)"
  proof (cases col)
    case None
    have "splatApplied x y (dx * 1500) (dy * 1500) (fst (generateColor s)) s
            (splat x y (dx * 1500) (dy * 1500) (fst (generateColor s))
               (s\<lparr>paletteIndex := Suc (paletteIndex s), randomCalls := Suc (randomCalls s)\<rparr>))"
      using splat_applied[of "s\<lparr>paletteIndex := Suc (paletteIndex s),
                                  randomCalls := Suc (randomCalls s)\<rparr>"
              x y "dx * 1500" "dy * 1500" "fst (generateColor s)"] assms(2,3,4)
      unfolding splatApplied_counters by simp
    then show ?thesis
      using None by (simp add: splatNormalized_def split_beta generateColor_snd)
  next
    case (Some given)
    then show ?thesis
      using splat_applied[OF assms(2,3,4), of x y "dx * 1500" "dy * 1500" given]
      by (simp add: splatNormalized_def)
  qed
  have hostp: "passes SplatProgram (splatNormalized x y dx dy col s) = passes SplatProgram s + 2"
    using assms(2)
    by (cases col)
       (simp_all add: splatNormalized_def split_beta generateColor_snd splat_passes)
  have burst: "addRandomSplats n s = (randomSplat ^^ nat n) s"
    by (simp add: addRandomSplats_def multipleSplats_def multipleSplatsFrom_funpow)
  have rounds: "\<forall>k. randomSplatApplied ((randomSplat ^^ k) s) ((randomSplat ^^ Suc k) s)"
    using funpow_randomSplat_applied[OF assms(2,3,4)] by blast
  have burstp: "passes SplatProgram (addRandomSplats n s) = passes SplatProgram s + 2 * nat n"
    using assms(2) by (simp add: burst funpow_randomSplat_passes)
  have up: "update b s = render (applyInputs ?s0)"
    using assms(1) by (rule update_paused)
  have fields: "velocity (update b s) = velocity (pointerSplats ?ps ?s1)"
    "dye (update b s) = dye (pointerSplats ?ps ?s1)"
    unfolding up applyInputs_unfold by simp_all
  have steps: "(\<forall>k. randomSplatApplied ((randomSplat ^^ k) (burstStart ?s0))
                          ((randomSplat ^^ Suc k) (burstStart ?s0)))
               \<and> (\<forall>k<length ?ps.
                     pointerSplatApplied (?ps ! k) (pointerSplats (take k ?ps) ?s1)
                       (pointerSplats (take (Suc k) ?ps) ?s1))"
    if nr: "\<not> canvasResized b s"
  proof -
    have inv0: "bindAssigned (burstStart ?s0)" "doubleAligned (velocity (burstStart ?s0))"
      "doubleAligned (dye (burstStart ?s0))"
      using assms(2,3,4) by (simp_all add: beforeInputs_fields_noresize[OF nr])
    have inv1: "bindAssigned ?s1" "doubleAligned (velocity ?s1)" "doubleAligned (dye ?s1)"
      using inv0 by simp_all
    show ?thesis
      using funpow_randomSplat_applied[OF inv0] pointerSplats_applied[OF inv1]
      by blast
  qed
  have mv: "length (filter moved (pointers ?s0)) = length (filter moved (pointers s))"
    by (rule length_filter_moved) simp
  have tick: "passes SplatProgram (update b s) =
      passes SplatProgram s
      + 2 * (length (filter moved (pointers s))
             + (if splatStack s = [] then 0 else nat (last (splatStack s))))"
    using assms(2) unfolding up by (simp add: render_passes applyInputs_passes mv)
  have one: "\<not> canvasResized b s \<and> splatStack s = [] \<and> pointers s = [p] \<and> moved p \<longrightarrow>
      splatAdded (real (canvasWidth s) / real (canvasHeight s)) (texcoordX p, texcoordY p)
        (deltaX p * SPLAT_FORCE (CONFIG s), deltaY p * SPLAT_FORCE (CONFIG s), 0)
        (correctRadius s (SPLAT_RADIUS (CONFIG s) / 100))
        (velocity s) (velocity (update b s))
      \<and> splatAdded (real (canvasWidth s) / real (canvasHeight s)) (texcoordX p, texcoordY p)
          (red (color (hd (pointers (beforeInputs b s)))),
           green (color (hd (pointers (beforeInputs b s)))),
           blue (color (hd (pointers (beforeInputs b s)))))
          (correctRadius s (SPLAT_RADIUS (CONFIG s) / 100))
          (dye s) (dye (update b s))"
    using paused_tick_single_pointer[OF assms, of b p] by blast
  show ?thesis
    unfolding Let_def
    using host burst rounds fields steps hostp burstp tick one by blast
qed

theorem splats_run_while_paused_witness:
  "PAUSED (CONFIG demoPausedState) \<and> bindAssigned demoPausedState
   \<and> doubleAligned (velocity demoPausedState) \<and> doubleAligned (dye demoPausedState)
   \<and> passes SplatProgram (update demoBrowser demoPausedState) = 2
   \<and> pixels (dread (velocity (update demoBrowser demoPausedState))) 0 0 = Vec4 1 0 0 1
   \<and> dwrite (velocity (update demoBrowser demoPausedState))
       = dread (velocity demoPausedState)
   \<and> addRandomSplats 1 demoPausedState = randomSplat demoPausedState
   \<and> dwrite (velocity (addRandomSplats 1 demoPausedState))
       = dread (velocity demoPausedState)
   \<and> dwrite (dye (addRandomSplats 1 demoPausedState)) = dread (dye demoPausedState)
   \<and> texture (dread (dye (addRandomSplats 1 demoPausedState))) = 1
   \<and> dwrite (dye (splatNormalized (1 / 4) (1 / 4) 0 0 None demoPausedState))
       = dread (dye demoPausedState)"
proof -
  have tc: "texelCentre 2 0 = 1 / 4"
    by (simp add: texelCentre_def)
  note th = splats_run_while_paused[OF demoPaused_facts(1,2,3,4), where b = demoBrowser
        and p = "pointerPrototype\<lparr>texcoordX := 1 / 4, texcoordY := 1 / 4,
                        deltaX := 1 / 6000, down := True, moved := True,
                        color := RGB 1 0 0\<rparr>"
        and n = 1 and col = None and x = "1 / 4" and y = "1 / 4" and dx = 0 and dy = 0,
        unfolded Let_def]
  have tick: "passes SplatProgram (update demoBrowser demoPausedState) = 2
   \<and> pixels (dread (velocity (update demoBrowser demoPausedState))) 0 0 = Vec4 1 0 0 1
   \<and> dwrite (velocity (update demoBrowser demoPausedState))
       = dread (velocity demoPausedState)"
    using th[THEN conjunct2, THEN conjunct2, THEN conjunct2, THEN conjunct2, THEN conjunct2,
             THEN conjunct2, THEN conjunct2, THEN conjunct2]
    by (simp add: demoPaused_facts splatAdded_def tc splatWeight_centre pointerPrototype_def)
  have eq: "addRandomSplats 1 demoPausedState = randomSplat demoPausedState"
    using th by simp
  have "\<forall>k. randomSplatApplied ((randomSplat ^^ k) demoPausedState)
              ((randomSplat ^^ Suc k) demoPausedState)"
    using th by blast
  then have "randomSplatApplied ((randomSplat ^^ 0) demoPausedState)
              ((randomSplat ^^ Suc 0) demoPausedState)"
    by (rule spec)
  then have rs: "randomSplatApplied demoPausedState (addRandomSplats 1 demoPausedState)"
    by (simp add: eq)
  have tx: "texture (dwrite (dye demoPausedState)) = 1"
    by (simp add: demoPausedState_def demoState_def demoDouble_def demoFBO_def)
  have burst: "dwrite (velocity (addRandomSplats 1 demoPausedState))
       = dread (velocity demoPausedState)
     \<and> dwrite (dye (addRandomSplats 1 demoPausedState)) = dread (dye demoPausedState)
     \<and> texture (dread (dye (addRandomSplats 1 demoPausedState))) = 1"
    using rs tx
    by (simp add: randomSplatApplied_def splatApplied_def splatAdded_def Let_def)
  have "splatApplied (1 / 4) (1 / 4) (0 * 1500) (0 * 1500) (fst (generateColor demoPausedState))
          demoPausedState (splatNormalized (1 / 4) (1 / 4) 0 0 None demoPausedState)"
    using th by simp
  then have host: "dwrite (dye (splatNormalized (1 / 4) (1 / 4) 0 0 None demoPausedState))
       = dread (dye demoPausedState)"
    by (simp add: splatApplied_def splatAdded_def Let_def)
  show ?thesis
    using tick eq burst host by (simp add: demoPaused_facts)
qed

text \<open>
  C6 (amended).  In a tick with the pause flag set no pass of the solver is drawn.  Unless
  the canvas was resized, pressure, divergence and curl are what they were before the tick;
  velocity and dye are what they were unless the canvas was resized or a splat was pending
  (a burst on the stack or a pointer that has moved).  The input adapter and the renderer
  run all the same: the moved flags and one entry of the splat stack are consumed, and the
  last draw call of the tick is the display pass, which paints the dye onto the canvas.
  The renderer draws once \<^verbatim>\<open>Program.prototype.bind\<close> is assigned, which is the case in every
  paused tick: the flag is not set when the script loads, and the key handler and the
  object \<^verbatim>\<open>FluidField\<close> that set it are installed after the assignment
  (\<open>script_bindAssigned\<close>).
\<close>

theorem paused_tick_skips_solver:
  assumes "PAUSED (CONFIG s)"
  shows "solverDraws (update b s) = solverDraws s
     \<and> (\<not> canvasResized b s \<longrightarrow>
          pressure (update b s) = pressure s \<and> divergence (update b s) = divergence s
          \<and> curl (update b s) = curl s)
     \<and> (\<not> canvasResized b s \<and> \<not> pendingSplats s \<longrightarrow>
          velocity (update b s) = velocity s \<and> dye (update b s) = dye s)
     \<and> (bindAssigned s \<longrightarrow>
          passes DisplayProgram (update b s) = passes DisplayProgram s + 1
          \<and> last (draws (update b s)) = (DisplayProgram, Screen)
          \<and> (\<forall>x y. x < canvasWidth (update b s) \<and> y < canvasHeight (update b s) \<longrightarrow>
               screen (update b s) x y =
                 displayShader (dread (dye (update b s)))
                   (1 / real (canvasWidth (update b s)), 1 / real (canvasHeight (update b s)))
                   (if SHADING (CONFIG s) then 65 / 100 else 0)
                   (baseVertexShader
                      (1 / real (canvasWidth (update b s)),
                       1 / real (canvasHeight (update b s)))
                      (pixelUv (canvasWidth (update b s), canvasHeight (update b s)) x y))))
     \<and> filter moved (pointers (update b s)) = []
     \<and> splatStack (update b s) = butlast (splatStack s)"
proof -
  have up: "update b s = render (afterInputs b s)"
    using assms by (simp add: update_unfold)
  have "solverDraws (afterInputs b s) = solverDraws s"
    by (simp add: solverDraws_otherDraws)
  then have sd: "solverDraws (update b s) = solverDraws s"
    unfolding up by simp
  have pr: "\<not> canvasResized b s \<Longrightarrow>
      pressure (update b s) = pressure s \<and> divergence (update b s) = divergence s
      \<and> curl (update b s) = curl s"
    unfolding up by (simp add: afterInputs_pressure)
  have vd: "\<not> canvasResized b s \<and> \<not> pendingSplats s \<Longrightarrow>
      velocity (update b s) = velocity s \<and> dye (update b s) = dye s"
    unfolding up by (simp add: afterInputs_none beforeInputs_fields_noresize)
  have dp: "passes DisplayProgram (update b s) = passes DisplayProgram s + 1"
    if "bindAssigned s"
    unfolding up using that by (simp add: render_passes afterInputs_passes)
  have la: "last (draws (update b s)) = (DisplayProgram, Screen)" if "bindAssigned s"
    unfolding up using that by (simp add: render_last)
  have sc: "screen (update b s) x y =
            displayShader (dread (dye (update b s)))
              (1 / real (canvasWidth (update b s)), 1 / real (canvasHeight (update b s)))
              (if SHADING (CONFIG s) then 65 / 100 else 0)
              (baseVertexShader
                 (1 / real (canvasWidth (update b s)), 1 / real (canvasHeight (update b s)))
                 (pixelUv (canvasWidth (update b s), canvasHeight (update b s)) x y))"
    if "bindAssigned s" "x < canvasWidth (update b s)" "y < canvasHeight (update b s)" for x y
    using that render_screen[where s = "afterInputs b s" and x = x and y = y]
    unfolding up by simp
  have inp: "filter moved (pointers (update b s)) = []"
    "splatStack (update b s) = butlast (splatStack s)"
    unfolding up by (simp_all add: afterInputs_consumed)
  show ?thesis
    using sd pr vd dp la sc inp by blast
qed

theorem paused_tick_skips_solver_witness:
  "PAUSED (CONFIG demoIdlePausedState) \<and> bindAssigned demoIdlePausedState
   \<and> velocity (update demoBrowser demoIdlePausedState) = velocity demoIdlePausedState
   \<and> dye (update demoBrowser demoIdlePausedState) = dye demoIdlePausedState
   \<and> pressure (update demoBrowser demoIdlePausedState) = pressure demoIdlePausedState
   \<and> solverDraws (update demoBrowser demoIdlePausedState) = []
   \<and> passes DisplayProgram (update demoBrowser demoIdlePausedState) = 1"
proof -
  have f: "PAUSED (CONFIG demoIdlePausedState)"
    "\<not> canvasResized demoBrowser demoIdlePausedState"
    "\<not> pendingSplats demoIdlePausedState"
    "solverDraws demoIdlePausedState = []" "passes DisplayProgram demoIdlePausedState = 0"
    "bindAssigned demoIdlePausedState"
    by (simp_all add: demoIdlePausedState_def demoState_def demoBrowser_def
          CONFIG_default_def canvasResized_def scaleByPixelRatio_def pendingSplats_def
          pointerPrototype_def solverDraws_def passes_def)
  show ?thesis
    using paused_tick_skips_solver[OF f(1), of demoBrowser] f
    by simp
qed

text \<open>
  C6 as stated fails: in a paused tick a pointer that has moved is still splatted, and the
  velocity after the tick is not the velocity before it.
\<close>

theorem paused_tick_changes_fields_counterexample:
  "PAUSED (CONFIG demoPausedState)
   \<and> pixels (dread (velocity demoPausedState)) 0 0 = Vec4 0 0 0 1
   \<and> pixels (dread (velocity (update demoBrowser demoPausedState))) 0 0 = Vec4 1 0 0 1
   \<and> velocity (update demoBrowser demoPausedState) \<noteq> velocity demoPausedState"
proof -
  have tc: "texelCentre 2 0 = 1 / 4"
    by (simp add: texelCentre_def)
  have px: "pixels (dread (velocity (update demoBrowser demoPausedState))) 0 0 = Vec4 1 0 0 1"
    using paused_tick_single_pointer[OF demoPaused_facts(1,2,3,4,5,6,7)]
    by (simp add: Let_def demoPaused_facts splatAdded_def tc splatWeight_centre
          pointerPrototype_def)
  have "velocity (update demoBrowser demoPausedState) \<noteq> velocity demoPausedState"
  proof
    assume "velocity (update demoBrowser demoPausedState) = velocity demoPausedState"
    then have "pixels (dread (velocity (update demoBrowser demoPausedState))) 0 0
             = pixels (dread (velocity demoPausedState)) 0 0"
      by simp
    then show False
      by (simp add: px demoPaused_facts)
  qed
  then show ?thesis
    using px by (simp add: demoPaused_facts)
qed

end
